theory Spec2Isabelle
  imports Complex_Main
begin

section \<open>Values, errors and tables\<close>

text \<open>
  The solver of \<^verbatim>\<open>armageddon/solver.py\<close> computes with Python and numpy
  floats. The embedding idealises them as the real numbers: \<open>np.pi\<close>, \<open>np.sin\<close>,
  \<open>np.cos\<close>, \<open>np.exp\<close> and \<open>x ** 0.5\<close> are \<open>pi\<close>, \<open>sin\<close>, \<open>cos\<close>,
  \<open>exp\<close> and \<open>sqrt\<close>. Rounding, infinities and NaN are not modelled.

  Exceptions are values of the type \<open>error\<close>; a function that can raise returns
  \<open>error + 'a\<close> with \<open>Inl\<close> for the exception.
\<close>

datatype error =
    KeyError string
  | ValueError string
  | IndexError
  | TypeError string
  | FileNotFoundError string
  | OtherError string

definition bind_err :: "error + 'a \<Rightarrow> ('a \<Rightarrow> error + 'b) \<Rightarrow> error + 'b" where
  "bind_err m f = (case m of Inl e \<Rightarrow> Inl e | Inr x \<Rightarrow> f x)"

text \<open>
  A pandas DataFrame of floats with the default index \<open>0, 1, ..., n - 1\<close> (the
  index \<open>solve_atmospheric_entry\<close> produces): the ordered list of its named columns.
  With the default index a row's label is its position.
\<close>

type_synonym dataframe = "(string \<times> real list) list"

definition len_df :: "dataframe \<Rightarrow> nat" where
  "len_df df = (case df of [] \<Rightarrow> 0 | c # _ \<Rightarrow> length (snd c))"

definition wf_df :: "dataframe \<Rightarrow> bool" where
  "wf_df df \<longleftrightarrow> distinct (map fst df) \<and> list_all (\<lambda>c. length (snd c) = len_df df) df"

text \<open>\<open>df[key]\<close>: the column, KeyError when there is none of that name.\<close>

definition getitem :: "dataframe \<Rightarrow> string \<Rightarrow> error + real list" where
  "getitem df k = (case map_of df k of None \<Rightarrow> Inl (KeyError k) | Some c \<Rightarrow> Inr c)"

text \<open>\<open>series[i]\<close> by label on the default index: KeyError out of range.\<close>

definition series_at :: "real list \<Rightarrow> nat \<Rightarrow> error + real" where
  "series_at xs i = (if i < length xs then Inr (xs ! i) else Inl (KeyError ''label''))"

text \<open>
  \<open>df.insert(loc, column, values)\<close>. ValueError when the column exists already.
  A table without rows that is given values takes the index of the values before the
  column goes in: it grows to as many rows as there are values, and pandas fills the
  cells of the columns it had with NaN. The reals have no NaN: in the model those cells
  hold \<open>nan\<close>, a real of which nothing is known. Otherwise ValueError when the number of
  values is not the number of rows.
\<close>

definition nan :: real where
  "nan = undefined"

definition df_insert :: "dataframe \<Rightarrow> nat \<Rightarrow> string \<Rightarrow> real list \<Rightarrow> error + dataframe" where
  "df_insert df loc column vs =
     (if map_of df column \<noteq> None then Inl (ValueError ''cannot insert, already exists'')
      else if len_df df = 0 \<and> vs \<noteq> []
      then (let df' = map (\<lambda>c. (fst c, replicate (length vs) nan)) df
            in Inr (take loc df' @ [(column, vs)] @ drop loc df'))
      else if length vs \<noteq> len_df df then Inl (ValueError ''Length of values does not match length of index'')
      else Inr (take loc df @ [(column, vs)] @ drop loc df))"

text \<open>
  \<open>series.idxmax()\<close>: the label of the first occurrence of the maximum; ValueError
  on an empty series.
\<close>

fun first_index :: "real list \<Rightarrow> real \<Rightarrow> nat" where
  "first_index [] v = 0"
| "first_index (x # xs) v = (if x = v then 0 else Suc (first_index xs v))"

definition idxmax :: "real list \<Rightarrow> error + nat" where
  "idxmax xs =
     (case xs of
        [] \<Rightarrow> Inl (ValueError ''attempt to get argmax of an empty sequence'')
      | x # ys \<Rightarrow> Inr (first_index xs (fold max ys x)))"

section \<open>The energy profile\<close>

text \<open>
  Tables are objects: \<open>calculate_energy\<close> receives a reference and mutates the
  table behind it. The store maps references to tables.
\<close>

type_synonym ref = nat
type_synonym heap = "ref \<Rightarrow> dataframe"

text \<open>
  \<^verbatim>\<open>
  mass = result["mass"]
  velocity = result["velocity"]
  altitude = np.array(result["altitude"])
  dedz = np.array(0.5 * mass * velocity**2)
  temp = (dedz[1:] - dedz[:-1])/(altitude[:-1] - altitude[1:])
  temp = temp/(4.184*10**9)
  temp = np.insert(temp, 0, 0)
  result.insert(len(result.columns), 'dedz', -temp)
  return result
  \<close>
\<close>

definition kinetic :: "real list \<Rightarrow> real list \<Rightarrow> real list" where
  "kinetic mass velocity = map2 (\<lambda>m v. 0.5 * m * v ^ 2) mass velocity"

definition energy_column :: "real list \<Rightarrow> real list \<Rightarrow> real list \<Rightarrow> real list" where
  "energy_column mass velocity altitude =
     (let dedz = kinetic mass velocity;
          temp = map2 (\<lambda>a b. a / b)
                   (map2 (\<lambda>a b. a - b) (tl dedz) (butlast dedz))
                   (map2 (\<lambda>a b. a - b) (butlast altitude) (tl altitude));
          temp = map (\<lambda>t. t / (4.184 * 10 ^ 9)) temp;
          temp = 0 # temp
      in map uminus temp)"

definition calculate_energy :: "ref \<Rightarrow> heap \<Rightarrow> (error + ref) \<times> heap" where
  "calculate_energy result h =
     (case getitem (h result) ''mass'' of Inl e \<Rightarrow> (Inl e, h) | Inr mass \<Rightarrow>
      case getitem (h result) ''velocity'' of Inl e \<Rightarrow> (Inl e, h) | Inr velocity \<Rightarrow>
      case getitem (h result) ''altitude'' of Inl e \<Rightarrow> (Inl e, h) | Inr altitude \<Rightarrow>
      case df_insert (h result) (length (h result)) ''dedz''
             (energy_column mass velocity altitude) of
        Inl e \<Rightarrow> (Inl e, h)
      | Inr df' \<Rightarrow> (Inr result, h(result := df')))"

section \<open>The outcome\<close>

record outcome_dict =
  outcome :: string
  burst_peak_dedz :: real
  burst_altitude :: real
  burst_distance :: real
  burst_energy :: real

text \<open>
  \<^verbatim>\<open>
  burstidx = result['dedz'].idxmax()
  initial_energy = (0.5 * result["mass"][0] * result["velocity"][0]**2 / (4.184*10**12))
  burstenergy = (0.5 * result["mass"][burstidx] * result["velocity"][burstidx]**2 / (4.184*10**12))
  outcome = "Airburst"
  if burstidx == len(result) - 1:
      outcome = "Cratering"
      burstenergy = max(burstenergy, initial_energy - burstenergy)
      burst_altitude = 0
  else:
      burstenergy = initial_energy - burstenergy
      burst_altitude = result["altitude"][burstidx]
  outcome = {'outcome': outcome, 'burst_peak_dedz': result['dedz'][burstidx],
             'burst_altitude': burst_altitude,
             'burst_distance': result["distance"][burstidx],
             'burst_energy': burstenergy}
  \<close>
  \<open>col_at\<close> is \<open>result[key][i]\<close>.
\<close>

definition col_at :: "dataframe \<Rightarrow> string \<Rightarrow> nat \<Rightarrow> error + real" where
  "col_at df k i = bind_err (getitem df k) (\<lambda>c. series_at c i)"

definition analyse_outcome :: "dataframe \<Rightarrow> error + outcome_dict" where
  "analyse_outcome result =
     bind_err (getitem result ''dedz'') (\<lambda>dedz.
     bind_err (idxmax dedz) (\<lambda>burstidx.
     bind_err (col_at result ''mass'' 0) (\<lambda>m0.
     bind_err (col_at result ''velocity'' 0) (\<lambda>v0.
     bind_err (col_at result ''mass'' burstidx) (\<lambda>mb.
     bind_err (col_at result ''velocity'' burstidx) (\<lambda>vb.
       let initial_energy = 0.5 * m0 * v0 ^ 2 / (4.184 * 10 ^ 12);
           burstenergy = 0.5 * mb * vb ^ 2 / (4.184 * 10 ^ 12)
       in
       bind_err
         (if int burstidx = int (len_df result) - 1
          then Inr (''Cratering'', max burstenergy (initial_energy - burstenergy), 0)
          else bind_err (col_at result ''altitude'' burstidx) (\<lambda>zb.
                 Inr (''Airburst'', initial_energy - burstenergy, zb)))
         (\<lambda>(oc, burstenergy', burst_altitude').
     bind_err (col_at result ''dedz'' burstidx) (\<lambda>peak.
     bind_err (col_at result ''distance'' burstidx) (\<lambda>xb.
       Inr \<lparr> outcome = oc, burst_peak_dedz = peak, burst_altitude = burst_altitude',
             burst_distance = xb, burst_energy = burstenergy' \<rparr>)))))))))"

section \<open>The planet\<close>

text \<open>
  The object \<open>self\<close>: the constants, the density function \<open>rhoa\<close>, and the
  attributes a run of the solver assigns. \<open>__init__\<close> sets the six series
  attributes to the placeholder \<open>-1\<close>, which no code reads before a solver replaces it
  by a list; the model holds the empty list there. \<open>strength\<close> and \<open>density\<close> do
  not exist before \<open>solve_atmospheric_entry\<close> assigns them; the model holds 0 there.
\<close>

record planet =
  Cd :: real
  Ch :: real
  Q :: real
  Cl :: real
  alpha :: real
  Rp :: real
  g :: real
  H :: real
  rho0 :: real
  atmos_filename :: string
  rhoa :: "real \<Rightarrow> real"
  velocity :: "real list"
  mass :: "real list"
  angle :: "real list"
  altitude :: "real list"
  distance :: "real list"
  radius :: "real list"
  alltimestep :: "real list"
  burstpoint :: int
  strength :: real
  density :: real

subsection \<open>The tabular atmosphere\<close>

text \<open>
  The world outside: \<open>read_csv\<close> gives the cells of the first column of the file of
  that name (one string per data row), or the exception \<open>pd.read_csv\<close> raises;
  \<open>py_eval\<close> is Python's \<open>eval\<close> on a token of a row.
\<close>

record world =
  read_csv :: "string \<Rightarrow> error + string list"
  py_eval :: "string \<Rightarrow> error + real"

text \<open>
  The characters of a string are code points below 256. Of these, \<open>str.isspace\<close>
  holds of the tab, line feed, vertical tab, form feed and carriage return, of the four
  separators \<open>0x1C\<close> to \<open>0x1F\<close>, of the space, of the next-line character \<open>0x85\<close>
  and of the no-break space \<open>0xA0\<close>.
\<close>

definition is_space :: "char \<Rightarrow> bool" where
  "is_space c \<longleftrightarrow>
     c \<in> set [CHR 0x09, CHR 0x0A, CHR 0x0B, CHR 0x0C, CHR 0x0D,
              CHR 0x1C, CHR 0x1D, CHR 0x1E, CHR 0x1F, CHR '' '', CHR 0x85, CHR 0xA0]"

text \<open>\<open>str.split()\<close>: the maximal runs of characters that are not whitespace.\<close>

fun split_ws :: "string \<Rightarrow> string \<Rightarrow> string list" where
  "split_ws [] cur = (if cur = [] then [] else [cur])"
| "split_ws (c # cs) cur =
     (if is_space c then (if cur = [] then split_ws cs [] else cur # split_ws cs [])
      else split_ws cs (cur @ [c]))"

definition list_at :: "'a list \<Rightarrow> nat \<Rightarrow> error + 'a" where
  "list_at xs i = (if i < length xs then Inr (xs ! i) else Inl IndexError)"

text \<open>
  \<^verbatim>\<open>
  for i in data[data.keys()[0]]:
      temp = i.split()
      X.append(eval(temp[0]))
      Y.append(eval(temp[1]))
  \<close>
\<close>

fun load_rows :: "world \<Rightarrow> string list \<Rightarrow> real list \<Rightarrow> real list \<Rightarrow> error + real list \<times> real list" where
  "load_rows w [] X Y = Inr (X, Y)"
| "load_rows w (i # rest) X Y =
     (let temp = split_ws i [] in
      bind_err (list_at temp 0) (\<lambda>t0.
      bind_err (py_eval w t0) (\<lambda>x.
      bind_err (list_at temp 1) (\<lambda>t1.
      bind_err (py_eval w t1) (\<lambda>y.
        load_rows w rest (X @ [x]) (Y @ [y]))))))"

text \<open>
  The function \<open>create_tabular_density\<close> returns. \<open>X\<close> and \<open>Y\<close> are in its
  closure; its body does not read them.
\<close>

definition tabular_density :: "real list \<Rightarrow> real list \<Rightarrow> real \<Rightarrow> real" where
  "tabular_density X Y x =
     1.225 - 9.910220744570666 / 10 ^ 5 * x + 1.0633480000486046 / 10 ^ 9 * x ^ 2
     + 4.098166536722918 / 10 ^ 14 * x ^ 3 + 1.0285099346022191 / 10 ^ 17 * x ^ 4
     - 1.045342967336349 / 10 ^ 21 * x ^ 5 + 4.396108172607025 / 10 ^ 26 * x ^ 6
     - 1.0712304649951357 / 10 ^ 30 * x ^ 7 + 1.657059541531033 / 10 ^ 35 * x ^ 8
     - 1.6597297898210513 / 10 ^ 40 * x ^ 9 + 1.0474179820376901 / 10 ^ 45 * x ^ 10
     - 3.7975400341113775 / 10 ^ 51 * x ^ 11 + 6.044604125297617 / 10 ^ 57 * x ^ 12"

definition create_tabular_density :: "world \<Rightarrow> string \<Rightarrow> error + (real \<Rightarrow> real)" where
  "create_tabular_density w filename =
     bind_err (read_csv w filename) (\<lambda>data.
     bind_err (load_rows w data [] []) (\<lambda>(X, Y).
       Inr (tabular_density X Y)))"

subsection \<open>Construction\<close>

text \<open>
  \<open>Planet.__init__\<close>. The result is the exception that leaves the constructor, or
  the object together with the lines it printed. Only \<open>NotImplementedError\<close>, raised in
  the last branch, is caught.

  The tabular branch is
  \<^verbatim>\<open>self.rhoa = self.create_tabular_density(filename=atmos_filename)\<close>
  and the method is \<^verbatim>\<open>def create_tabular_density(self, atmos_filename)\<close>: it has no
  parameter \<open>filename\<close>. Python raises TypeError while it binds the arguments of the
  call, before the body of the method runs and so before any file is read, whatever the
  file name is. (The text of the message varies with the version of Python.)
\<close>

definition Planet_init ::
  "string \<Rightarrow> string \<Rightarrow> real \<Rightarrow> real \<Rightarrow> real \<Rightarrow> real \<Rightarrow> real \<Rightarrow> real \<Rightarrow> real \<Rightarrow> real \<Rightarrow> real
     \<Rightarrow> error + planet \<times> string list" where
  "Planet_init atmos_func filename Cd' Ch' Q' Cl' alpha' Rp' g' H' rho0' =
     (let self = \<lparr> Cd = Cd', Ch = Ch', Q = Q', Cl = Cl', alpha = alpha', Rp = Rp', g = g',
                   H = H', rho0 = rho0', atmos_filename = filename, rhoa = (\<lambda>x. 0),
                   velocity = [], mass = [], angle = [], altitude = [], distance = [],
                   radius = [], alltimestep = [], burstpoint = - 1, strength = 0,
                   density = 0 \<rparr>
      in
      if atmos_func = ''exponential''
      then Inr (self\<lparr>rhoa := (\<lambda>x. rho0' * exp (- x / H'))\<rparr>, [])
      else if atmos_func = ''tabular''
      then Inl (TypeError (''create_tabular_density() got an unexpected keyword argument ''
                           @ [CHR 0x27] @ ''filename'' @ [CHR 0x27]))
      else if atmos_func = ''constant''
      then Inr (self\<lparr>rhoa := (\<lambda>x. rho0')\<rparr>, [])
      else Inr (self\<lparr>rhoa := (\<lambda>x. rho0')\<rparr>,
                [''atmos_func '' @ atmos_func @ '' not implemented yet.'',
                 ''Falling back to constant density atmosphere for now'']))"

section \<open>The derivative and the two integrators\<close>

type_synonym vec6 = "real \<times> real \<times> real \<times> real \<times> real \<times> real"

definition vadd :: "vec6 \<Rightarrow> vec6 \<Rightarrow> vec6" where
  "vadd a b =
     (case a of (a1, a2, a3, a4, a5, a6) \<Rightarrow>
      case b of (b1, b2, b3, b4, b5, b6) \<Rightarrow>
        (a1 + b1, a2 + b2, a3 + b3, a4 + b4, a5 + b5, a6 + b6))"

definition smul :: "real \<Rightarrow> vec6 \<Rightarrow> vec6" where
  "smul c a = (case a of (a1, a2, a3, a4, a5, a6) \<Rightarrow> (c * a1, c * a2, c * a3, c * a4, c * a5, c * a6))"

text \<open>
  \<open>calculator_rk4\<close>: the derivative of (angle, radius, altitude, velocity, mass,
  distance), and the object, whose \<open>burstpoint\<close> the call may have set.
\<close>

definition calculator_rk4 :: "planet \<Rightarrow> vec6 \<Rightarrow> vec6 \<times> planet" where
  "calculator_rk4 self variables =
     (case variables of (angle_v, radius_v, altitude_v, velocity_v, mass_v, _) \<Rightarrow>
      let cos_theta = cos angle_v;
          sin_theta = sin angle_v;
          area = pi * radius_v ^ 2;
          rhoa_v = rhoa self altitude_v;
          rhoAv = rhoa_v * area * velocity_v;
          dvdt = - Cd self * rhoAv * velocity_v / (2 * mass_v) + g self * sin_theta;
          dmdt = - Ch self * rhoAv * velocity_v ^ 2 / (2 * Q self);
          dthetadt = - Cl self * rhoAv / (2 * mass_v) + g self * cos_theta / velocity_v
                     - velocity_v * cos_theta / (Rp self + altitude_v);
          dzdt = - velocity_v * sin_theta;
          dxdt = velocity_v * cos_theta / (1 + altitude_v / Rp self);
          ram = rhoa self altitude_v * velocity_v ^ 2;
          self' = (if ram > strength self \<and> burstpoint self = - 1
                   then self\<lparr>burstpoint := int (length (distance self))\<rparr> else self);
          drdt = (if ram > strength self
                  then sqrt (7 * rhoa_v * alpha self / 2 / density self) * velocity_v else 0)
      in ((dthetadt, drdt, dzdt, dvdt, dmdt, dxdt), self'))"

definition RK4_helper :: "planet \<Rightarrow> real \<Rightarrow> vec6 \<times> planet" where
  "RK4_helper self timestep =
     (let variables = (last (angle self), last (radius self), last (altitude self),
                       last (velocity self), last (mass self), last (distance self));
          (k1, self1) = calculator_rk4 self variables;
          (k2, self2) = calculator_rk4 self1 (vadd variables (smul (0.5 * timestep) k1));
          (k3, self3) = calculator_rk4 self2 (vadd variables (smul (0.5 * timestep) k2));
          (k4, self4) = calculator_rk4 self3 (vadd variables (smul timestep k3));
          change = smul (timestep / 6) (vadd (vadd (vadd k1 (smul 2 k2)) (smul 2 k3)) k4)
      in (change, self4))"

text \<open>The stopping test both loops make after appending a step.\<close>

definition stopped :: "planet \<Rightarrow> real \<Rightarrow> bool" where
  "stopped self init_altitude \<longleftrightarrow>
     last (altitude self) \<le> 0 \<or> last (mass self) \<le> 0 \<or> last (radius self) \<le> 0
     \<or> last (velocity self) \<le> 0 \<or> last (altitude self) \<ge> init_altitude"

text \<open>One pass through the body of the loop of \<open>solve_atmospheric_entry_RK4\<close>.\<close>

definition RK4_body :: "planet \<Rightarrow> real \<Rightarrow> planet" where
  "RK4_body self dt =
     (case RK4_helper self dt of ((ctheta, cr, cz, cv, cm, cx), s) \<Rightarrow>
        s\<lparr> velocity := velocity s @ [cv + last (velocity s)],
           mass := mass s @ [cm + last (mass s)],
           altitude := altitude s @ [cz + last (altitude s)],
           angle := angle s @ [ctheta + last (angle s)],
           distance := distance s @ [cx + last (distance s)],
           radius := radius s @ [cr + last (radius s)],
           alltimestep := alltimestep s @ [dt + last (alltimestep s)] \<rparr>)"

text \<open>
  \<open>while True: ...; if ...: break\<close>. The loop has no bound on its passes:
  \<open>None\<close> is the run that never leaves it.
\<close>

partial_function (option) loop_RK4 :: "real \<Rightarrow> real \<Rightarrow> planet \<Rightarrow> planet option" where
  "loop_RK4 init_altitude dt self =
     (let self' = RK4_body self dt in
      if stopped self' init_altitude then Some self' else loop_RK4 init_altitude dt self')"

definition start :: "planet \<Rightarrow> real \<Rightarrow> real \<Rightarrow> real \<Rightarrow> real \<Rightarrow> planet" where
  "start self radius_in velocity_in angle_in init_altitude =
     self\<lparr> velocity := [velocity_in],
           mass := [4 / 3 * pi * radius_in ^ 3 * density self],
           angle := [angle_in],
           altitude := [init_altitude],
           distance := [0],
           radius := [radius_in],
           alltimestep := [0] \<rparr>"

definition solve_atmospheric_entry_RK4 ::
  "planet \<Rightarrow> real \<Rightarrow> real \<Rightarrow> real \<Rightarrow> real \<Rightarrow> real \<Rightarrow> planet option" where
  "solve_atmospheric_entry_RK4 self radius_in velocity_in angle_in init_altitude dt =
     loop_RK4 init_altitude dt (start self radius_in velocity_in angle_in init_altitude)"

text \<open>One pass through the body of the loop of \<open>solve_atmospheric_entry_FE\<close>.\<close>

definition FE_body :: "planet \<Rightarrow> real \<Rightarrow> planet" where
  "FE_body self timestep =
     (let cos_theta = cos (last (angle self));
          sin_theta = sin (last (angle self));
          area = pi * last (radius self) ^ 2;
          rhoa_v = rhoa self (last (altitude self));
          rhoAv = rhoa_v * area * last (velocity self);
          dvdt = - Cd self * rhoAv * last (velocity self) / (2 * last (mass self))
                 + g self * sin_theta;
          dmdt = - Ch self * rhoAv * last (velocity self) ^ 2 / (2 * Q self);
          dthetadt = - Cl self * rhoAv / (2 * last (mass self))
                     + g self * cos_theta / last (velocity self)
                     - last (velocity self) * cos_theta / (Rp self + last (altitude self));
          dzdt = - last (velocity self) * sin_theta;
          dxdt = last (velocity self) * cos_theta / (1 + last (altitude self) / Rp self);
          ram = rhoa self (last (altitude self)) * last (velocity self) ^ 2;
          s = (if ram > strength self \<and> burstpoint self = - 1
               then self\<lparr>burstpoint := int (length (distance self))\<rparr> else self);
          drdt = (if ram > strength self
                  then sqrt (7 * rhoa_v * alpha self / 2 / density self) * last (velocity self)
                  else 0)
      in s\<lparr> velocity := velocity s @ [dvdt * timestep + last (velocity s)],
            mass := mass s @ [dmdt * timestep + last (mass s)],
            altitude := altitude s @ [dzdt * timestep + last (altitude s)],
            angle := angle s @ [dthetadt * timestep + last (angle s)],
            distance := distance s @ [dxdt * timestep + last (distance s)],
            radius := radius s @ [drdt * timestep + last (radius s)],
            alltimestep := alltimestep s @ [timestep + last (alltimestep s)] \<rparr>)"

partial_function (option) loop_FE :: "real \<Rightarrow> real \<Rightarrow> planet \<Rightarrow> planet option" where
  "loop_FE init_altitude dt self =
     (let self' = FE_body self dt in
      if stopped self' init_altitude then Some self' else loop_FE init_altitude dt self')"

definition solve_atmospheric_entry_FE ::
  "planet \<Rightarrow> real \<Rightarrow> real \<Rightarrow> real \<Rightarrow> real \<Rightarrow> real \<Rightarrow> planet option" where
  "solve_atmospheric_entry_FE self radius_in velocity_in angle_in init_altitude dt =
     loop_FE init_altitude dt (start self radius_in velocity_in angle_in init_altitude)"

section \<open>The entry point\<close>

text \<open>
  The choice of the solver by name, with the lines the choice prints:
  \<^verbatim>\<open>
  if backend == "FE":
      solver = self.solve_atmospheric_entry_FE
  elif backend == "RK4":
      solver = self.solve_atmospheric_entry_RK4
  else:
      try:
          raise NotImplementedError("backend must be 'FE' or 'RK4' ")
      except NotImplementedError:
          print("solving method {} not implemented yet.".format(backend))
          print("Falling back to FE for now")
          solver = self.solve_atmospheric_entry_FE
  \<close>
\<close>

datatype solver = FE | RK4

definition select_solver :: "string \<Rightarrow> solver \<times> string list" where
  "select_solver backend =
     (if backend = ''FE'' then (FE, [])
      else if backend = ''RK4'' then (RK4, [])
      else (FE, [''solving method '' @ backend @ '' not implemented yet.'',
                 ''Falling back to FE for now'']))"

fun run_solver :: "solver \<Rightarrow> planet \<Rightarrow> real \<Rightarrow> real \<Rightarrow> real \<Rightarrow> real \<Rightarrow> real \<Rightarrow> planet option" where
  "run_solver FE = solve_atmospheric_entry_FE"
| "run_solver RK4 = solve_atmospheric_entry_RK4"

text \<open>
  \<open>solve_atmospheric_entry\<close>: the table it returns, the object as the run leaves it,
  and the lines it printed; \<open>None\<close> when the solver's loop never ends.
\<close>

definition solve_atmospheric_entry ::
  "planet \<Rightarrow> real \<Rightarrow> real \<Rightarrow> real \<Rightarrow> real \<Rightarrow> real \<Rightarrow> real \<Rightarrow> real \<Rightarrow> bool \<Rightarrow> string
     \<Rightarrow> (dataframe \<times> planet \<times> string list) option" where
  "solve_atmospheric_entry self radius_in velocity_in density_in strength_in angle_in
       init_altitude dt radians backend =
     (let angle1 = (if \<not> radians then angle_in / 180 * pi else angle_in);
          self1 = self\<lparr>strength := strength_in, density := density_in, burstpoint := - 1\<rparr>
      in
      case select_solver backend of (solver, printed) \<Rightarrow>
      case run_solver solver self1 radius_in velocity_in angle1 init_altitude dt of
        None \<Rightarrow> None
      | Some self2 \<Rightarrow>
          let all_angle = (if \<not> radians then map (\<lambda>i. i / pi * 180) (angle self2)
                           else angle self2)
          in Some ([(''velocity'', butlast (velocity self2)),
                    (''mass'', butlast (mass self2)),
                    (''angle'', butlast all_angle),
                    (''altitude'', butlast (altitude self2)),
                    (''distance'', butlast (distance self2)),
                    (''radius'', butlast (radius self2)),
                    (''time'', butlast (alltimestep self2))], self2, printed))"

text \<open>
  The defaults of the optional parameters: of \<open>solve_atmospheric_entry\<close>
  (\<open>init_altitude=100e3, dt=0.05, radians=False, backend="RK4"\<close>) and of the
  constructor (\<open>Cd=1., Ch=0.1, Q=1e7, Cl=1e-3, alpha=0.3, Rp=6371e3, g=9.81, H=8000.,
  rho0=1.2\<close>).
\<close>

definition default_init_altitude :: real where
  "default_init_altitude = 100000"

definition default_dt :: real where
  "default_dt = 0.05"

definition default_radians :: bool where
  "default_radians = False"

definition default_backend :: string where
  "default_backend = ''RK4''"

definition Planet_default :: "string \<Rightarrow> string \<Rightarrow> error + planet \<times> string list" where
  "Planet_default atmos_func filename =
     Planet_init atmos_func filename 1 0.1 (10 ^ 7) (1 / 10 ^ 3) 0.3 6371000 9.81 8000 1.2"

section \<open>The passes of a run\<close>

text \<open>
  One pass through the body of the loop of the solver chosen, and the object as
  \<open>solve_atmospheric_entry\<close> hands it to that loop: \<open>strength\<close>, \<open>density\<close> and
  \<open>burstpoint\<close> assigned, the angle in radians, each series holding the initial state.
  \<open>after_passes ... k\<close> is the object after \<open>k\<close> passes of the loop of the run
  with these arguments, whether or not the loop makes that many.
\<close>

fun loop_body :: "solver \<Rightarrow> planet \<Rightarrow> real \<Rightarrow> planet" where
  "loop_body FE = FE_body"
| "loop_body RK4 = RK4_body"

definition entry_state ::
  "planet \<Rightarrow> real \<Rightarrow> real \<Rightarrow> real \<Rightarrow> real \<Rightarrow> real \<Rightarrow> real \<Rightarrow> bool \<Rightarrow> planet" where
  "entry_state self radius_in velocity_in density_in strength_in angle_in init_altitude radians =
     start (self\<lparr>strength := strength_in, density := density_in, burstpoint := - 1\<rparr>)
       radius_in velocity_in (if \<not> radians then angle_in / 180 * pi else angle_in) init_altitude"

definition after_passes ::
  "planet \<Rightarrow> real \<Rightarrow> real \<Rightarrow> real \<Rightarrow> real \<Rightarrow> real \<Rightarrow> real \<Rightarrow> real \<Rightarrow> bool \<Rightarrow> string \<Rightarrow> nat
     \<Rightarrow> planet" where
  "after_passes self radius_in velocity_in density_in strength_in angle_in init_altitude dt
       radians backend k =
     ((\<lambda>s. loop_body (fst (select_solver backend)) s dt) ^^ k)
       (entry_state self radius_in velocity_in density_in strength_in angle_in init_altitude
          radians)"

text \<open>
  The points at which one pass evaluates the derivative, in the order of the
  evaluations: the last state for the Euler pass, and for the Runge-Kutta pass the
  arguments of the four calls of \<open>calculator_rk4\<close> in \<open>RK4_helper\<close>. \<open>ram\<close> is the
  ram pressure the evaluation at a point compares with the strength, and
  \<open>crossing solver self dt\<close> says that the pass from \<open>self\<close> has an evaluation whose
  ram pressure exceeds the strength.
\<close>

definition FE_points :: "planet \<Rightarrow> vec6 list" where
  "FE_points self =
     [(last (angle self), last (radius self), last (altitude self),
       last (velocity self), last (mass self), last (distance self))]"

definition RK4_points :: "planet \<Rightarrow> real \<Rightarrow> vec6 list" where
  "RK4_points self timestep =
     (let variables = (last (angle self), last (radius self), last (altitude self),
                       last (velocity self), last (mass self), last (distance self));
          (k1, self1) = calculator_rk4 self variables;
          x2 = vadd variables (smul (0.5 * timestep) k1);
          (k2, self2) = calculator_rk4 self1 x2;
          x3 = vadd variables (smul (0.5 * timestep) k2);
          (k3, self3) = calculator_rk4 self2 x3;
          x4 = vadd variables (smul timestep k3)
      in [variables, x2, x3, x4])"

fun evaluations :: "solver \<Rightarrow> planet \<Rightarrow> real \<Rightarrow> vec6 list" where
  "evaluations FE self dt = FE_points self"
| "evaluations RK4 self dt = RK4_points self dt"

definition ram :: "planet \<Rightarrow> vec6 \<Rightarrow> real" where
  "ram self variables =
     (case variables of (angle_v, radius_v, altitude_v, velocity_v, mass_v, distance_v) \<Rightarrow>
        rhoa self altitude_v * velocity_v ^ 2)"

text \<open>The velocity and the mass among the six components of a point or of a derivative.\<close>

definition vel :: "vec6 \<Rightarrow> real" where
  "vel variables =
     (case variables of (angle_v, radius_v, altitude_v, velocity_v, mass_v, distance_v) \<Rightarrow>
        velocity_v)"

definition mass_part :: "vec6 \<Rightarrow> real" where
  "mass_part variables =
     (case variables of (angle_v, radius_v, altitude_v, velocity_v, mass_v, distance_v) \<Rightarrow>
        mass_v)"

definition crossing :: "solver \<Rightarrow> planet \<Rightarrow> real \<Rightarrow> bool" where
  "crossing solver self dt \<longleftrightarrow>
     list_ex (\<lambda>p. ram self p > strength self) (evaluations solver self dt)"

section \<open>Series that continue one another\<close>

text \<open>
  \<open>grows l l' n\<close>: the list \<open>l'\<close> is \<open>l\<close> with \<open>n\<close> entries appended.
  \<open>grown s t n\<close>: each of the seven series of the object \<open>t\<close> is the series of
  \<open>s\<close> with \<open>n\<close> entries appended.
\<close>

definition grows :: "real list \<Rightarrow> real list \<Rightarrow> nat \<Rightarrow> bool" where
  "grows l l' n \<longleftrightarrow> length l' = length l + n \<and> take (length l) l' = l"

definition grown :: "planet \<Rightarrow> planet \<Rightarrow> nat \<Rightarrow> bool" where
  "grown s t n \<longleftrightarrow>
     grows (velocity s) (velocity t) n \<and> grows (mass s) (mass t) n
     \<and> grows (angle s) (angle t) n \<and> grows (altitude s) (altitude t) n
     \<and> grows (distance s) (distance t) n \<and> grows (radius s) (radius t) n
     \<and> grows (alltimestep s) (alltimestep t) n"


text \<open>
  \<open>one_step s t\<close>: the object \<open>t\<close> is \<open>s\<close> after one pass through the body of a
  loop, as far as the shape of the series and \<open>burstpoint\<close> go: one entry more in each
  series, and \<open>burstpoint\<close> kept, or set to the number of steps taken when it was
  \<open>-1\<close>.
\<close>

definition one_step :: "planet \<Rightarrow> planet \<Rightarrow> bool" where
  "one_step s t \<longleftrightarrow>
     (\<exists>b v m a z x r tm.
        t = s\<lparr> burstpoint := b,
               velocity := velocity s @ [v], mass := mass s @ [m],
               altitude := altitude s @ [z], angle := angle s @ [a],
               distance := distance s @ [x], radius := radius s @ [r],
               alltimestep := alltimestep s @ [tm] \<rparr>
        \<and> (burstpoint s \<noteq> - 1 \<longrightarrow> b = burstpoint s)
        \<and> (b = - 1 \<or> b = burstpoint s \<or> b = int (length (distance s))))"

text \<open>A series that never increases from one entry to the next.\<close>

definition nonincreasing :: "real list \<Rightarrow> bool" where
  "nonincreasing l \<longleftrightarrow> (\<forall>i. Suc i < length l \<longrightarrow> l ! Suc i \<le> l ! i)"

section \<open>The derivative on a planet of constant density, without fragmentation\<close>

text \<open>
  \<open>quiet p\<close>: the object has the default constants, the constant atmosphere of
  density 1.2, and the strength \<open>1e12\<close>. For a body of radius \<open>0.1\<close> whose angle is
  \<open>pi/2 + d\<close> and whose mass is \<open>pi * M\<close>, the derivative \<open>calculator_rk4\<close> computes
  is, while the ram pressure stays below the strength, \<open>Gd\<close> for the angle, \<open>Gz\<close> for
  the altitude, \<open>Gv\<close> for the velocity, \<open>pi * GM\<close> for the mass and \<open>Gx\<close> for the
  distance: the factor \<open>pi\<close> of the cross section cancels against that of the mass.
\<close>

definition quiet :: "planet \<Rightarrow> bool" where
  "quiet p \<longleftrightarrow>
     Cd p = 1 \<and> Ch p = 1 / 10 \<and> Q p = 10 ^ 7 \<and> Cl p = 1 / 10 ^ 3 \<and> Rp p = 6371000
     \<and> g p = 981 / 100 \<and> rhoa p = (\<lambda>x. 12 / 10) \<and> strength p = 10 ^ 12"

definition Gd :: "real \<Rightarrow> real \<Rightarrow> real \<Rightarrow> real \<Rightarrow> real" where
  "Gd d z v M =
     v * (sin d * (1 / (6371000 + z))) - 981 / 100 * (sin d * (1 / v))
     - 6 / 10 ^ 6 * (v * (1 / M))"

definition Gz :: "real \<Rightarrow> real \<Rightarrow> real" where
  "Gz d v = - (v * cos d)"

definition Gv :: "real \<Rightarrow> real \<Rightarrow> real \<Rightarrow> real" where
  "Gv d v M = 981 / 100 * cos d - 6 / 10 ^ 3 * ((v * v) * (1 / M))"

definition GM :: "real \<Rightarrow> real" where
  "GM v = - (6 / 10 ^ 11 * (v * (v * v)))"

definition Gx :: "real \<Rightarrow> real \<Rightarrow> real \<Rightarrow> real" where
  "Gx d z v = - (v * sin d) / (1 + z / 6371000)"


section \<open>Example inputs\<close>

text \<open>A table of two rows with the seven columns \<open>solve_atmospheric_entry\<close> returns.\<close>

definition ex_table :: dataframe where
  "ex_table = [(''velocity'', [2, 1]), (''mass'', [2, 2]), (''angle'', [45, 45]),
               (''altitude'', [1, 0]), (''distance'', [0, 1]), (''radius'', [1, 1]),
               (''time'', [0, 1])]"

text \<open>The example table with the column dedz that \<open>calculate_energy\<close> gives it.\<close>

definition ex_energy :: dataframe where
  "ex_energy = ex_table @ [(''dedz'', [0, 3 / 4184000000])]"

text \<open>
  A table without rows with the same seven columns, and a store that holds it at every
  reference.
\<close>

definition ex_empty :: dataframe where
  "ex_empty = [(''velocity'', []), (''mass'', []), (''angle'', []), (''altitude'', []),
               (''distance'', []), (''radius'', []), (''time'', [])]"

definition ex_store :: heap where
  "ex_store = (\<lambda>r. ex_empty)"

text \<open>
  A world with one table file, of the rows \<open>0 1\<close> and \<open>10 2\<close>: density 1 at
  altitude 0 and density 2 at altitude 10.
\<close>

definition ex_world :: world where
  "ex_world =
     \<lparr> read_csv = (\<lambda>f. if f = ''table.csv'' then Inr [''0 1'', ''10 2'']
                         else Inl (FileNotFoundError f)),
       py_eval = (\<lambda>s. if s = ''0'' then Inr 0 else if s = ''1'' then Inr 1
                       else if s = ''2'' then Inr 2 else if s = ''10'' then Inr 10
                       else Inl (OtherError s)) \<rparr>"

text \<open>
  The object \<open>Planet(atmos_func='constant')\<close>, with the default constants, as the
  constructor returns it.
\<close>

definition earth_constant :: planet where
  "earth_constant =
     \<lparr> Cd = 1, Ch = 0.1, Q = 10 ^ 7, Cl = 1 / 10 ^ 3, alpha = 0.3, Rp = 6371000, g = 9.81,
       H = 8000, rho0 = 1.2, atmos_filename = ''AltitudeDensityTable.csv'',
       rhoa = (\<lambda>x. 1.2),
       velocity = [], mass = [], angle = [], altitude = [], distance = [],
       radius = [], alltimestep = [], burstpoint = - 1, strength = 0, density = 0 \<rparr>"

text \<open>
  A run of the Euler solver on that planet: a body of radius 1, density 3000 and strength
  150 that falls straight down (angle 90 degrees) from the altitude 25 with the velocity
  10, in time steps of 1. \<open>ex_s0\<close> is the object when the loop begins, \<open>ex_s1\<close> and
  \<open>ex_s2\<close> are the objects after the first and the second pass, and \<open>ex_result\<close> is
  the table made from \<open>ex_s2\<close>.
\<close>

definition ex_s0 :: planet where
  "ex_s0 = entry_state earth_constant 1 10 3000 150 90 25 False"

definition ex_s1 :: planet where
  "ex_s1 = FE_body ex_s0 1"

definition ex_s2 :: planet where
  "ex_s2 = FE_body ex_s1 1"

definition ex_result :: dataframe where
  "ex_result =
     [(''velocity'', butlast (velocity ex_s2)),
      (''mass'', butlast (mass ex_s2)),
      (''angle'', butlast (map (\<lambda>i. i / pi * 180) (angle ex_s2))),
      (''altitude'', butlast (altitude ex_s2)),
      (''distance'', butlast (distance ex_s2)),
      (''radius'', butlast (radius ex_s2)),
      (''time'', butlast (alltimestep ex_s2))]"

text \<open>
  A run of the Runge-Kutta solver on the same planet: radius 0.1, velocity 8000, density
  3000, strength 1e12, angle 90 degrees, initial altitude 100000 and time step 1.
  \<open>cx_s0\<close> is the object when the loop begins, \<open>cx_s1\<close> and \<open>cx_s2\<close> are the
  objects after the first and the second pass, and \<open>cx_table\<close> is the table made from
  \<open>cx_s2\<close>.
\<close>

definition cx_s0 :: planet where
  "cx_s0 = entry_state earth_constant (1 / 10) 8000 3000 (10 ^ 12) 90 100000 False"

definition cx_s1 :: planet where
  "cx_s1 = RK4_body cx_s0 1"

definition cx_s2 :: planet where
  "cx_s2 = RK4_body cx_s1 1"

definition cx_table :: dataframe where
  "cx_table =
     [(''velocity'', butlast (velocity cx_s2)),
      (''mass'', butlast (mass cx_s2)),
      (''angle'', butlast (map (\<lambda>i. i / pi * 180) (angle cx_s2))),
      (''altitude'', butlast (altitude cx_s2)),
      (''distance'', butlast (distance cx_s2)),
      (''radius'', butlast (radius cx_s2)),
      (''time'', butlast (alltimestep cx_s2))]"

text \<open>
  A third run, again of the Runge-Kutta solver on that planet: the body of radius 0.1
  falls straight down from the altitude 25 with the velocity 10, in time steps of 1.
\<close>

definition fall_s0 :: planet where
  "fall_s0 = entry_state earth_constant (1 / 10) 10 3000 (10 ^ 12) 90 25 False"

definition fall_s1 :: planet where
  "fall_s1 = RK4_body fall_s0 1"

definition fall_s2 :: planet where
  "fall_s2 = RK4_body fall_s1 1"

definition fall_table :: dataframe where
  "fall_table =
     [(''velocity'', butlast (velocity fall_s2)),
      (''mass'', butlast (mass fall_s2)),
      (''angle'', butlast (map (\<lambda>i. i / pi * 180) (angle fall_s2))),
      (''altitude'', butlast (altitude fall_s2)),
      (''distance'', butlast (distance fall_s2)),
      (''radius'', butlast (radius fall_s2)),
      (''time'', butlast (alltimestep fall_s2))]"

section \<open>The energy profile: proofs\<close>

lemma length_kinetic: "length (kinetic ms vs) = min (length ms) (length vs)"
  by (simp add: kinetic_def)

lemma nth_kinetic:
  "i < length ms \<Longrightarrow> i < length vs \<Longrightarrow> kinetic ms vs ! i = 0.5 * ms ! i * vs ! i ^ 2"
  by (simp add: kinetic_def)

lemma length_energy_column:
  "length ms = n \<Longrightarrow> length vs = n \<Longrightarrow> length zs = n \<Longrightarrow> 0 < n
     \<Longrightarrow> length (energy_column ms vs zs) = n"
  by (simp add: energy_column_def Let_def length_kinetic)

lemma energy_column_0: "energy_column ms vs zs ! 0 = 0"
  by (simp add: energy_column_def Let_def)

lemma energy_column_Suc:
  assumes "length ms = n" "length vs = n" "length zs = n" "Suc i < n"
  shows "energy_column ms vs zs ! Suc i =
         - ((0.5 * ms ! Suc i * vs ! Suc i ^ 2 - 0.5 * ms ! i * vs ! i ^ 2) / (zs ! i - zs ! Suc i)
            / (4.184 * 10 ^ 9))"
  using assms
  by (simp add: energy_column_def Let_def length_kinetic nth_kinetic nth_tl nth_butlast)

lemma getitem_length: "wf_df df \<Longrightarrow> getitem df k = Inr c \<Longrightarrow> length c = len_df df"
  by (auto simp: wf_df_def getitem_def list_all_iff split: option.splits dest!: map_of_SomeD)

lemma getitem_append: "getitem df k = Inr c \<Longrightarrow> getitem (df @ df') k = Inr c"
  by (auto simp: getitem_def split: option.splits)

lemma len_df_append: "df \<noteq> [] \<Longrightarrow> len_df (df @ df') = len_df df"
  by (cases df) (auto simp: len_df_def)

lemma getitem_nonempty: "getitem df k = Inr c \<Longrightarrow> df \<noteq> []"
  by (auto simp: getitem_def)

lemma calculate_energy_Inr:
  assumes "calculate_energy r h = (Inr r', h')" and "0 < len_df (h r)"
  shows "\<exists>ms vs zs. getitem (h r) ''mass'' = Inr ms \<and> getitem (h r) ''velocity'' = Inr vs
           \<and> getitem (h r) ''altitude'' = Inr zs \<and> map_of (h r) ''dedz'' = None
           \<and> length (energy_column ms vs zs) = len_df (h r)
           \<and> r' = r \<and> h' = h(r := h r @ [(''dedz'', energy_column ms vs zs)])"
  using assms
  by (auto simp: calculate_energy_def df_insert_def split: sum.splits if_splits)

lemma calculate_energy_Inl: "calculate_energy r h = (Inl e, h') \<Longrightarrow> h' = h"
  by (auto simp: calculate_energy_def Let_def split: sum.splits)

lemma ex_wf: "wf_df ex_table"
  by (simp add: wf_df_def ex_table_def len_df_def)

lemma ex_len: "len_df ex_table = 2"
  by (simp add: ex_table_def len_df_def)

lemma ex_mass: "getitem ex_table ''mass'' = Inr [2, 2]"
  by (simp add: ex_table_def getitem_def)

lemma ex_velocity: "getitem ex_table ''velocity'' = Inr [2, 1]"
  by (simp add: ex_table_def getitem_def)

lemma ex_altitude: "getitem ex_table ''altitude'' = Inr [1, 0]"
  by (simp add: ex_table_def getitem_def)

lemma ex_no_dedz: "map_of ex_table ''dedz'' = None"
  by (simp add: ex_table_def)

text \<open>
  C1, as the code has it. For a table of at least one row with the columns mass,
  velocity and altitude and no column dedz, \<open>calculate_energy\<close> appends the column
  dedz, of as many entries as the table has rows; its first entry is 0 and its entry at
  \<open>i + 1\<close> is \<open>- ((KE[i+1] - KE[i]) / (altitude[i] - altitude[i+1])) / 4.184e9\<close>
  with \<open>KE[i] = 0.5 * mass[i] * velocity[i]^2\<close>: the altitude difference is taken
  downwards, so the entry is positive where the body loses energy while it descends.
\<close>

theorem calculate_energy_dedz:
  assumes "wf_df (h r)" and "0 < len_df (h r)"
    and "getitem (h r) ''mass'' = Inr ms" and "getitem (h r) ''velocity'' = Inr vs"
    and "getitem (h r) ''altitude'' = Inr zs" and "map_of (h r) ''dedz'' = None"
  shows "calculate_energy r h = (Inr r, h(r := h r @ [(''dedz'', energy_column ms vs zs)]))
       \<and> length (energy_column ms vs zs) = len_df (h r)
       \<and> energy_column ms vs zs ! 0 = 0
       \<and> (\<forall>i. Suc i < len_df (h r) \<longrightarrow>
            energy_column ms vs zs ! Suc i =
              - ((0.5 * ms ! Suc i * vs ! Suc i ^ 2 - 0.5 * ms ! i * vs ! i ^ 2)
                 / (zs ! i - zs ! Suc i) / (4.184 * 10 ^ 9)))"
proof -
  have lm: "length ms = len_df (h r)" and lv: "length vs = len_df (h r)"
    and lz: "length zs = len_df (h r)"
    using assms getitem_length by blast+
  have len: "length (energy_column ms vs zs) = len_df (h r)"
    using lm lv lz assms(2) by (rule length_energy_column)
  have "calculate_energy r h = (Inr r, h(r := h r @ [(''dedz'', energy_column ms vs zs)]))"
    using assms len by (simp add: calculate_energy_def df_insert_def)
  moreover have "\<forall>i. Suc i < len_df (h r) \<longrightarrow>
            energy_column ms vs zs ! Suc i =
              - ((0.5 * ms ! Suc i * vs ! Suc i ^ 2 - 0.5 * ms ! i * vs ! i ^ 2)
                 / (zs ! i - zs ! Suc i) / (4.184 * 10 ^ 9))"
    using energy_column_Suc [OF lm lv lz] by blast
  ultimately show ?thesis using len energy_column_0 by blast
qed

text \<open>
  The theorem at the example table: kinetic energy falls from 4 to 1 while altitude
  falls from 1 to 0, and the second entry of dedz is \<open>3 / 4.184e9\<close>.
\<close>

theorem calculate_energy_dedz_witness:
  "calculate_energy 0 (\<lambda>_. ex_table)
     = (Inr 0, (\<lambda>_. ex_table)(0 := ex_table @ [(''dedz'', energy_column [2, 2] [2, 1] [1, 0])]))
   \<and> energy_column [2, 2] [2, 1] [1, 0] ! 0 = 0
   \<and> energy_column [2, 2] [2, 1] [1, 0] ! 1 = 3 / 4184000000"
  using calculate_energy_dedz [of "\<lambda>_. ex_table" 0 "[2, 2]" "[2, 1]" "[1, 0]"]
  by (simp add: ex_wf ex_len ex_mass ex_velocity ex_altitude ex_no_dedz)

text \<open>
  C1 as the claim words it fails at the example table: the claim's entry at index 1,
  \<open>- (KE[1] - KE[0]) / (altitude[1] - altitude[0]) / 4.184e9\<close>, is
  \<open>- 3 / 4.184e9\<close>, and the column holds \<open>3 / 4.184e9\<close>.
\<close>

theorem calculate_energy_sign_counterexample:
  "fst (calculate_energy 0 (\<lambda>_. ex_table)) = Inr 0
   \<and> getitem (snd (calculate_energy 0 (\<lambda>_. ex_table)) 0) ''dedz'' = Inr [0, 3 / 4184000000]
   \<and> [0, 3 / 4184000000 :: real] ! 1
       \<noteq> - (0.5 * [2, 2] ! 1 * [2, 1] ! 1 ^ 2 - 0.5 * [2, 2] ! 0 * [2, 1] ! 0 ^ 2)
            / ([1, 0] ! 1 - [1, 0] ! 0) / (4.184 * 10 ^ 9)"
  by (simp add: calculate_energy_def ex_table_def getitem_def df_insert_def len_df_def
        energy_column_def kinetic_def)

lemma calculate_energy_succeeds:
  assumes "wf_df (h r)" and "0 < len_df (h r)"
    and "getitem (h r) ''mass'' = Inr ms" and "getitem (h r) ''velocity'' = Inr vs"
    and "getitem (h r) ''altitude'' = Inr zs" and "map_of (h r) ''dedz'' = None"
  shows "calculate_energy r h = (Inr r, h(r := h r @ [(''dedz'', energy_column ms vs zs)]))"
proof -
  have lm: "length ms = len_df (h r)" and lv: "length vs = len_df (h r)"
    and lz: "length zs = len_df (h r)"
    using assms getitem_length by blast+
  have len: "length (energy_column ms vs zs) = len_df (h r)"
    using lm lv lz assms(2) by (rule length_energy_column)
  show ?thesis using assms len by (simp add: calculate_energy_def df_insert_def)
qed

text \<open>
  C10, for a table with at least one row. \<open>calculate_energy\<close> makes no copy: when it
  returns, it returns the reference it was given; the store changes at that reference
  only, and there the table is the old table with one column, dedz, appended: every
  column the table had is still there under its name with the same entries, and the
  number of rows is the same. It does return when the table is well formed, has the
  columns mass, velocity and altitude and has no column dedz. When it raises instead,
  the store is as it was.
\<close>

theorem calculate_energy_in_place:
  assumes "calculate_energy r h = (res, h')" and "0 < len_df (h r)"
  shows "(case res of
        Inl e \<Rightarrow> h' = h
      | Inr r' \<Rightarrow> r' = r \<and> (\<forall>q. q \<noteq> r \<longrightarrow> h' q = h q)
          \<and> (\<exists>d. h' r = h r @ [(''dedz'', d)])
          \<and> (\<forall>k c. getitem (h r) k = Inr c \<longrightarrow> getitem (h' r) k = Inr c)
          \<and> len_df (h' r) = len_df (h r))
     \<and> (wf_df (h r) \<and> getitem (h r) ''mass'' = Inr ms \<and> getitem (h r) ''velocity'' = Inr vs
          \<and> getitem (h r) ''altitude'' = Inr zs \<and> map_of (h r) ''dedz'' = None
        \<longrightarrow> res = Inr r)"
proof -
  have 1: "case res of
        Inl e \<Rightarrow> h' = h
      | Inr r' \<Rightarrow> r' = r \<and> (\<forall>q. q \<noteq> r \<longrightarrow> h' q = h q)
          \<and> (\<exists>d. h' r = h r @ [(''dedz'', d)])
          \<and> (\<forall>k c. getitem (h r) k = Inr c \<longrightarrow> getitem (h' r) k = Inr c)
          \<and> len_df (h' r) = len_df (h r)"
  proof (cases res)
    case (Inl e)
    with assms(1) show ?thesis by (simp add: calculate_energy_Inl)
  next
    case (Inr r')
    with assms obtain ms vs zs where m: "getitem (h r) ''mass'' = Inr ms"
      and eq: "r' = r" "h' = h(r := h r @ [(''dedz'', energy_column ms vs zs)])"
      using calculate_energy_Inr by blast
    from m have ne: "h r \<noteq> []" by (rule getitem_nonempty)
    show ?thesis using Inr eq ne by (simp add: getitem_append len_df_append)
  qed
  have 2: "wf_df (h r) \<and> getitem (h r) ''mass'' = Inr ms \<and> getitem (h r) ''velocity'' = Inr vs
          \<and> getitem (h r) ''altitude'' = Inr zs \<and> map_of (h r) ''dedz'' = None
        \<longrightarrow> res = Inr r"
    using calculate_energy_succeeds [of h r ms vs zs] assms by auto
  show ?thesis using 1 2 by (rule conjI)
qed

lemma ex_calculate:
  "calculate_energy 0 (\<lambda>_. ex_table)
     = (Inr 0, (\<lambda>_. ex_table)(0 := ex_table @ [(''dedz'', [0, 3 / 4184000000])]))"
  by (simp add: calculate_energy_def ex_table_def getitem_def df_insert_def len_df_def
        energy_column_def kinetic_def)

text \<open>The theorem at the example table, in a store that holds it at every reference.\<close>

theorem calculate_energy_in_place_witness:
  "calculate_energy 0 (\<lambda>_. ex_table)
     = (Inr 0, (\<lambda>_. ex_table)(0 := ex_table @ [(''dedz'', [0, 3 / 4184000000])]))
   \<and> ((\<lambda>_. ex_table)(0 := ex_table @ [(''dedz'', [0, 3 / 4184000000])])) (Suc 0) = ex_table
   \<and> getitem (ex_table @ [(''dedz'', [0, 3 / 4184000000])]) ''mass'' = Inr [2, 2]
   \<and> len_df (ex_table @ [(''dedz'', [0, 3 / 4184000000])]) = 2"
  using calculate_energy_in_place [OF ex_calculate, of "[2, 2]" "[2, 1]" "[1, 0]"] ex_calculate
  by (simp add: ex_mass ex_len ex_wf ex_velocity ex_altitude ex_no_dedz)

text \<open>
  C10 as the claim words it, for every table, fails at the table without rows. The
  column dedz always has a first entry, so \<open>insert\<close> is given one value for a table
  without rows: the table grows to one row, in place, and the columns it had, which were
  empty, hold one cell each (NaN in the code).
\<close>

theorem calculate_energy_empty_counterexample:
  "fst (calculate_energy 0 ex_store) = Inr 0
   \<and> getitem (ex_store 0) ''mass'' = Inr []
   \<and> getitem (snd (calculate_energy 0 ex_store) 0) ''mass'' = Inr [nan]
   \<and> getitem (snd (calculate_energy 0 ex_store) 0) ''dedz'' = Inr [0]
   \<and> len_df (ex_store 0) = 0
   \<and> len_df (snd (calculate_energy 0 ex_store) 0) = 1"
  by (simp add: calculate_energy_def ex_store_def ex_empty_def getitem_def df_insert_def
        len_df_def energy_column_def kinetic_def Let_def)

section \<open>The outcome: proofs\<close>

lemma first_index_less: "v \<in> set xs \<Longrightarrow> first_index xs v < length xs"
  by (induction xs) auto

lemma nth_first_index: "v \<in> set xs \<Longrightarrow> xs ! first_index xs v = v"
  by (induction xs) auto

lemma first_index_least: "j < first_index xs v \<Longrightarrow> xs ! j \<noteq> v"
proof (induction xs arbitrary: j)
  case Nil
  then show ?case by simp
next
  case (Cons x xs)
  then show ?case by (cases j) (auto split: if_splits)
qed

lemma idxmax_Inr:
  assumes "ds \<noteq> []"
  shows "idxmax ds = Inr (first_index ds (Max (set ds)))"
proof -
  obtain x ys where ds: "ds = x # ys" using assms by (cases ds) auto
  have "fold max ys x = Max (set (x # ys))" by (rule Max.set_eq_fold [symmetric])
  then show ?thesis by (simp add: idxmax_def ds)
qed

lemma peak_props:
  assumes "ds \<noteq> []"
  defines "b \<equiv> first_index ds (Max (set ds))"
  shows "b < length ds" and "ds ! b = Max (set ds)" and "\<forall>j<length ds. ds ! j \<le> ds ! b"
    and "\<forall>j<b. ds ! j < ds ! b"
proof -
  have mem: "Max (set ds) \<in> set ds" using assms(1) by simp
  show 1: "b < length ds" unfolding b_def using mem by (rule first_index_less)
  show 2: "ds ! b = Max (set ds)" unfolding b_def using mem by (rule nth_first_index)
  show 3: "\<forall>j<length ds. ds ! j \<le> ds ! b" using 2 by simp
  show "\<forall>j<b. ds ! j < ds ! b"
  proof (intro allI impI)
    fix j assume j: "j < b"
    then have "ds ! j \<noteq> Max (set ds)" unfolding b_def by (rule first_index_least)
    moreover have "ds ! j \<le> ds ! b" using 3 j 1 by simp
    ultimately show "ds ! j < ds ! b" using 2 by simp
  qed
qed

lemma col_at_Inr: "getitem df k = Inr c \<Longrightarrow> i < length c \<Longrightarrow> col_at df k i = Inr (c ! i)"
  by (simp add: col_at_def bind_err_def series_at_def)

text \<open>
  C2. For a non-empty table with the columns dedz, mass, velocity, altitude and
  distance, \<open>analyse_outcome\<close> works at the index \<open>b\<close> of the first maximum of dedz
  (no entry is larger, every earlier entry is smaller). The outcome is Cratering exactly
  when \<open>b\<close> is the last row, then with burst altitude 0 and burst energy the larger of
  the energy at \<open>b\<close> and the initial energy less the energy at \<open>b\<close>; otherwise it is
  Airburst, with the altitude at \<open>b\<close> and the initial energy less the energy at \<open>b\<close>.
  The energies are \<open>0.5 * mass * velocity^2 / 4.184e12\<close> at row 0 and at row \<open>b\<close>;
  burst distance and peak dedz are the entries of distance and dedz at \<open>b\<close>.
\<close>

theorem analyse_outcome_peak:
  assumes "wf_df df" and "0 < len_df df"
    and "getitem df ''dedz'' = Inr ds" and "getitem df ''mass'' = Inr ms"
    and "getitem df ''velocity'' = Inr vs" and "getitem df ''altitude'' = Inr zs"
    and "getitem df ''distance'' = Inr xs"
  defines "b \<equiv> first_index ds (Max (set ds))"
  defines "e0 \<equiv> 0.5 * ms ! 0 * vs ! 0 ^ 2 / (4.184 * 10 ^ 12)"
  defines "eb \<equiv> 0.5 * ms ! b * vs ! b ^ 2 / (4.184 * 10 ^ 12)"
  shows "b < len_df df \<and> (\<forall>j<len_df df. ds ! j \<le> ds ! b) \<and> (\<forall>j<b. ds ! j < ds ! b)
     \<and> analyse_outcome df = Inr
         (if b = len_df df - 1
          then \<lparr> outcome = ''Cratering'', burst_peak_dedz = ds ! b, burst_altitude = 0,
                 burst_distance = xs ! b, burst_energy = max eb (e0 - eb) \<rparr>
          else \<lparr> outcome = ''Airburst'', burst_peak_dedz = ds ! b, burst_altitude = zs ! b,
                 burst_distance = xs ! b, burst_energy = e0 - eb \<rparr>)"
proof -
  have len: "length ds = len_df df" "length ms = len_df df" "length vs = len_df df"
    "length zs = len_df df" "length xs = len_df df"
    using assms getitem_length by blast+
  have ne: "ds \<noteq> []" using len assms(2) by auto
  have b: "b < len_df df" using peak_props(1) [OF ne] len by (simp add: b_def)
  have le: "\<forall>j<len_df df. ds ! j \<le> ds ! b" using peak_props(3) [OF ne] len by (simp add: b_def)
  have lt: "\<forall>j<b. ds ! j < ds ! b" using peak_props(4) [OF ne] by (simp add: b_def)
  have idx: "idxmax ds = Inr b" using idxmax_Inr [OF ne] by (simp add: b_def)
  have int_eq: "(int b = int (len_df df) - 1) = (b = len_df df - 1)" using assms(2) by auto
  have "analyse_outcome df = Inr
         (if b = len_df df - 1
          then \<lparr> outcome = ''Cratering'', burst_peak_dedz = ds ! b, burst_altitude = 0,
                 burst_distance = xs ! b, burst_energy = max eb (e0 - eb) \<rparr>
          else \<lparr> outcome = ''Airburst'', burst_peak_dedz = ds ! b, burst_altitude = zs ! b,
                 burst_distance = xs ! b, burst_energy = e0 - eb \<rparr>)"
    using assms(3-7) idx b len assms(2) int_eq
    by (simp add: analyse_outcome_def col_at_Inr bind_err_def Let_def e0_def eb_def)
  then show ?thesis using b le lt by blast
qed

lemma ex_energy_wf: "wf_df ex_energy"
  by (simp add: wf_df_def ex_energy_def ex_table_def len_df_def)

lemma ex_energy_len: "len_df ex_energy = 2"
  by (simp add: ex_energy_def ex_table_def len_df_def)

lemma ex_energy_cols:
  "getitem ex_energy ''dedz'' = Inr [0, 3 / 4184000000]"
  "getitem ex_energy ''mass'' = Inr [2, 2]"
  "getitem ex_energy ''velocity'' = Inr [2, 1]"
  "getitem ex_energy ''altitude'' = Inr [1, 0]"
  "getitem ex_energy ''distance'' = Inr [0, 1]"
  by (simp_all add: ex_energy_def ex_table_def getitem_def)

text \<open>
  The theorem at the example table with its dedz column: the peak is at the last of the
  two rows, so the outcome is Cratering.
\<close>

theorem analyse_outcome_peak_witness:
  "analyse_outcome ex_energy =
     Inr \<lparr> outcome = ''Cratering'', burst_peak_dedz = 3 / 4184000000, burst_altitude = 0,
           burst_distance = 1, burst_energy = 3 / 4184000000000 \<rparr>"
  using analyse_outcome_peak [OF ex_energy_wf _ ex_energy_cols]
  by (simp add: ex_energy_len)

section \<open>The names of the solvers and of the atmospheres: proofs\<close>

text \<open>
  C5, as the code has it. The names the selector knows are \<open>FE\<close> and \<open>RK4\<close>, and
  \<open>RK4\<close> is the default. \<open>FE\<close> selects the explicit Euler loop and \<open>RK4\<close> the
  Runge-Kutta loop, and neither prints. Every other name selects the Euler loop and
  prints two lines; the run then returns what it returns for \<open>FE\<close>, with those lines.
\<close>

theorem backend_names:
  "select_solver ''FE'' = (FE, [])
   \<and> select_solver ''RK4'' = (RK4, [])
   \<and> select_solver default_backend = (RK4, [])
   \<and> (backend \<noteq> ''FE'' \<and> backend \<noteq> ''RK4'' \<longrightarrow>
        select_solver backend =
          (FE, [''solving method '' @ backend @ '' not implemented yet.'',
                ''Falling back to FE for now''])
        \<and> solve_atmospheric_entry self r v d s a ia dt rad backend =
            map_option (\<lambda>(df, self', printed). (df, self',
                [''solving method '' @ backend @ '' not implemented yet.'',
                 ''Falling back to FE for now'']))
              (solve_atmospheric_entry self r v d s a ia dt rad ''FE''))"
  by (auto simp: select_solver_def default_backend_def solve_atmospheric_entry_def Let_def
      split: option.splits)

text \<open>The theorem at the name \<open>Euler\<close>.\<close>

theorem backend_names_witness:
  "select_solver ''Euler'' =
     (FE, [''solving method Euler not implemented yet.'', ''Falling back to FE for now''])"
  using backend_names [of "''Euler''"] by simp

text \<open>
  C5 as the claim words it fails: the name \<open>Euler\<close> takes the path of the names
  that are not supported (it prints the two lines), and \<open>FE\<close> does not.
\<close>

theorem backend_Euler_counterexample:
  "snd (select_solver ''Euler'') \<noteq> [] \<and> snd (select_solver ''FE'') = []"
  by (simp add: select_solver_def)

lemma is_space_simps:
  "is_space CHR '' ''" "\<not> is_space CHR ''0''" "\<not> is_space CHR ''1''" "\<not> is_space CHR ''2''"
  by (simp_all add: is_space_def)

lemma ex_eval: "py_eval ex_world ''0'' = Inr 0" "py_eval ex_world ''1'' = Inr 1"
  "py_eval ex_world ''2'' = Inr 2" "py_eval ex_world ''10'' = Inr 10"
  by (simp_all add: ex_world_def)

lemma ex_load: "load_rows ex_world [''0 1'', ''10 2''] [] [] = Inr ([0, 10], [1, 2])"
  by (simp add: is_space_simps ex_eval bind_err_def list_at_def)

lemma ex_read: "read_csv ex_world ''table.csv'' = Inr [''0 1'', ''10 2'']"
  by (simp add: ex_world_def)



lemma ex_create:
  "create_tabular_density ex_world ''table.csv'' = Inr (tabular_density [0, 10] [1, 2])"
  by (simp add: create_tabular_density_def bind_err_def ex_load ex_read del: load_rows.simps)

text \<open>
  C4 does not hold of the code. From the table of the example world (density 1 at
  altitude 0, density 2 at altitude 10) the function \<open>create_tabular_density\<close> returns
  gives 1.225 at altitude 0, where interpolation in the table gives 1, and more than 1 at
  altitude 20, beyond the last entry, where the claim gives 0: it evaluates a fixed
  polynomial and reads nothing of the table.
\<close>

theorem tabular_density_ignores_table:
  "create_tabular_density ex_world ''table.csv'' = Inr (tabular_density [0, 10] [1, 2])
   \<and> tabular_density [0, 10] [1, 2] 0 = 1.225
   \<and> tabular_density [0, 10] [1, 2] 20 > 1"
  by (simp add: ex_create tabular_density_def)

section \<open>The loops: proofs\<close>

lemma grows_refl: "grows l l 0"
  by (simp add: grows_def)

lemma grows_trans: "grows l l' n \<Longrightarrow> grows l' l'' m \<Longrightarrow> grows l l'' (n + m)"
  by (auto simp: grows_def)

text \<open>The derivative changes nothing of the object but \<open>burstpoint\<close>.\<close>

lemma calculator_rk4_snd:
  "snd (calculator_rk4 self (a, r, z, v, m, x)) =
     (if rhoa self z * v ^ 2 > strength self \<and> burstpoint self = - 1
      then self\<lparr>burstpoint := int (length (distance self))\<rparr> else self)"
  by (simp add: calculator_rk4_def Let_def)

lemma calculator_rk4_frame:
  "\<exists>b. snd (calculator_rk4 self vars) = self\<lparr>burstpoint := b\<rparr>
       \<and> (burstpoint self \<noteq> - 1 \<longrightarrow> b = burstpoint self)
       \<and> (b = - 1 \<or> b = burstpoint self \<or> b = int (length (distance self)))"
proof -
  obtain a r z v m x where vars: "vars = (a, r, z, v, m, x)" by (cases vars) auto
  show ?thesis
  proof (cases "rhoa self z * v ^ 2 > strength self \<and> burstpoint self = - 1")
    case True
    then show ?thesis unfolding vars calculator_rk4_snd
      by (intro exI [of _ "int (length (distance self))"]) simp
  next
    case False
    then show ?thesis unfolding vars calculator_rk4_snd
      by (intro exI [of _ "burstpoint self"]) auto
  qed
qed

lemma RK4_helper_frame:
  "\<exists>b. snd (RK4_helper self dt) = self\<lparr>burstpoint := b\<rparr>
       \<and> (burstpoint self \<noteq> - 1 \<longrightarrow> b = burstpoint self)
       \<and> (b = - 1 \<or> b = burstpoint self \<or> b = int (length (distance self)))"
proof -
  define vars where "vars = (last (angle self), last (radius self), last (altitude self),
                       last (velocity self), last (mass self), last (distance self))"
  define k1 where "k1 = fst (calculator_rk4 self vars)"
  define s1 where "s1 = snd (calculator_rk4 self vars)"
  define k2 where "k2 = fst (calculator_rk4 s1 (vadd vars (smul (0.5 * dt) k1)))"
  define s2 where "s2 = snd (calculator_rk4 s1 (vadd vars (smul (0.5 * dt) k1)))"
  define k3 where "k3 = fst (calculator_rk4 s2 (vadd vars (smul (0.5 * dt) k2)))"
  define s3 where "s3 = snd (calculator_rk4 s2 (vadd vars (smul (0.5 * dt) k2)))"
  define s4 where "s4 = snd (calculator_rk4 s3 (vadd vars (smul dt k3)))"
  have eq: "snd (RK4_helper self dt) = s4"
    by (simp add: RK4_helper_def Let_def case_prod_beta vars_def k1_def s1_def k2_def s2_def
          k3_def s3_def s4_def)
  obtain b1 where b1: "s1 = self\<lparr>burstpoint := b1\<rparr>"
    "burstpoint self \<noteq> - 1 \<longrightarrow> b1 = burstpoint self"
    "b1 = - 1 \<or> b1 = burstpoint self \<or> b1 = int (length (distance self))"
    using calculator_rk4_frame [of self vars] unfolding s1_def by blast
  obtain b2 where b2: "s2 = s1\<lparr>burstpoint := b2\<rparr>"
    "burstpoint s1 \<noteq> - 1 \<longrightarrow> b2 = burstpoint s1"
    "b2 = - 1 \<or> b2 = burstpoint s1 \<or> b2 = int (length (distance s1))"
    using calculator_rk4_frame [of s1] unfolding s2_def by blast
  obtain b3 where b3: "s3 = s2\<lparr>burstpoint := b3\<rparr>"
    "burstpoint s2 \<noteq> - 1 \<longrightarrow> b3 = burstpoint s2"
    "b3 = - 1 \<or> b3 = burstpoint s2 \<or> b3 = int (length (distance s2))"
    using calculator_rk4_frame [of s2] unfolding s3_def by blast
  obtain b4 where b4: "s4 = s3\<lparr>burstpoint := b4\<rparr>"
    "burstpoint s3 \<noteq> - 1 \<longrightarrow> b4 = burstpoint s3"
    "b4 = - 1 \<or> b4 = burstpoint s3 \<or> b4 = int (length (distance s3))"
    using calculator_rk4_frame [of s3] unfolding s4_def by blast
  have "s4 = self\<lparr>burstpoint := b4\<rparr>" using b1(1) b2(1) b3(1) b4(1) by simp
  moreover have "burstpoint self \<noteq> - 1 \<longrightarrow> b4 = burstpoint self"
    using b1 b2 b3 b4 by simp
  moreover have "b4 = - 1 \<or> b4 = burstpoint self \<or> b4 = int (length (distance self))"
    using b1 b2 b3 b4 by auto
  ultimately show ?thesis unfolding eq by blast
qed

lemma RK4_body_frame:
  "\<exists>b v m a z x r t.
     RK4_body self dt = self\<lparr> burstpoint := b,
         velocity := velocity self @ [v], mass := mass self @ [m],
         altitude := altitude self @ [z], angle := angle self @ [a],
         distance := distance self @ [x], radius := radius self @ [r],
         alltimestep := alltimestep self @ [t] \<rparr>
     \<and> t = dt + last (alltimestep self)
     \<and> (burstpoint self \<noteq> - 1 \<longrightarrow> b = burstpoint self)
     \<and> (b = - 1 \<or> b = burstpoint self \<or> b = int (length (distance self)))"
proof -
  obtain b where b: "snd (RK4_helper self dt) = self\<lparr>burstpoint := b\<rparr>"
    "burstpoint self \<noteq> - 1 \<longrightarrow> b = burstpoint self"
    "b = - 1 \<or> b = burstpoint self \<or> b = int (length (distance self))"
    using RK4_helper_frame by blast
  obtain ct cr cz cv cm cx where c: "fst (RK4_helper self dt) = (ct, cr, cz, cv, cm, cx)"
    by (cases "fst (RK4_helper self dt)") auto
  have h: "RK4_helper self dt = ((ct, cr, cz, cv, cm, cx), self\<lparr>burstpoint := b\<rparr>)"
    using b(1) c by (cases "RK4_helper self dt") simp
  have "RK4_body self dt = self\<lparr> burstpoint := b,
         velocity := velocity self @ [cv + last (velocity self)],
         mass := mass self @ [cm + last (mass self)],
         altitude := altitude self @ [cz + last (altitude self)],
         angle := angle self @ [ct + last (angle self)],
         distance := distance self @ [cx + last (distance self)],
         radius := radius self @ [cr + last (radius self)],
         alltimestep := alltimestep self @ [dt + last (alltimestep self)] \<rparr>"
    by (simp add: RK4_body_def h)
  then show ?thesis using b(2,3) by blast
qed

lemma FE_body_burstpoint:
  "burstpoint (FE_body self dt) =
     (if rhoa self (last (altitude self)) * last (velocity self) ^ 2 > strength self
         \<and> burstpoint self = - 1
      then int (length (distance self)) else burstpoint self)"
  by (simp add: FE_body_def Let_def)

lemma FE_body_frame:
  "\<exists>b v m a z x r t.
     FE_body self dt = self\<lparr> burstpoint := b,
         velocity := velocity self @ [v], mass := mass self @ [m],
         altitude := altitude self @ [z], angle := angle self @ [a],
         distance := distance self @ [x], radius := radius self @ [r],
         alltimestep := alltimestep self @ [t] \<rparr>
     \<and> t = dt + last (alltimestep self)
     \<and> (burstpoint self \<noteq> - 1 \<longrightarrow> b = burstpoint self)
     \<and> (b = - 1 \<or> b = burstpoint self \<or> b = int (length (distance self)))"
proof -
  define t where "t = FE_body self dt"
  have "t = self\<lparr> burstpoint := burstpoint t,
         velocity := velocity self @ [last (velocity t)], mass := mass self @ [last (mass t)],
         altitude := altitude self @ [last (altitude t)], angle := angle self @ [last (angle t)],
         distance := distance self @ [last (distance t)],
         radius := radius self @ [last (radius t)],
         alltimestep := alltimestep self @ [last (alltimestep t)] \<rparr>"
    unfolding t_def by (simp add: FE_body_def Let_def)
  moreover have "last (alltimestep t) = dt + last (alltimestep self)"
    unfolding t_def by (simp add: FE_body_def Let_def)
  moreover have "burstpoint self \<noteq> - 1 \<longrightarrow> burstpoint t = burstpoint self"
    unfolding t_def FE_body_burstpoint by simp
  moreover have "burstpoint t = - 1 \<or> burstpoint t = burstpoint self
      \<or> burstpoint t = int (length (distance self))"
    unfolding t_def FE_body_burstpoint by simp
  ultimately show ?thesis unfolding t_def by blast
qed

lemma RK4_body_one_step: "one_step self (RK4_body self dt)"
  using RK4_body_frame [of self dt] unfolding one_step_def by blast

lemma FE_body_one_step: "one_step self (FE_body self dt)"
  using FE_body_frame [of self dt] unfolding one_step_def by blast

lemma one_step_grown: "one_step s t \<Longrightarrow> grown s t 1"
  by (auto simp: one_step_def grown_def grows_def)

lemma grown_refl: "grown s s 0"
  by (simp add: grown_def grows_refl)

lemma grown_trans: "grown s t n \<Longrightarrow> grown t u m \<Longrightarrow> grown s u (n + m)"
  unfolding grown_def using grows_trans by blast

lemma one_step_consts:
  "one_step s t \<Longrightarrow> rhoa t = rhoa s \<and> strength t = strength s \<and> density t = density s
     \<and> Cd t = Cd s \<and> Ch t = Ch s \<and> Q t = Q s \<and> Cl t = Cl s \<and> alpha t = alpha s
     \<and> Rp t = Rp s \<and> g t = g s \<and> H t = H s \<and> rho0 t = rho0 s"
  by (auto simp: one_step_def)

text \<open>Iterating a function that makes one step.\<close>

lemma funpow_grown:
  assumes "\<And>s. one_step s (f s)"
  shows "grown s ((f ^^ n) s) n"
proof (induction n)
  case 0
  show ?case by (simp add: grown_refl)
next
  case (Suc n)
  have "grown ((f ^^ n) s) (f ((f ^^ n) s)) 1" using assms by (rule one_step_grown)
  with Suc show ?case using grown_trans by fastforce
qed

lemma funpow_shift: "(f ^^ Suc k) (f s) = (f ^^ Suc (Suc k)) s"
  by (metis funpow_swap1 funpow.simps(2) o_apply)



text \<open>The converse: the loop returns the first iterate that passes the stopping test.\<close>

lemma loop_RK4_first:
  "stopped (((\<lambda>s. RK4_body s dt) ^^ Suc n) s) ia
   \<Longrightarrow> (\<And>k. k < n \<Longrightarrow> \<not> stopped (((\<lambda>s. RK4_body s dt) ^^ Suc k) s) ia)
   \<Longrightarrow> loop_RK4 ia dt s = Some (((\<lambda>s. RK4_body s dt) ^^ Suc n) s)"
proof (induction n arbitrary: s)
  case 0
  then show ?case by (subst loop_RK4.simps) (simp add: Let_def)
next
  case (Suc n)
  let ?f = "\<lambda>s. RK4_body s dt"
  have ns: "\<not> stopped (RK4_body s dt) ia" using Suc.prems(2) [of 0] by simp
  have shift: "\<And>k. (?f ^^ Suc k) (RK4_body s dt) = (?f ^^ Suc (Suc k)) s"
    by (rule funpow_shift [where f = "?f"])
  have "loop_RK4 ia dt (RK4_body s dt) = Some ((?f ^^ Suc n) (RK4_body s dt))"
  proof (rule Suc.IH)
    show "stopped ((?f ^^ Suc n) (RK4_body s dt)) ia" using Suc.prems(1) shift by simp
    fix k assume "k < n"
    then show "\<not> stopped ((?f ^^ Suc k) (RK4_body s dt)) ia"
      using Suc.prems(2) [of "Suc k"] shift by simp
  qed
  then show ?case using ns shift by (subst loop_RK4.simps) (simp add: Let_def)
qed

lemma loop_FE_first:
  "stopped (((\<lambda>s. FE_body s dt) ^^ Suc n) s) ia
   \<Longrightarrow> (\<And>k. k < n \<Longrightarrow> \<not> stopped (((\<lambda>s. FE_body s dt) ^^ Suc k) s) ia)
   \<Longrightarrow> loop_FE ia dt s = Some (((\<lambda>s. FE_body s dt) ^^ Suc n) s)"
proof (induction n arbitrary: s)
  case 0
  then show ?case by (subst loop_FE.simps) (simp add: Let_def)
next
  case (Suc n)
  let ?f = "\<lambda>s. FE_body s dt"
  have ns: "\<not> stopped (FE_body s dt) ia" using Suc.prems(2) [of 0] by simp
  have shift: "\<And>k. (?f ^^ Suc k) (FE_body s dt) = (?f ^^ Suc (Suc k)) s"
    by (rule funpow_shift [where f = "?f"])
  have "loop_FE ia dt (FE_body s dt) = Some ((?f ^^ Suc n) (FE_body s dt))"
  proof (rule Suc.IH)
    show "stopped ((?f ^^ Suc n) (FE_body s dt)) ia" using Suc.prems(1) shift by simp
    fix k assume "k < n"
    then show "\<not> stopped ((?f ^^ Suc k) (FE_body s dt)) ia"
      using Suc.prems(2) [of "Suc k"] shift by simp
  qed
  then show ?case using ns shift by (subst loop_FE.simps) (simp add: Let_def)
qed



lemma last_nth_Suc: "length l = Suc k \<Longrightarrow> last l = l ! k"
  by (cases l rule: rev_cases) (auto simp: nth_append)







lemma solve_Some:
  assumes "solve_atmospheric_entry self r v d st a ia dt rad backend = Some (df, self', printed)"
  shows "run_solver (fst (select_solver backend))
           (self\<lparr>strength := st, density := d, burstpoint := - 1\<rparr>) r v
           (if \<not> rad then a / 180 * pi else a) ia dt = Some self'"
    and "df = [(''velocity'', butlast (velocity self')),
               (''mass'', butlast (mass self')),
               (''angle'', butlast (if \<not> rad then map (\<lambda>i. i / pi * 180) (angle self')
                                      else angle self')),
               (''altitude'', butlast (altitude self')),
               (''distance'', butlast (distance self')),
               (''radius'', butlast (radius self')),
               (''time'', butlast (alltimestep self'))]"
    and "printed = snd (select_solver backend)"
  using assms
  by (auto simp: solve_atmospheric_entry_def Let_def split: prod.splits option.splits)

section \<open>The passes of a run: proofs\<close>

lemma calculator_rk4_snd_ram:
  "snd (calculator_rk4 self p) =
     (if ram self p > strength self \<and> burstpoint self = - 1
      then self\<lparr>burstpoint := int (length (distance self))\<rparr> else self)"
proof -
  obtain a r z v m x where p: "p = (a, r, z, v, m, x)" by (cases p) auto
  show ?thesis unfolding p calculator_rk4_snd by (simp add: ram_def)
qed

text \<open>
  The four evaluations of a Runge-Kutta pass set \<open>burstpoint\<close> exactly when it is
  \<open>-1\<close> and one of them finds the ram pressure above the strength.
\<close>

lemma RK4_helper_snd:
  "snd (RK4_helper self dt) =
     (if burstpoint self = - 1 \<and> list_ex (\<lambda>p. ram self p > strength self) (RK4_points self dt)
      then self\<lparr>burstpoint := int (length (distance self))\<rparr> else self)"
proof -
  define vars where "vars = (last (angle self), last (radius self), last (altitude self),
                       last (velocity self), last (mass self), last (distance self))"
  define k1 where "k1 = fst (calculator_rk4 self vars)"
  define s1 where "s1 = snd (calculator_rk4 self vars)"
  define x2 where "x2 = vadd vars (smul (0.5 * dt) k1)"
  define k2 where "k2 = fst (calculator_rk4 s1 x2)"
  define s2 where "s2 = snd (calculator_rk4 s1 x2)"
  define x3 where "x3 = vadd vars (smul (0.5 * dt) k2)"
  define k3 where "k3 = fst (calculator_rk4 s2 x3)"
  define s3 where "s3 = snd (calculator_rk4 s2 x3)"
  define x4 where "x4 = vadd vars (smul dt k3)"
  define s4 where "s4 = snd (calculator_rk4 s3 x4)"
  define L where "L = int (length (distance self))"
  have eq: "snd (RK4_helper self dt) = s4"
    by (simp add: RK4_helper_def Let_def case_prod_beta vars_def k1_def s1_def x2_def k2_def
          s2_def x3_def k3_def s3_def x4_def s4_def)
  have pts: "RK4_points self dt = [vars, x2, x3, x4]"
    by (simp add: RK4_points_def Let_def case_prod_beta vars_def k1_def s1_def x2_def k2_def
          s2_def x3_def k3_def s3_def x4_def)
  have L: "L \<noteq> - 1" by (simp add: L_def)
  have e1: "s1 = (if ram self vars > strength self \<and> burstpoint self = - 1
                  then self\<lparr>burstpoint := L\<rparr> else self)"
    unfolding s1_def L_def by (rule calculator_rk4_snd_ram)
  have e2: "s2 = (if ram s1 x2 > strength s1 \<and> burstpoint s1 = - 1
                  then s1\<lparr>burstpoint := int (length (distance s1))\<rparr> else s1)"
    unfolding s2_def by (rule calculator_rk4_snd_ram)
  have e3: "s3 = (if ram s2 x3 > strength s2 \<and> burstpoint s2 = - 1
                  then s2\<lparr>burstpoint := int (length (distance s2))\<rparr> else s2)"
    unfolding s3_def by (rule calculator_rk4_snd_ram)
  have e4: "s4 = (if ram s3 x4 > strength s3 \<and> burstpoint s3 = - 1
                  then s3\<lparr>burstpoint := int (length (distance s3))\<rparr> else s3)"
    unfolding s4_def by (rule calculator_rk4_snd_ram)
  show ?thesis
  proof (cases "burstpoint self = - 1")
    case False
    then have "s1 = self" using e1 by simp
    then have "s2 = self" using e2 False by simp
    then have "s3 = self" using e3 False by simp
    then have "s4 = self" using e4 False by simp
    then show ?thesis using False eq by simp
  next
    case True
    show ?thesis
    proof (cases "ram self vars > strength self")
      case c1: True
      then have 1: "s1 = self\<lparr>burstpoint := L\<rparr>" using e1 True by simp
      then have "s2 = s1" using e2 L by simp
      moreover from this have "s3 = s1" using e3 1 L by simp
      moreover from this have "s4 = s1" using e4 1 L by simp
      ultimately show ?thesis using eq pts True c1 1 by (simp add: L_def)
    next
      case c1: False
      then have 1: "s1 = self" using e1 by simp
      show ?thesis
      proof (cases "ram self x2 > strength self")
        case c2: True
        then have 2: "s2 = self\<lparr>burstpoint := L\<rparr>" using e2 1 True by (simp add: L_def)
        then have "s3 = s2" using e3 L by simp
        moreover from this have "s4 = s2" using e4 2 L by simp
        ultimately show ?thesis using eq pts True c2 2 by (simp add: L_def)
      next
        case c2: False
        then have 2: "s2 = self" using e2 1 by simp
        show ?thesis
        proof (cases "ram self x3 > strength self")
          case c3: True
          then have 3: "s3 = self\<lparr>burstpoint := L\<rparr>" using e3 2 True by (simp add: L_def)
          then have "s4 = s3" using e4 L by simp
          then show ?thesis using eq pts True c3 3 by (simp add: L_def)
        next
          case c3: False
          then have 3: "s3 = self" using e3 2 by simp
          then have "s4 = (if ram self x4 > strength self then self\<lparr>burstpoint := L\<rparr> else self)"
            using e4 True by (simp add: L_def)
          then show ?thesis using eq pts True c1 c2 c3 by (simp add: L_def)
        qed
      qed
    qed
  qed
qed

lemma RK4_body_burstpoint:
  "burstpoint (RK4_body self dt) =
     (if burstpoint self = - 1 \<and> list_ex (\<lambda>p. ram self p > strength self) (RK4_points self dt)
      then int (length (distance self)) else burstpoint self)"
proof -
  have "burstpoint (RK4_body self dt) = burstpoint (snd (RK4_helper self dt))"
    by (simp add: RK4_body_def case_prod_beta)
  then show ?thesis unfolding RK4_helper_snd by simp
qed

lemma loop_body_burstpoint:
  "burstpoint (loop_body solver self dt) =
     (if burstpoint self = - 1 \<and> crossing solver self dt
      then int (length (distance self)) else burstpoint self)"
proof (cases solver)
  case FE
  then show ?thesis
    by (simp add: FE_body_burstpoint crossing_def FE_points_def ram_def)
next
  case RK4
  then show ?thesis by (simp add: RK4_body_burstpoint crossing_def)
qed

lemma loop_body_one_step: "one_step self (loop_body solver self dt)"
  by (cases solver) (simp_all add: FE_body_one_step RK4_body_one_step)

lemma after_passes_0:
  "after_passes self r v d st a ia dt rad backend 0 = entry_state self r v d st a ia rad"
  by (simp add: after_passes_def)

lemma after_passes_Suc:
  "after_passes self r v d st a ia dt rad backend (Suc k) =
     loop_body (fst (select_solver backend)) (after_passes self r v d st a ia dt rad backend k) dt"
  by (simp add: after_passes_def)

lemma after_passes_grown:
  "grown (entry_state self r v d st a ia rad) (after_passes self r v d st a ia dt rad backend k) k"
  unfolding after_passes_def
  by (rule funpow_grown) (rule loop_body_one_step)

lemma after_passes_length:
  "length (velocity (after_passes self r v d st a ia dt rad backend k)) = Suc k"
  "length (mass (after_passes self r v d st a ia dt rad backend k)) = Suc k"
  "length (angle (after_passes self r v d st a ia dt rad backend k)) = Suc k"
  "length (altitude (after_passes self r v d st a ia dt rad backend k)) = Suc k"
  "length (distance (after_passes self r v d st a ia dt rad backend k)) = Suc k"
  "length (radius (after_passes self r v d st a ia dt rad backend k)) = Suc k"
  "length (alltimestep (after_passes self r v d st a ia dt rad backend k)) = Suc k"
  using after_passes_grown [of self r v d st a ia rad dt backend k]
  by (simp_all add: grown_def grows_def entry_state_def start_def)

text \<open>The loop returns the object after the first pass that ends in a stopping state.\<close>

lemma run_solver_first:
  assumes "stopped (((\<lambda>s. loop_body solver s dt) ^^ Suc n) (start s0 r v a ia)) ia"
    and "\<And>k. k < n \<Longrightarrow> \<not> stopped (((\<lambda>s. loop_body solver s dt) ^^ Suc k) (start s0 r v a ia)) ia"
  shows "run_solver solver s0 r v a ia dt
           = Some (((\<lambda>s. loop_body solver s dt) ^^ Suc n) (start s0 r v a ia))"
proof (cases solver)
  case FE
  then show ?thesis
    using assms loop_FE_first [where dt = dt and n = n and s = "start s0 r v a ia" and ia = ia]
    by (simp add: solve_atmospheric_entry_FE_def del: funpow.simps)
next
  case RK4
  then show ?thesis
    using assms loop_RK4_first [where dt = dt and n = n and s = "start s0 r v a ia" and ia = ia]
    by (simp add: solve_atmospheric_entry_RK4_def del: funpow.simps)
qed

lemma solve_first_stop:
  assumes "stopped (after_passes self r v d st a ia dt rad backend (Suc n)) ia"
    and "\<And>k. k < n \<Longrightarrow> \<not> stopped (after_passes self r v d st a ia dt rad backend (Suc k)) ia"
  shows "\<exists>df. solve_atmospheric_entry self r v d st a ia dt rad backend
           = Some (df, after_passes self r v d st a ia dt rad backend (Suc n),
                   snd (select_solver backend))"
proof -
  have "run_solver (fst (select_solver backend))
          (self\<lparr>strength := st, density := d, burstpoint := - 1\<rparr>) r v
          (if \<not> rad then a / 180 * pi else a) ia dt
        = Some (after_passes self r v d st a ia dt rad backend (Suc n))"
    using assms unfolding after_passes_def entry_state_def by (rule run_solver_first)
  moreover obtain solver printed where sp: "select_solver backend = (solver, printed)"
    by (cases "select_solver backend") auto
  ultimately show ?thesis
    by (cases rad) (simp_all add: solve_atmospheric_entry_def Let_def)
qed

text \<open>
  A run returns as soon as some pass ends in a stopping state: it returns the object
  after the first such pass.
\<close>

lemma solve_returns:
  assumes "stopped (after_passes self r v d st a ia dt rad backend (Suc n)) ia"
  shows "\<exists>df m. m \<le> n
     \<and> solve_atmospheric_entry self r v d st a ia dt rad backend
         = Some (df, after_passes self r v d st a ia dt rad backend (Suc m),
                 snd (select_solver backend))
     \<and> len_df df = Suc m
     \<and> (\<forall>k<m. \<not> stopped (after_passes self r v d st a ia dt rad backend (Suc k)) ia)"
proof -
  define P where "P = (\<lambda>k. stopped (after_passes self r v d st a ia dt rad backend (Suc k)) ia)"
  define m where "m = (LEAST k. P k)"
  have Pn: "P n" using assms by (simp add: P_def)
  then have Pm: "P m" unfolding m_def by (rule LeastI)
  have mn: "m \<le> n" unfolding m_def using Pn by (rule Least_le)
  have less: "\<And>k. k < m \<Longrightarrow> \<not> P k" unfolding m_def by (rule not_less_Least)
  obtain df where df: "solve_atmospheric_entry self r v d st a ia dt rad backend
         = Some (df, after_passes self r v d st a ia dt rad backend (Suc m),
                 snd (select_solver backend))"
    using solve_first_stop [of self r v d st a ia dt rad backend m] Pm less
    unfolding P_def by blast
  have "len_df df = Suc m"
    using solve_Some(2) [OF df] after_passes_length(1) [of self r v d st a ia dt rad backend "Suc m"]
    by (simp add: len_df_def)
  moreover have "\<forall>k<m. \<not> stopped (after_passes self r v d st a ia dt rad backend (Suc k)) ia"
    using less by (simp add: P_def)
  ultimately show ?thesis using df mn by blast
qed


section \<open>The entry point: proofs\<close>


lemma earth_constant_init:
  "Planet_default ''constant'' ''AltitudeDensityTable.csv'' = Inr (earth_constant, [])"
  by (simp add: Planet_default_def Planet_init_def earth_constant_def)





subsection \<open>The example run\<close>

lemma ex_s0_simps:
  "velocity ex_s0 = [10]" "mass ex_s0 = [4000 * pi]" "angle ex_s0 = [pi / 2]"
  "altitude ex_s0 = [25]" "distance ex_s0 = [0]" "radius ex_s0 = [1]"
  "alltimestep ex_s0 = [0]" "burstpoint ex_s0 = - 1" "strength ex_s0 = 150"
  "density ex_s0 = 3000" "rhoa ex_s0 = (\<lambda>x. 1.2)" "Cd ex_s0 = 1" "Ch ex_s0 = 0.1"
  "Q ex_s0 = 10 ^ 7" "Cl ex_s0 = 1 / 10 ^ 3" "alpha ex_s0 = 0.3" "Rp ex_s0 = 6371000"
  "g ex_s0 = 9.81"
  by (simp_all add: ex_s0_def entry_state_def start_def earth_constant_def)

text \<open>
  The first pass: the ram pressure \<open>1.2 * 10^2\<close> is below the strength, the drag
  takes 0.015 of the 9.81 that gravity adds to the velocity, and the lift turns the
  angle by \<open>1.5e-6\<close>.
\<close>

lemma ex_s1_simps:
  "velocity ex_s1 = [10, 3959 / 200]" "mass ex_s1 = [4000 * pi, (4000 - 6 / 10 ^ 6) * pi]"
  "angle ex_s1 = [pi / 2, pi / 2 - 3 / 2000000]"
  "altitude ex_s1 = [25, 15]" "distance ex_s1 = [0, 0]" "radius ex_s1 = [1, 1]"
  "alltimestep ex_s1 = [0, 1]" "burstpoint ex_s1 = - 1" "strength ex_s1 = 150"
  "rhoa ex_s1 = (\<lambda>x. 1.2)"
  by (simp_all add: ex_s1_def FE_body_def Let_def ex_s0_simps field_simps)

text \<open>
  The second pass: the ram pressure \<open>1.2 * 19.795^2\<close> is above the strength, and the
  body arrives below the ground.
\<close>

lemma ex_s2_simps:
  "altitude ex_s2 = [25, 15, 15 - 3959 / 200 * cos (3 / 2000000)]"
  "burstpoint ex_s2 = 2" "length (velocity ex_s2) = 3" "length (mass ex_s2) = 3"
  "length (radius ex_s2) = 3" "butlast (mass ex_s2) = [4000 * pi, (4000 - 6 / 10 ^ 6) * pi]"
  "butlast (velocity ex_s2) = [10, 3959 / 200]" "butlast (radius ex_s2) = [1, 1]"
  "butlast (altitude ex_s2) = [25, 15]" "butlast (distance ex_s2) = [0, 0]"
  "butlast (alltimestep ex_s2) = [0, 1]"
  "butlast (angle ex_s2) = [pi / 2, pi / 2 - 3 / 2000000]"
  by (simp_all add: ex_s2_def FE_body_def Let_def ex_s1_simps sin_diff power2_eq_square)

lemma ex_cos: "15 / 16 \<le> cos (3 / 2000000 :: real)"
proof -
  have "\<bar>sin (3 / 4000000 :: real)\<bar> \<le> \<bar>3 / 4000000\<bar>" by (rule abs_sin_x_le_abs_x)
  then have "\<bar>sin (3 / 4000000 :: real)\<bar> \<le> 1 / 8" by simp
  then have "\<bar>sin (3 / 4000000 :: real)\<bar> * \<bar>sin (3 / 4000000 :: real)\<bar> \<le> (1 / 8) * (1 / 8)"
    by (intro mult_mono) simp_all
  then have "sin (3 / 4000000 :: real) ^ 2 \<le> 1 / 64"
    by (simp add: power2_eq_square abs_mult_self_eq)
  moreover have "cos (3 / 2000000 :: real) = 1 - 2 * sin (3 / 4000000) ^ 2"
    using cos_double_sin [of "3 / 4000000 :: real"] by simp
  ultimately show ?thesis by linarith
qed

lemma ex_last_altitude: "altitude ex_s2 ! 2 \<le> 0"
proof -
  have "3959 / 200 * (15 / 16) \<le> 3959 / 200 * cos (3 / 2000000 :: real)"
    using ex_cos by (intro mult_left_mono) simp_all
  then have "15 - 3959 / 200 * cos (3 / 2000000 :: real) \<le> 0" by simp
  then show ?thesis by (simp add: ex_s2_simps)
qed

lemma ex_s1_not_stopped: "\<not> stopped ex_s1 25"
  using pi_gt_zero by (simp add: stopped_def ex_s1_simps not_le)

lemma ex_s2_stopped: "stopped ex_s2 25"
  using ex_last_altitude by (simp add: stopped_def ex_s2_simps)

lemma ex_passes:
  "after_passes earth_constant 1 10 3000 150 90 25 1 False ''FE'' 0 = ex_s0"
  "after_passes earth_constant 1 10 3000 150 90 25 1 False ''FE'' (Suc 0) = ex_s1"
  "after_passes earth_constant 1 10 3000 150 90 25 1 False ''FE'' (Suc (Suc 0)) = ex_s2"
  by (simp_all add: after_passes_def select_solver_def ex_s0_def ex_s1_def ex_s2_def)

lemma ex_stops: "stopped (after_passes earth_constant 1 10 3000 150 90 25 1 False ''FE'' (Suc (Suc 0))) 25"
  using ex_s2_stopped by (simp only: ex_passes)

lemma ex_solve:
  "solve_atmospheric_entry earth_constant 1 10 3000 150 90 25 1 False ''FE''
     = Some (ex_result, ex_s2, [])"
proof -
  obtain df where "solve_atmospheric_entry earth_constant 1 10 3000 150 90 25 1 False ''FE''
     = Some (df, after_passes earth_constant 1 10 3000 150 90 25 1 False ''FE'' (Suc (Suc 0)),
             snd (select_solver ''FE''))"
    using solve_first_stop [of earth_constant 1 10 3000 150 90 25 1 False "''FE''" "Suc 0"]
      ex_s1_not_stopped ex_s2_stopped by (auto simp: ex_passes)
  then have s: "solve_atmospheric_entry earth_constant 1 10 3000 150 90 25 1 False ''FE''
     = Some (df, ex_s2, [])" by (simp add: ex_passes select_solver_def)
  from solve_Some(2) [OF s] have "df = ex_result" by (simp add: ex_result_def)
  with s show ?thesis by simp
qed

lemma ex_result_len: "len_df ex_result = 2"
  by (simp add: ex_result_def len_df_def ex_s2_simps)

lemma ex_result_cols:
  "getitem ex_result ''velocity'' = Inr [10, 3959 / 200]"
  "getitem ex_result ''mass'' = Inr [4000 * pi, (4000 - 6 / 10 ^ 6) * pi]"
  "getitem ex_result ''altitude'' = Inr [25, 15]"
  "getitem ex_result ''radius'' = Inr [1, 1]"
  by (simp_all add: ex_result_def getitem_def ex_s2_simps)

subsection \<open>The claims about a run\<close>






section \<open>The burst index along a run: proofs\<close>

lemma entry_state_burstpoint: "burstpoint (entry_state self r v d st a ia rad) = - 1"
  by (simp add: entry_state_def start_def)

lemma no_crossing_burstpoint:
  assumes "\<And>j. j < m \<Longrightarrow> \<not> crossing (fst (select_solver backend)) (after_passes self r v d st a ia dt rad backend j) dt"
  shows "burstpoint (after_passes self r v d st a ia dt rad backend m) = - 1"
  using assms
proof (induction m)
  case 0
  show ?case by (simp add: after_passes_0 entry_state_burstpoint)
next
  case (Suc m)
  have "burstpoint (after_passes self r v d st a ia dt rad backend m) = - 1" using Suc by simp
  moreover have "\<not> crossing (fst (select_solver backend)) (after_passes self r v d st a ia dt rad backend m) dt" using Suc.prems by simp
  ultimately show ?case by (simp add: after_passes_Suc loop_body_burstpoint)
qed

lemma first_crossing_burstpoint:
  assumes c: "crossing (fst (select_solver backend)) (after_passes self r v d st a ia dt rad backend k) dt"
    and n: "\<And>j. j < k \<Longrightarrow> \<not> crossing (fst (select_solver backend)) (after_passes self r v d st a ia dt rad backend j) dt"
  shows "burstpoint (after_passes self r v d st a ia dt rad backend m) = (if m \<le> k then - 1 else int (Suc k))"
proof (induction m)
  case 0
  show ?case by (simp add: after_passes_0 entry_state_burstpoint)
next
  case (Suc m)
  have step: "burstpoint (after_passes self r v d st a ia dt rad backend (Suc m)) =
      (if burstpoint (after_passes self r v d st a ia dt rad backend m) = - 1 \<and> crossing (fst (select_solver backend)) (after_passes self r v d st a ia dt rad backend m) dt
       then int (length (distance (after_passes self r v d st a ia dt rad backend m))) else burstpoint (after_passes self r v d st a ia dt rad backend m))"
    by (simp only: after_passes_Suc loop_body_burstpoint)
  consider "m < k" | "m = k" | "k < m" by linarith
  then show ?case
  proof cases
    case 1
    then have "\<not> crossing (fst (select_solver backend)) (after_passes self r v d st a ia dt rad backend m) dt" by (rule n)
    then show ?thesis using Suc 1 step by simp
  next
    case 2
    then show ?thesis using Suc c step by (simp add: after_passes_length)
  next
    case 3
    then have "burstpoint (after_passes self r v d st a ia dt rad backend m) = int (Suc k)" using Suc by simp
    then show ?thesis using 3 step by simp
  qed
qed

text \<open>
  C8. The object a run hands to its loop holds \<open>burstpoint = -1\<close>, whatever the
  object held before. An evaluation of the derivative changes nothing of the object but
  \<open>burstpoint\<close>, and that exactly when it is still \<open>-1\<close> and the ram pressure at the
  point of the evaluation, \<open>rhoa(altitude) * velocity^2\<close>, exceeds the strength; the
  value it sets is the number of states so far. So a pass of either loop sets
  \<open>burstpoint\<close> exactly when it is still \<open>-1\<close> and one of the evaluations of the pass
  (one for Euler, four for Runge-Kutta) finds the ram pressure above the strength. Along
  the passes of a run: as long as no pass had such an evaluation \<open>burstpoint\<close> is
  \<open>-1\<close>; if pass \<open>k\<close> (counted from 0) is the first that has one, \<open>burstpoint\<close> is
  \<open>-1\<close> after each of the first \<open>k\<close> passes and \<open>k + 1\<close>, the number of states when
  that pass began, after every later pass. And if some pass ends in a stopping state, the
  run returns, and the object it leaves is the object after as many passes as the table
  has rows.
\<close>

theorem burstpoint_set_once:
  "burstpoint (after_passes self r v d st a ia dt rad backend 0) = - 1
   \<and> snd (calculator_rk4 s p) =
       (if burstpoint s = - 1 \<and> ram s p > strength s
        then s\<lparr>burstpoint := int (length (distance s))\<rparr> else s)
   \<and> burstpoint (loop_body solver s dt) =
       (if burstpoint s = - 1 \<and> crossing solver s dt
        then int (length (distance s)) else burstpoint s)
   \<and> ((\<forall>j<m. \<not> crossing (fst (select_solver backend)) (after_passes self r v d st a ia dt rad backend j) dt) \<longrightarrow> burstpoint (after_passes self r v d st a ia dt rad backend m) = - 1)
   \<and> (crossing (fst (select_solver backend)) (after_passes self r v d st a ia dt rad backend k) dt \<and> (\<forall>j<k. \<not> crossing (fst (select_solver backend)) (after_passes self r v d st a ia dt rad backend j) dt)
        \<longrightarrow> length (distance (after_passes self r v d st a ia dt rad backend k)) = Suc k
            \<and> burstpoint (after_passes self r v d st a ia dt rad backend m) = (if m \<le> k then - 1 else int (Suc k)))
   \<and> (stopped (after_passes self r v d st a ia dt rad backend (Suc n)) ia \<longrightarrow>
        (\<exists>df self' printed.
            solve_atmospheric_entry self r v d st a ia dt rad backend = Some (df, self', printed)
          \<and> 0 < len_df df \<and> len_df df \<le> Suc n \<and> self' = after_passes self r v d st a ia dt rad backend (len_df df)))"
proof -
  have 1: "burstpoint (after_passes self r v d st a ia dt rad backend 0) = - 1"
    by (simp add: after_passes_0 entry_state_burstpoint)
  have 2: "snd (calculator_rk4 s p) =
       (if burstpoint s = - 1 \<and> ram s p > strength s
        then s\<lparr>burstpoint := int (length (distance s))\<rparr> else s)"
    by (simp add: calculator_rk4_snd_ram)
  have 3: "burstpoint (loop_body solver s dt) =
       (if burstpoint s = - 1 \<and> crossing solver s dt
        then int (length (distance s)) else burstpoint s)"
    by (rule loop_body_burstpoint)
  have 4: "(\<forall>j<m. \<not> crossing (fst (select_solver backend)) (after_passes self r v d st a ia dt rad backend j) dt) \<longrightarrow> burstpoint (after_passes self r v d st a ia dt rad backend m) = - 1"
    using no_crossing_burstpoint [of m backend self r v d st a ia dt rad] by blast
  have 5: "crossing (fst (select_solver backend)) (after_passes self r v d st a ia dt rad backend k) dt \<and> (\<forall>j<k. \<not> crossing (fst (select_solver backend)) (after_passes self r v d st a ia dt rad backend j) dt)
        \<longrightarrow> length (distance (after_passes self r v d st a ia dt rad backend k)) = Suc k
            \<and> burstpoint (after_passes self r v d st a ia dt rad backend m) = (if m \<le> k then - 1 else int (Suc k))"
    using first_crossing_burstpoint [of backend self r v d st a ia dt rad k m]
      after_passes_length(5) [of self r v d st a ia dt rad backend k] by blast
  have 6: "stopped (after_passes self r v d st a ia dt rad backend (Suc n)) ia \<longrightarrow>
        (\<exists>df self' printed.
            solve_atmospheric_entry self r v d st a ia dt rad backend = Some (df, self', printed)
          \<and> 0 < len_df df \<and> len_df df \<le> Suc n \<and> self' = after_passes self r v d st a ia dt rad backend (len_df df))"
  proof
    assume "stopped (after_passes self r v d st a ia dt rad backend (Suc n)) ia"
    from solve_returns [OF this] obtain df m' where m: "m' \<le> n" and l: "len_df df = Suc m'"
      and s: "solve_atmospheric_entry self r v d st a ia dt rad backend
         = Some (df, after_passes self r v d st a ia dt rad backend (Suc m'), snd (select_solver backend))" by blast
    have "after_passes self r v d st a ia dt rad backend (Suc m') = after_passes self r v d st a ia dt rad backend (len_df df)" by (simp only: l)
    moreover have "0 < len_df df" "len_df df \<le> Suc n" using m l by simp_all
    ultimately show "\<exists>df self' printed.
            solve_atmospheric_entry self r v d st a ia dt rad backend = Some (df, self', printed)
          \<and> 0 < len_df df \<and> len_df df \<le> Suc n \<and> self' = after_passes self r v d st a ia dt rad backend (len_df df)"
      using s by blast
  qed
  show ?thesis using 1 2 3 4 5 6 by (intro conjI)
qed

lemma ex_crossing: "\<not> crossing FE ex_s0 1" "crossing FE ex_s1 1"
  by (simp_all add: crossing_def FE_points_def ram_def ex_s0_simps ex_s1_simps power2_eq_square)

lemma ex_solver: "fst (select_solver ''FE'') = FE"
  by (simp add: select_solver_def)

text \<open>
  The theorem at the example run, started from an object that held the index 7. The
  first pass finds the ram pressure \<open>120\<close> below the strength \<open>150\<close> and leaves
  \<open>-1\<close>; the second finds \<open>1.2 * 19.795^2\<close> above it and sets the index 2; the run
  returns after it with that index, and a third pass would keep it.
\<close>

theorem burstpoint_set_once_witness:
  "burstpoint (after_passes (earth_constant\<lparr>burstpoint := 7\<rparr>) 1 10 3000 150 90 25 1 False ''FE'' 0) = - 1
   \<and> \<not> crossing FE ex_s0 1 \<and> crossing FE ex_s1 1
   \<and> burstpoint ex_s1 = - 1 \<and> burstpoint ex_s2 = 2
   \<and> burstpoint (after_passes earth_constant 1 10 3000 150 90 25 1 False ''FE'' 3) = 2
   \<and> solve_atmospheric_entry earth_constant 1 10 3000 150 90 25 1 False ''FE''
       = Some (ex_result, ex_s2, [])
   \<and> len_df ex_result = 2
   \<and> ex_s2 = after_passes earth_constant 1 10 3000 150 90 25 1 False ''FE'' (len_df ex_result)"
proof -
  note t = burstpoint_set_once [where self = earth_constant and r = 1 and v = 10 and d = 3000
      and st = 150 and a = 90 and ia = 25 and dt = 1 and rad = False and backend = "''FE''"
      and k = "Suc 0"]
  have a: "burstpoint (after_passes (earth_constant\<lparr>burstpoint := 7\<rparr>) 1 10 3000 150 90 25 1 False ''FE'' 0) = - 1"
    using burstpoint_set_once [where self = "earth_constant\<lparr>burstpoint := 7\<rparr>" and r = 1
        and v = 10 and d = 3000 and st = 150 and a = 90 and ia = 25 and dt = 1 and rad = False
        and backend = "''FE''", THEN conjunct1] .
  have none: "\<forall>j<Suc 0. \<not> crossing (fst (select_solver ''FE'')) (after_passes earth_constant 1 10 3000 150 90 25 1 False ''FE'' j) 1"
    using ex_crossing(1) by (simp add: ex_passes ex_solver)
  have first: "crossing (fst (select_solver ''FE'')) (after_passes earth_constant 1 10 3000 150 90 25 1 False ''FE'' (Suc 0)) 1"
    using ex_crossing(2) by (simp add: ex_passes ex_solver)
  have b: "burstpoint (after_passes earth_constant 1 10 3000 150 90 25 1 False ''FE'' (Suc 0)) = - 1"
    using t [where m = "Suc 0", THEN conjunct2, THEN conjunct2, THEN conjunct2, THEN conjunct1]
      none by blast
  have c: "burstpoint (after_passes earth_constant 1 10 3000 150 90 25 1 False ''FE'' m) = (if m \<le> Suc 0 then - 1 else int (Suc (Suc 0)))" for m
    using t [where m = m, THEN conjunct2, THEN conjunct2, THEN conjunct2, THEN conjunct2,
        THEN conjunct1] none first by blast
  have c2: "burstpoint (after_passes earth_constant 1 10 3000 150 90 25 1 False ''FE'' (Suc (Suc 0))) = 2" using c [of "Suc (Suc 0)"] by simp
  have c3: "burstpoint (after_passes earth_constant 1 10 3000 150 90 25 1 False ''FE'' 3) = 2" using c [of 3] by simp
  obtain df self' printed where
    s: "solve_atmospheric_entry earth_constant 1 10 3000 150 90 25 1 False ''FE''
          = Some (df, self', printed)"
    and e: "self' = after_passes earth_constant 1 10 3000 150 90 25 1 False ''FE'' (len_df df)"
    using t [where n = "Suc 0", THEN conjunct2, THEN conjunct2, THEN conjunct2, THEN conjunct2,
        THEN conjunct2] ex_stops by blast
  have "df = ex_result" "self' = ex_s2" using s ex_solve by simp_all
  then have d: "ex_s2 = after_passes earth_constant 1 10 3000 150 90 25 1 False ''FE'' (len_df ex_result)" using e by simp
  show ?thesis
    using a ex_crossing b c2 c3 ex_solve ex_result_len d by (simp only: ex_passes) simp
qed

section \<open>Mass along a trajectory: proofs\<close>

lemma nonincreasing_snoc:
  assumes "nonincreasing l" and "l \<noteq> [] \<longrightarrow> x \<le> last l"
  shows "nonincreasing (l @ [x])"
  unfolding nonincreasing_def
proof (intro allI impI)
  fix i assume i: "Suc i < length (l @ [x])"
  show "(l @ [x]) ! Suc i \<le> (l @ [x]) ! i"
  proof (cases "Suc i < length l")
    case True
    then show ?thesis using assms(1) by (simp add: nonincreasing_def nth_append)
  next
    case False
    then have e: "Suc i = length l" using i by simp
    then have "l \<noteq> []" by auto
    then have "x \<le> l ! i" using assms(2) e last_nth_Suc [of l i] by simp
    then show ?thesis using e by (simp add: nth_append)
  qed
qed

lemma nonincreasing_butlast: "nonincreasing l \<Longrightarrow> nonincreasing (butlast l)"
  by (simp add: nonincreasing_def nth_butlast)

lemma FE_body_mass:
  "mass (FE_body s dt) =
     mass s @ [- Ch s * (rhoa s (last (altitude s)) * (pi * last (radius s) ^ 2)
                 * last (velocity s)) * last (velocity s) ^ 2 / (2 * Q s) * dt + last (mass s)]"
  by (simp add: FE_body_def Let_def)

lemma FE_body_mass_le:
  assumes "0 \<le> Ch s" and "0 < Q s" and "0 \<le> dt" and "0 \<le> rhoa s (last (altitude s))"
    and "0 \<le> last (velocity s)"
  shows "last (mass (FE_body s dt)) \<le> last (mass s)"
proof -
  let ?v = "last (velocity s)"
  let ?rho = "rhoa s (last (altitude s))"
  have "0 \<le> ?rho * (pi * last (radius s) ^ 2) * ?v" using assms(4,5) by simp
  then have "0 \<le> Ch s * (?rho * (pi * last (radius s) ^ 2) * ?v) * ?v ^ 2"
    using assms(1) by simp
  then have "0 \<le> Ch s * (?rho * (pi * last (radius s) ^ 2) * ?v) * ?v ^ 2 / (2 * Q s) * dt"
    using assms(2,3) by simp
  then show ?thesis unfolding FE_body_mass by simp
qed

lemma funpow_consts:
  assumes "\<And>s. one_step s (f s)"
  shows "rhoa ((f ^^ n) s) = rhoa s \<and> Ch ((f ^^ n) s) = Ch s \<and> Q ((f ^^ n) s) = Q s"
proof (induction n)
  case 0
  show ?case by simp
next
  case (Suc n)
  have "one_step ((f ^^ n) s) (f ((f ^^ n) s))" using assms .
  from one_step_consts [OF this] Suc show ?case by simp
qed

text \<open>
  The mass component of the derivative is the ablation term, which is not positive where
  the velocity is not negative.
\<close>

lemma mass_part_vadd: "mass_part (vadd a b) = mass_part a + mass_part b"
  by (simp add: mass_part_def vadd_def split: prod.splits)

lemma mass_part_smul: "mass_part (smul c a) = c * mass_part a"
  by (simp add: mass_part_def smul_def split: prod.splits)

lemma calculator_rk4_mass_part:
  assumes "0 \<le> Ch s" and "0 < Q s" and "\<forall>z. 0 \<le> rhoa s z" and "0 \<le> vel p"
  shows "mass_part (fst (calculator_rk4 s p)) \<le> 0"
proof -
  obtain a r z v m x where p: "p = (a, r, z, v, m, x)" by (cases p) auto
  have v: "0 \<le> v" using assms(4) by (simp add: p vel_def)
  have "0 \<le> rhoa s z * (pi * r ^ 2) * v" using assms(3) v by simp
  then have "0 \<le> Ch s * (rhoa s z * (pi * r ^ 2) * v) * v ^ 2" using assms(1) by simp
  then have "0 \<le> Ch s * (rhoa s z * (pi * r ^ 2) * v) * v ^ 2 / (2 * Q s)"
    using assms(2) by simp
  moreover have "mass_part (fst (calculator_rk4 s p))
      = - Ch s * (rhoa s z * (pi * r ^ 2) * v) * v ^ 2 / (2 * Q s)"
    by (simp add: p calculator_rk4_def Let_def mass_part_def)
  ultimately show ?thesis by simp
qed

lemma calculator_rk4_consts:
  "Ch (snd (calculator_rk4 s p)) = Ch s" "Q (snd (calculator_rk4 s p)) = Q s"
  "rhoa (snd (calculator_rk4 s p)) = rhoa s"
  using calculator_rk4_frame [of s p] by auto

lemma RK4_helper_mass_part:
  assumes "0 \<le> Ch s" and "0 < Q s" and "\<forall>z. 0 \<le> rhoa s z" and "0 \<le> dt"
    and "list_all (\<lambda>p. 0 \<le> vel p) (RK4_points s dt)"
  shows "mass_part (fst (RK4_helper s dt)) \<le> 0"
proof -
  define vars where "vars = (last (angle s), last (radius s), last (altitude s),
                       last (velocity s), last (mass s), last (distance s))"
  define k1 where "k1 = fst (calculator_rk4 s vars)"
  define s1 where "s1 = snd (calculator_rk4 s vars)"
  define x2 where "x2 = vadd vars (smul (0.5 * dt) k1)"
  define k2 where "k2 = fst (calculator_rk4 s1 x2)"
  define s2 where "s2 = snd (calculator_rk4 s1 x2)"
  define x3 where "x3 = vadd vars (smul (0.5 * dt) k2)"
  define k3 where "k3 = fst (calculator_rk4 s2 x3)"
  define s3 where "s3 = snd (calculator_rk4 s2 x3)"
  define x4 where "x4 = vadd vars (smul dt k3)"
  define k4 where "k4 = fst (calculator_rk4 s3 x4)"
  have eq: "fst (RK4_helper s dt)
      = smul (dt / 6) (vadd (vadd (vadd k1 (smul 2 k2)) (smul 2 k3)) k4)"
    by (simp add: RK4_helper_def Let_def case_prod_beta vars_def k1_def s1_def x2_def k2_def
          s2_def x3_def k3_def s3_def x4_def k4_def)
  have pts: "RK4_points s dt = [vars, x2, x3, x4]"
    by (simp add: RK4_points_def Let_def case_prod_beta vars_def k1_def s1_def x2_def k2_def
          s2_def x3_def k3_def s3_def x4_def)
  have v: "0 \<le> vel vars" "0 \<le> vel x2" "0 \<le> vel x3" "0 \<le> vel x4"
    using assms(5) by (simp_all add: pts)
  have c1: "Ch s1 = Ch s" "Q s1 = Q s" "rhoa s1 = rhoa s"
    unfolding s1_def by (rule calculator_rk4_consts)+
  have c2: "Ch s2 = Ch s" "Q s2 = Q s" "rhoa s2 = rhoa s"
    unfolding s2_def using c1 by (simp_all add: calculator_rk4_consts)
  have c3: "Ch s3 = Ch s" "Q s3 = Q s" "rhoa s3 = rhoa s"
    unfolding s3_def using c2 by (simp_all add: calculator_rk4_consts)
  have m1: "mass_part k1 \<le> 0"
    unfolding k1_def using assms(1-3) v(1) by (rule calculator_rk4_mass_part)
  have m2: "mass_part k2 \<le> 0"
    unfolding k2_def using assms(1-3) v(2) c1 by (intro calculator_rk4_mass_part) simp_all
  have m3: "mass_part k3 \<le> 0"
    unfolding k3_def using assms(1-3) v(3) c2 by (intro calculator_rk4_mass_part) simp_all
  have m4: "mass_part k4 \<le> 0"
    unfolding k4_def using assms(1-3) v(4) c3 by (intro calculator_rk4_mass_part) simp_all
  have "mass_part k1 + 2 * mass_part k2 + 2 * mass_part k3 + mass_part k4 \<le> 0"
    using m1 m2 m3 m4 by simp
  then have "dt / 6 * (mass_part k1 + 2 * mass_part k2 + 2 * mass_part k3 + mass_part k4) \<le> 0"
    using assms(4) by (simp add: mult_nonneg_nonpos)
  then show ?thesis by (simp add: eq mass_part_vadd mass_part_smul)
qed

lemma RK4_body_mass_part:
  "mass (RK4_body s dt) = mass s @ [mass_part (fst (RK4_helper s dt)) + last (mass s)]"
proof -
  obtain b where b: "snd (RK4_helper s dt) = s\<lparr>burstpoint := b\<rparr>"
    using RK4_helper_frame by blast
  obtain ct cr cz cv cm cx where c: "fst (RK4_helper s dt) = (ct, cr, cz, cv, cm, cx)"
    by (cases "fst (RK4_helper s dt)") auto
  have h: "RK4_helper s dt = ((ct, cr, cz, cv, cm, cx), s\<lparr>burstpoint := b\<rparr>)"
    using b c by (cases "RK4_helper s dt") simp
  show ?thesis by (simp add: RK4_body_def h c mass_part_def)
qed

text \<open>
  A pass of either loop appends a mass that is not greater than the last, when none of
  its derivative evaluations is at a negative velocity.
\<close>

lemma loop_body_mass_le:
  assumes "0 \<le> Ch s" and "0 < Q s" and "\<forall>z. 0 \<le> rhoa s z" and "0 \<le> dt"
    and "list_all (\<lambda>p. 0 \<le> vel p) (evaluations solver s dt)"
  shows "\<exists>x. mass (loop_body solver s dt) = mass s @ [x] \<and> x \<le> last (mass s)"
proof (cases solver)
  case FE
  then have v: "0 \<le> last (velocity s)" using assms(5) by (simp add: FE_points_def vel_def)
  have "last (mass (FE_body s dt)) \<le> last (mass s)"
    using assms(1,2,4) assms(3) v by (intro FE_body_mass_le) simp_all
  moreover obtain x where "mass (FE_body s dt) = mass s @ [x]" using FE_body_mass by blast
  ultimately show ?thesis using FE by simp
next
  case RK4
  then have "list_all (\<lambda>p. 0 \<le> vel p) (RK4_points s dt)" using assms(5) by simp
  then have "mass_part (fst (RK4_helper s dt)) \<le> 0"
    using assms(1-4) by (intro RK4_helper_mass_part)
  then show ?thesis using RK4 by (simp add: RK4_body_mass_part)
qed

lemma after_passes_consts:
  "rhoa (after_passes self r v d st a ia dt rad backend k) = rhoa self"
  "Ch (after_passes self r v d st a ia dt rad backend k) = Ch self"
  "Q (after_passes self r v d st a ia dt rad backend k) = Q self"
  using funpow_consts [of "\<lambda>s. loop_body (fst (select_solver backend)) s dt" k
      "entry_state self r v d st a ia rad", OF loop_body_one_step]
  by (simp_all add: after_passes_def entry_state_def start_def)

lemma passes_nonincreasing:
  assumes "0 \<le> Ch self" and "0 < Q self" and "\<forall>z. 0 \<le> rhoa self z" and "0 \<le> dt"
    and "\<And>k. k < j \<Longrightarrow>
           list_all (\<lambda>p. 0 \<le> vel p) (evaluations (fst (select_solver backend)) (after_passes self r v d st a ia dt rad backend k) dt)"
  shows "nonincreasing (mass (after_passes self r v d st a ia dt rad backend j))"
  using assms(5)
proof (induction j)
  case 0
  show ?case
    by (simp add: after_passes_0 entry_state_def start_def nonincreasing_def)
next
  case (Suc j)
  have ih: "nonincreasing (mass (after_passes self r v d st a ia dt rad backend j))" using Suc by simp
  have e: "list_all (\<lambda>p. 0 \<le> vel p) (evaluations (fst (select_solver backend)) (after_passes self r v d st a ia dt rad backend j) dt)"
    using Suc.prems by simp
  obtain x where x: "mass (after_passes self r v d st a ia dt rad backend (Suc j)) = mass (after_passes self r v d st a ia dt rad backend j) @ [x]" "x \<le> last (mass (after_passes self r v d st a ia dt rad backend j))"
    using loop_body_mass_le [of "after_passes self r v d st a ia dt rad backend j" dt "fst (select_solver backend)", OF _ _ _ assms(4) e] assms(1-3)
    by (auto simp: after_passes_consts after_passes_Suc)
  have "nonincreasing (mass (after_passes self r v d st a ia dt rad backend j) @ [x])" using ih x(2) by (intro nonincreasing_snoc) simp_all
  then show ?case by (simp only: x(1))
qed

lemma select_solver_RK4: "fst (select_solver backend) = RK4 \<longleftrightarrow> backend = ''RK4''"
  by (simp add: select_solver_def)

text \<open>
  C7, as far as the code goes. With the exponential or the constant atmosphere, positive
  constants \<open>rho0\<close>, \<open>Ch\<close> and \<open>Q\<close>, a positive entry velocity and a time step that
  is not negative, let some pass of the loop end in a stopping state, and let the solver
  be the Euler solver (the name \<open>FE\<close>, or any name but \<open>RK4\<close>) or else let none of
  the derivative evaluations of the Runge-Kutta passes up to that pass be at a negative
  velocity. Then the run returns, and mass never increases from one state to the next,
  along the table's rows and to the state that ended the run as well.
\<close>

theorem mass_nonincreasing:
  assumes "stopped (after_passes self r v d st a ia dt rad backend (Suc n)) ia"
    and "rhoa self = (\<lambda>x. rho0 self * exp (- x / H self)) \<or> rhoa self = (\<lambda>x. rho0 self)"
    and "0 < rho0 self" and "0 < Ch self" and "0 < Q self"
    and "0 < v" and "0 \<le> dt"
    and "backend = ''RK4'' \<longrightarrow>
           (\<forall>k\<le>n. list_all (\<lambda>p. 0 \<le> vel p) (RK4_points (after_passes self r v d st a ia dt rad backend k) dt))"
  shows "\<exists>df self' printed ms.
       solve_atmospheric_entry self r v d st a ia dt rad backend = Some (df, self', printed)
     \<and> getitem df ''mass'' = Inr ms \<and> length ms = len_df df \<and> ms = butlast (mass self')
     \<and> (\<forall>i. Suc i < len_df df \<longrightarrow> ms ! Suc i \<le> ms ! i)
     \<and> nonincreasing (mass self')"
proof -
  obtain df m where m: "m \<le> n" and l: "len_df df = Suc m"
    and s: "solve_atmospheric_entry self r v d st a ia dt rad backend
         = Some (df, after_passes self r v d st a ia dt rad backend (Suc m), snd (select_solver backend))"
    and ns: "\<forall>k<m. \<not> stopped (after_passes self r v d st a ia dt rad backend (Suc k)) ia"
    using solve_returns [OF assms(1)] by blast
  have rho: "\<forall>z. 0 \<le> rhoa self z"
  proof
    fix z
    have "0 \<le> rho0 self * exp (- z / H self)" using assms(3) by simp
    then show "0 \<le> rhoa self z" using assms(2,3) by auto
  qed
  have ev: "list_all (\<lambda>p. 0 \<le> vel p) (evaluations (fst (select_solver backend)) (after_passes self r v d st a ia dt rad backend k) dt)" if k: "k < Suc m" for k
  proof (cases "fst (select_solver backend)")
    case RK4
    then have "backend = ''RK4''" by (simp add: select_solver_RK4)
    moreover have "k \<le> n" using k m by simp
    ultimately show ?thesis using assms(8) RK4 by simp
  next
    case FE
    have "0 \<le> last (velocity (after_passes self r v d st a ia dt rad backend k))"
    proof (cases k)
      case 0
      then show ?thesis using assms(6)
        by (simp add: after_passes_0 entry_state_def start_def)
    next
      case (Suc j)
      then have "\<not> stopped (after_passes self r v d st a ia dt rad backend (Suc j)) ia" using ns k by simp
      then show ?thesis using Suc by (simp add: stopped_def)
    qed
    then show ?thesis using FE by (simp add: FE_points_def vel_def)
  qed
  have ni: "nonincreasing (mass (after_passes self r v d st a ia dt rad backend (Suc m)))"
    using assms(4,5) rho assms(7) ev by (intro passes_nonincreasing) simp_all
  have col: "getitem df ''mass'' = Inr (butlast (mass (after_passes self r v d st a ia dt rad backend (Suc m))))"
    using solve_Some(2) [OF s] by (simp add: getitem_def)
  have len: "length (butlast (mass (after_passes self r v d st a ia dt rad backend (Suc m)))) = len_df df"
    using l by (simp add: after_passes_length)
  have "nonincreasing (butlast (mass (after_passes self r v d st a ia dt rad backend (Suc m))))" using ni by (rule nonincreasing_butlast)
  then have rows: "\<forall>i. Suc i < len_df df \<longrightarrow>
      butlast (mass (after_passes self r v d st a ia dt rad backend (Suc m))) ! Suc i \<le> butlast (mass (after_passes self r v d st a ia dt rad backend (Suc m))) ! i"
    unfolding len [symmetric] nonincreasing_def .
  show ?thesis
    apply (rule exI [of _ df])
    apply (rule exI [of _ "after_passes self r v d st a ia dt rad backend (Suc m)"])
    apply (rule exI [of _ "snd (select_solver backend)"])
    apply (rule exI [of _ "butlast (mass (after_passes self r v d st a ia dt rad backend (Suc m)))"])
    using s col len rows ni by (intro conjI) blast+
qed

lemma ex_consts:
  "rhoa earth_constant = (\<lambda>x. rho0 earth_constant)" "0 < rho0 earth_constant"
  "0 < Ch earth_constant" "0 < Q earth_constant"
  by (simp_all add: earth_constant_def)

section \<open>Runge-Kutta runs on the planet of constant density: proofs\<close>

text \<open>The derivative and one pass of the loop on a quiet planet.\<close>

lemma Gd_eq:
  "- (1 / 10 ^ 3) * ((12 / 10) * (pi * (1 / 10) ^ 2) * v) / (2 * (pi * M))
     + 981 / 100 * (- sin d) / v - v * (- sin d) / (6371000 + z) = Gd d z v M"
proof -
  have a: "(1 / 10 ^ 3) * ((12 / 10) * (pi * (1 / 10) ^ 2) * v) / (2 * (pi * M))
           = 6 / 10 ^ 6 * (v * (1 / M))"
    by (cases "M = 0") (simp_all add: field_simps power2_eq_square)
  have b: "981 / 100 * (- sin d) / v = - (981 / 100 * (sin d * (1 / v)))" by simp
  have c: "v * (- sin d) / (6371000 + z) = - (v * (sin d * (1 / (6371000 + z))))" by simp
  have "- (1 / 10 ^ 3) * ((12 / 10) * (pi * (1 / 10) ^ 2) * v) / (2 * (pi * M))
     = - ((1 / 10 ^ 3) * ((12 / 10) * (pi * (1 / 10) ^ 2) * v) / (2 * (pi * M)))"
    by (simp only: mult_minus_left minus_divide_left)
  then show ?thesis unfolding Gd_def a b c by linarith
qed

lemma Gv_eq:
  "- 1 * ((12 / 10) * (pi * (1 / 10) ^ 2) * v) * v / (2 * (pi * M)) + 981 / 100 * cos d
     = Gv d v M"
  unfolding Gv_def by (cases "M = 0") (simp_all add: field_simps power2_eq_square)

lemma GM_eq:
  "- (1 / 10) * ((12 / 10) * (pi * (1 / 10) ^ 2) * v) * v ^ 2 / (2 * 10 ^ 7) = pi * GM v"
  unfolding GM_def by (simp add: power2_eq_square)

lemma calc_quiet:
  assumes q: "quiet p" and ram: "12 / 10 * (v * v) \<le> 10 ^ 12"
  shows "calculator_rk4 p (pi / 2 + d, 1 / 10, z, v, pi * M, x)
         = ((Gd d z v M, 0, Gz d v, Gv d v M, pi * GM v, Gx d z v), p)"
proof -
  have c: "Cd p = 1" "Ch p = 1 / 10" "Q p = 10 ^ 7" "Cl p = 1 / 10 ^ 3" "Rp p = 6371000"
    "g p = 981 / 100" "rhoa p = (\<lambda>x. 12 / 10)" "strength p = 10 ^ 12"
    using q by (simp_all add: quiet_def)
  have sn: "sin (pi / 2 + d) = cos d" by (simp add: sin_add)
  have cs: "cos (pi / 2 + d) = - sin d" by (simp add: cos_add)
  have nr: "\<not> (rhoa p z * v ^ 2 > strength p)"
    using ram by (simp add: c power2_eq_square)
  have e1: "- Cl p * (rhoa p z * (pi * (1 / 10) ^ 2) * v) / (2 * (pi * M))
            + g p * cos (pi / 2 + d) / v - v * cos (pi / 2 + d) / (Rp p + z) = Gd d z v M"
    unfolding c cs by (rule Gd_eq)
  have e3: "- v * sin (pi / 2 + d) = Gz d v" by (simp add: sn Gz_def)
  have e4: "- Cd p * (rhoa p z * (pi * (1 / 10) ^ 2) * v) * v / (2 * (pi * M))
            + g p * sin (pi / 2 + d) = Gv d v M"
    unfolding c sn by (rule Gv_eq)
  have e5: "- Ch p * (rhoa p z * (pi * (1 / 10) ^ 2) * v) * v ^ 2 / (2 * Q p) = pi * GM v"
    unfolding c by (rule GM_eq)
  have e6: "v * cos (pi / 2 + d) / (1 + z / Rp p) = Gx d z v" by (simp add: c cs Gx_def)
  show ?thesis
    unfolding calculator_rk4_def Let_def prod.case
    using nr by (simp only: e1 e3 e4 e5 e6 if_False simp_thms)
qed

lemma quiet_one_step: "one_step s t \<Longrightarrow> quiet s \<Longrightarrow> quiet t"
  using one_step_consts [of s t] by (simp add: quiet_def)

lemma RK4_body_quiet:
  fixes s :: planet and dt :: real
  assumes q: "quiet s"
    and r: "last (radius s) = 1 / 10"
    and a: "last (angle s) = pi / 2 + d1" and z: "last (altitude s) = z1"
    and v: "last (velocity s) = v1" and m: "last (mass s) = pi * M1"
    and k1: "k1d = Gd d1 z1 v1 M1" "k1z = Gz d1 v1" "k1v = Gv d1 v1 M1" "k1M = GM v1"
    and s2: "d2 = d1 + dt / 2 * k1d" "z2 = z1 + dt / 2 * k1z" "v2 = v1 + dt / 2 * k1v"
      "M2 = M1 + dt / 2 * k1M"
    and k2: "k2d = Gd d2 z2 v2 M2" "k2z = Gz d2 v2" "k2v = Gv d2 v2 M2" "k2M = GM v2"
    and s3: "d3 = d1 + dt / 2 * k2d" "z3 = z1 + dt / 2 * k2z" "v3 = v1 + dt / 2 * k2v"
      "M3 = M1 + dt / 2 * k2M"
    and k3: "k3d = Gd d3 z3 v3 M3" "k3z = Gz d3 v3" "k3v = Gv d3 v3 M3" "k3M = GM v3"
    and s4: "d4 = d1 + dt * k3d" "z4 = z1 + dt * k3z" "v4 = v1 + dt * k3v" "M4 = M1 + dt * k3M"
    and k4: "k4d = Gd d4 z4 v4 M4" "k4z = Gz d4 v4" "k4v = Gv d4 v4 M4" "k4M = GM v4"
    and ram: "12 / 10 * (v1 * v1) \<le> 10 ^ 12" "12 / 10 * (v2 * v2) \<le> 10 ^ 12"
      "12 / 10 * (v3 * v3) \<le> 10 ^ 12" "12 / 10 * (v4 * v4) \<le> 10 ^ 12"
  shows "quiet (RK4_body s dt)"
    and "last (radius (RK4_body s dt)) = 1 / 10"
    and "last (angle (RK4_body s dt)) = pi / 2 + (d1 + dt / 6 * (k1d + 2 * k2d + 2 * k3d + k4d))"
    and "last (altitude (RK4_body s dt)) = z1 + dt / 6 * (k1z + 2 * k2z + 2 * k3z + k4z)"
    and "last (velocity (RK4_body s dt)) = v1 + dt / 6 * (k1v + 2 * k2v + 2 * k3v + k4v)"
    and "last (mass (RK4_body s dt)) = pi * (M1 + dt / 6 * (k1M + 2 * k2M + 2 * k3M + k4M))"
    and "map vel (RK4_points s dt) = [v1, v2, v3, v4]"
proof -
  define x1 where "x1 = last (distance s)"
  define kx1 where "kx1 = Gx d1 z1 v1"
  define x2 where "x2 = x1 + 0.5 * dt * kx1"
  define kx2 where "kx2 = Gx d2 z2 v2"
  define x3 where "x3 = x1 + 0.5 * dt * kx2"
  define kx3 where "kx3 = Gx d3 z3 v3"
  define x4 where "x4 = x1 + dt * kx3"
  define kx4 where "kx4 = Gx d4 z4 v4"
  let ?u = "(pi / 2 + d1, 1 / 10, z1, v1, pi * M1, x1)"
  let ?K1 = "(k1d, 0, k1z, k1v, pi * k1M, kx1)"
  let ?K2 = "(k2d, 0, k2z, k2v, pi * k2M, kx2)"
  let ?K3 = "(k3d, 0, k3z, k3v, pi * k3M, kx3)"
  let ?K4 = "(k4d, 0, k4z, k4v, pi * k4M, kx4)"
  have C1: "calculator_rk4 s ?u = (?K1, s)"
    unfolding k1 kx1_def by (rule calc_quiet [OF q ram(1)])
  have st2: "vadd ?u (smul (0.5 * dt) ?K1) = (pi / 2 + d2, 1 / 10, z2, v2, pi * M2, x2)"
    by (simp add: vadd_def smul_def s2 x2_def algebra_simps)
  have C2: "calculator_rk4 s (pi / 2 + d2, 1 / 10, z2, v2, pi * M2, x2) = (?K2, s)"
    unfolding k2 kx2_def by (rule calc_quiet [OF q ram(2)])
  have st3: "vadd ?u (smul (0.5 * dt) ?K2) = (pi / 2 + d3, 1 / 10, z3, v3, pi * M3, x3)"
    by (simp add: vadd_def smul_def s3 x3_def algebra_simps)
  have C3: "calculator_rk4 s (pi / 2 + d3, 1 / 10, z3, v3, pi * M3, x3) = (?K3, s)"
    unfolding k3 kx3_def by (rule calc_quiet [OF q ram(3)])
  have st4: "vadd ?u (smul dt ?K3) = (pi / 2 + d4, 1 / 10, z4, v4, pi * M4, x4)"
    by (simp add: vadd_def smul_def s4 x4_def algebra_simps)
  have C4: "calculator_rk4 s (pi / 2 + d4, 1 / 10, z4, v4, pi * M4, x4) = (?K4, s)"
    unfolding k4 kx4_def by (rule calc_quiet [OF q ram(4)])
  have H: "RK4_helper s dt
           = (smul (dt / 6) (vadd (vadd (vadd ?K1 (smul 2 ?K2)) (smul 2 ?K3)) ?K4), s)"
    unfolding RK4_helper_def Let_def a r z v m x1_def [symmetric]
    by (simp only: C1 prod.case st2 C2 st3 C3 st4 C4)
  have B: "RK4_body s dt =
        s\<lparr> velocity := velocity s @ [dt / 6 * (k1v + 2 * k2v + 2 * k3v + k4v) + v1],
           mass := mass s @ [dt / 6 * (pi * k1M + 2 * (pi * k2M) + 2 * (pi * k3M) + pi * k4M)
                             + pi * M1],
           altitude := altitude s @ [dt / 6 * (k1z + 2 * k2z + 2 * k3z + k4z) + z1],
           angle := angle s @ [dt / 6 * (k1d + 2 * k2d + 2 * k3d + k4d) + (pi / 2 + d1)],
           distance := distance s @ [dt / 6 * (kx1 + 2 * kx2 + 2 * kx3 + kx4) + x1],
           radius := radius s @ [1 / 10],
           alltimestep := alltimestep s @ [dt + last (alltimestep s)] \<rparr>"
    unfolding RK4_body_def H
    by (simp add: vadd_def smul_def a r z v m x1_def)
  show "quiet (RK4_body s dt)" using RK4_body_one_step q by (rule quiet_one_step)
  show "last (radius (RK4_body s dt)) = 1 / 10" by (simp add: B)
  show "last (angle (RK4_body s dt)) = pi / 2 + (d1 + dt / 6 * (k1d + 2 * k2d + 2 * k3d + k4d))"
    by (simp add: B)
  show "last (altitude (RK4_body s dt)) = z1 + dt / 6 * (k1z + 2 * k2z + 2 * k3z + k4z)"
    by (simp add: B)
  show "last (velocity (RK4_body s dt)) = v1 + dt / 6 * (k1v + 2 * k2v + 2 * k3v + k4v)"
    by (simp add: B)
  show "last (mass (RK4_body s dt)) = pi * (M1 + dt / 6 * (k1M + 2 * k2M + 2 * k3M + k4M))"
    by (simp add: B algebra_simps)
  have P: "RK4_points s dt = [?u, (pi / 2 + d2, 1 / 10, z2, v2, pi * M2, x2),
      (pi / 2 + d3, 1 / 10, z3, v3, pi * M3, x3), (pi / 2 + d4, 1 / 10, z4, v4, pi * M4, x4)]"
    unfolding RK4_points_def Let_def a r z v m x1_def [symmetric]
    by (simp only: C1 prod.case st2 C2 st3 C3 st4)
  show "map vel (RK4_points s dt) = [v1, v2, v3, v4]" by (simp add: P vel_def)
qed

text \<open>
  Bounds of products, reciprocals, sines and cosines from bounds of their arguments, and of
  the forms \<open>Gd\<close>, \<open>Gz\<close>, \<open>Gv\<close>, \<open>GM\<close> and the weighted sums of a pass.
\<close>

lemma mult_bounds:
  fixes x y :: real
  assumes x: "a \<le> x \<and> x \<le> b" and y: "c \<le> y \<and> y \<le> d"
    and lo: "lo \<le> a * c" "lo \<le> a * d" "lo \<le> b * c" "lo \<le> b * d"
    and hi: "a * c \<le> hi" "a * d \<le> hi" "b * c \<le> hi" "b * d \<le> hi"
  shows "lo \<le> x * y \<and> x * y \<le> hi"
proof -
  have ay: "lo \<le> a * y \<and> a * y \<le> hi"
  proof (cases "0 \<le> a")
    case True
    then have "a * c \<le> a * y" "a * y \<le> a * d" using y by (simp_all add: mult_left_mono)
    then show ?thesis using lo hi by linarith
  next
    case False
    then have "a * d \<le> a * y" "a * y \<le> a * c" using y by (simp_all add: mult_left_mono_neg)
    then show ?thesis using lo hi by linarith
  qed
  have by': "lo \<le> b * y \<and> b * y \<le> hi"
  proof (cases "0 \<le> b")
    case True
    then have "b * c \<le> b * y" "b * y \<le> b * d" using y by (simp_all add: mult_left_mono)
    then show ?thesis using lo hi by linarith
  next
    case False
    then have "b * d \<le> b * y" "b * y \<le> b * c" using y by (simp_all add: mult_left_mono_neg)
    then show ?thesis using lo hi by linarith
  qed
  show ?thesis
  proof (cases "0 \<le> y")
    case True
    then have "a * y \<le> x * y" "x * y \<le> b * y" using x by (simp_all add: mult_right_mono)
    then show ?thesis using ay by' by linarith
  next
    case False
    then have "b * y \<le> x * y" "x * y \<le> a * y" using x by (simp_all add: mult_right_mono_neg)
    then show ?thesis using ay by' by linarith
  qed
qed

lemma recip_bounds:
  fixes y :: real
  assumes y: "c \<le> y \<and> y \<le> d" and s: "0 < c * d" and lo: "lo \<le> 1 / d" and hi: "1 / c \<le> hi"
  shows "lo \<le> 1 / y \<and> 1 / y \<le> hi"
proof (cases "0 < c")
  case True
  then have "0 < y" "0 < d" using y by auto
  then have "1 / d \<le> 1 / y" "1 / y \<le> 1 / c" using y True by (simp_all add: frac_le)
  then show ?thesis using lo hi by linarith
next
  case False
  then have c: "c < 0" and d: "d < 0" using s by (auto simp: zero_less_mult_iff)
  then have yn: "y < 0" using y by auto
  have "1 / d \<le> 1 / y" using y d yn by (simp add: field_simps)
  moreover have "1 / y \<le> 1 / c" using y c yn by (simp add: field_simps)
  ultimately show ?thesis using lo hi by linarith
qed

lemma cos_small:
  fixes d :: real
  assumes d: "lo \<le> d \<and> d \<le> hi" and D: "- D \<le> lo" "hi \<le> D" and c: "cl \<le> 1 - D * D / 2"
  shows "cl \<le> cos d \<and> cos d \<le> 1"
proof -
  have ad: "\<bar>d\<bar> \<le> D" using d D by auto
  have "\<bar>sin (d / 2)\<bar> \<le> \<bar>d / 2\<bar>" by (rule abs_sin_x_le_abs_x)
  then have "\<bar>sin (d / 2)\<bar> \<le> D / 2" using ad by simp
  then have "\<bar>sin (d / 2)\<bar> * \<bar>sin (d / 2)\<bar> \<le> (D / 2) * (D / 2)"
    by (intro mult_mono) simp_all
  then have s2: "sin (d / 2) ^ 2 \<le> D * D / 4" by (simp add: power2_eq_square abs_mult_self_eq)
  have "cos d = 1 - 2 * sin (d / 2) ^ 2" using cos_double_sin [of "d / 2"] by simp
  then show ?thesis using s2 c cos_le_one [of d] by linarith
qed

lemma sin_small:
  fixes d :: real
  assumes d: "lo \<le> d \<and> d \<le> hi" and D: "- D \<le> lo" "hi \<le> D"
    and s: "sl \<le> - D" "D \<le> sh"
  shows "sl \<le> sin d \<and> sin d \<le> sh"
proof -
  have "\<bar>sin d\<bar> \<le> \<bar>d\<bar>" by (rule abs_sin_x_le_abs_x)
  then show ?thesis using d D s by auto
qed

lemma lin3:
  fixes a b c :: real
  assumes "l1 \<le> a \<and> a \<le> h1" "l2 \<le> b \<and> b \<le> h2" "l3 \<le> c \<and> c \<le> h3"
    and "lo \<le> l1 - 981 / 100 * h2 - 6 / 10 ^ 6 * h3"
    and "h1 - 981 / 100 * l2 - 6 / 10 ^ 6 * l3 \<le> hi"
  shows "lo \<le> a - 981 / 100 * b - 6 / 10 ^ 6 * c \<and> a - 981 / 100 * b - 6 / 10 ^ 6 * c \<le> hi"
  using assms by simp

lemma Gd_bounds:
  assumes "l1 \<le> v * (sin d * (1 / (6371000 + z))) \<and> v * (sin d * (1 / (6371000 + z))) \<le> h1"
    and "l2 \<le> sin d * (1 / v) \<and> sin d * (1 / v) \<le> h2"
    and "l3 \<le> v * (1 / M) \<and> v * (1 / M) \<le> h3"
    and "lo \<le> l1 - 981 / 100 * h2 - 6 / 10 ^ 6 * h3"
    and "h1 - 981 / 100 * l2 - 6 / 10 ^ 6 * l3 \<le> hi"
  shows "lo \<le> Gd d z v M \<and> Gd d z v M \<le> hi"
  unfolding Gd_def using assms by (rule lin3)

lemma Gz_bounds:
  assumes "l \<le> v * cos d \<and> v * cos d \<le> h" and "lo \<le> - h" and "- l \<le> hi"
  shows "lo \<le> Gz d v \<and> Gz d v \<le> hi"
  unfolding Gz_def using assms by simp

lemma lin2:
  fixes a b :: real
  assumes "l1 \<le> a \<and> a \<le> h1" "l2 \<le> b \<and> b \<le> h2"
    and "lo \<le> 981 / 100 * l1 - 6 / 10 ^ 3 * h2"
    and "981 / 100 * h1 - 6 / 10 ^ 3 * l2 \<le> hi"
  shows "lo \<le> 981 / 100 * a - 6 / 10 ^ 3 * b \<and> 981 / 100 * a - 6 / 10 ^ 3 * b \<le> hi"
  using assms by simp

lemma Gv_bounds:
  assumes "l1 \<le> cos d \<and> cos d \<le> h1"
    and "l2 \<le> (v * v) * (1 / M) \<and> (v * v) * (1 / M) \<le> h2"
    and "lo \<le> 981 / 100 * l1 - 6 / 10 ^ 3 * h2"
    and "981 / 100 * h1 - 6 / 10 ^ 3 * l2 \<le> hi"
  shows "lo \<le> Gv d v M \<and> Gv d v M \<le> hi"
  unfolding Gv_def using assms by (rule lin2)

lemma lin1:
  fixes a :: real
  assumes "l \<le> a \<and> a \<le> h" and "lo \<le> - (6 / 10 ^ 11 * h)" and "- (6 / 10 ^ 11 * l) \<le> hi"
  shows "lo \<le> - (6 / 10 ^ 11 * a) \<and> - (6 / 10 ^ 11 * a) \<le> hi"
  using assms by simp

lemma GM_bounds:
  assumes "l \<le> v * (v * v) \<and> v * (v * v) \<le> h"
    and "lo \<le> - (6 / 10 ^ 11 * h)" and "- (6 / 10 ^ 11 * l) \<le> hi"
  shows "lo \<le> GM v \<and> GM v \<le> hi"
  unfolding GM_def using assms by (rule lin1)

lemma axpy_bounds:
  fixes x k c :: real
  assumes "l1 \<le> x \<and> x \<le> h1" and "l2 \<le> k \<and> k \<le> h2" and "0 \<le> c"
    and "lo \<le> l1 + c * l2" and "h1 + c * h2 \<le> hi"
  shows "lo \<le> x + c * k \<and> x + c * k \<le> hi"
proof -
  have "c * l2 \<le> c * k" "c * k \<le> c * h2" using assms(2,3) by (simp_all add: mult_left_mono)
  then show ?thesis using assms(1,4,5) by linarith
qed

lemma rk_bounds:
  fixes x c :: real
  assumes "l0 \<le> x \<and> x \<le> h0" and "l1 \<le> k1 \<and> k1 \<le> h1" and "l2 \<le> k2 \<and> k2 \<le> h2"
    and "l3 \<le> k3 \<and> k3 \<le> h3" and "l4 \<le> k4 \<and> k4 \<le> h4" and "0 \<le> c"
    and "lo \<le> l0 + c * (l1 + 2 * l2 + 2 * l3 + l4)"
    and "h0 + c * (h1 + 2 * h2 + 2 * h3 + h4) \<le> hi"
  shows "lo \<le> x + c * (k1 + 2 * k2 + 2 * k3 + k4) \<and> x + c * (k1 + 2 * k2 + 2 * k3 + k4) \<le> hi"
proof -
  have "l1 + 2 * l2 + 2 * l3 + l4 \<le> k1 + 2 * k2 + 2 * k3 + k4
      \<and> k1 + 2 * k2 + 2 * k3 + k4 \<le> h1 + 2 * h2 + 2 * h3 + h4"
    using assms(2-5) by simp
  from axpy_bounds [OF assms(1) this assms(6,7,8)] show ?thesis .
qed

lemma shift_bounds:
  fixes z :: real
  assumes "l \<le> z \<and> z \<le> h" and "lo \<le> 6371000 + l" and "6371000 + h \<le> hi"
  shows "lo \<le> 6371000 + z \<and> 6371000 + z \<le> hi"
  using assms by simp

lemma ram_bound:
  fixes v :: real
  assumes "l \<le> v * v \<and> v * v \<le> h" and "12 / 10 * h \<le> 10 ^ 12"
  shows "12 / 10 * (v * v) \<le> 10 ^ 12"
  using assms by simp

lemma vel_nonneg_points:
  assumes "map vel ps = [a, b, c, e]" and "0 \<le> a" and "0 \<le> b" and "0 \<le> c" and "0 \<le> e"
  shows "list_all (\<lambda>p. 0 \<le> vel p) ps"
proof -
  have "list_all (\<lambda>x. 0 \<le> x) (map vel ps)" using assms by simp
  then show ?thesis by (simp add: list_all_iff)
qed

text \<open>
  The two passes of the run from the altitude 100000 with the velocity 8000, each
  followed through its four derivative evaluations with bounds of every intermediate
  value.
\<close>

lemma cx_pass1:
  fixes s :: planet and d1 z1 v1 M1 :: real
  assumes q: "quiet s" and r: "last (radius s) = 1 / 10"
    and a: "last (angle s) = pi / 2 + d1" and z: "last (altitude s) = z1"
    and v: "last (velocity s) = v1" and m: "last (mass s) = pi * M1"
    and bd1: "0 \<le> d1 \<and> d1 \<le> 0"
    and bz1: "100000 \<le> z1 \<and> z1 \<le> 100000"
    and bv1: "8000 \<le> v1 \<and> v1 \<le> 8000"
    and bM1: "4 \<le> M1 \<and> M1 \<le> 4"
  shows "quiet (RK4_body s 1) \<and> last (radius (RK4_body s 1)) = 1 / 10
     \<and> (\<exists>d z v M. last (angle (RK4_body s 1)) = pi / 2 + d
          \<and> last (altitude (RK4_body s 1)) = z \<and> last (velocity (RK4_body s 1)) = v
          \<and> last (mass (RK4_body s 1)) = pi * M
          \<and> - 0.0097681087137498 \<le> d \<and> d \<le> - 0.0092101164250573
          \<and> 63516.563823465 \<le> z \<and> z \<le> 63525.034881775
          \<and> 81033.891571572 \<le> v \<and> v \<le> 81033.89189632
          \<and> 258073.01248013 \<le> M \<and> M \<le> 258073.02112938)"
proof -
  define k1d where "k1d = Gd d1 z1 v1 M1"
  define k1z where "k1z = Gz d1 v1"
  define k1v where "k1v = Gv d1 v1 M1"
  define k1M where "k1M = GM v1"
  have b1: "1 \<le> cos d1 \<and> cos d1 \<le> 1"
    by (rule cos_small [where D = "0", OF bd1]) simp_all
  have b2: "0 \<le> sin d1 \<and> sin d1 \<le> 0"
    by (rule sin_small [where D = "0", OF bd1]) simp_all
  have b3: "0.000125 \<le> 1 / v1 \<and> 1 / v1 \<le> 0.000125"
    by (rule recip_bounds [OF bv1]) simp_all
  have b4: "0.25 \<le> 1 / M1 \<and> 1 / M1 \<le> 0.25"
    by (rule recip_bounds [OF bM1]) simp_all
  have b5: "6471000 \<le> 6371000 + z1 \<and> 6371000 + z1 \<le> 6471000"
    by (rule shift_bounds [OF bz1]) simp_all
  have b6: "0.00000015453562046051 \<le> 1 / (6371000 + z1) \<and> 1 / (6371000 + z1) \<le> 0.00000015453562046052"
    by (rule recip_bounds [OF b5]) simp_all
  have b7: "0 \<le> (sin d1) * (1 / (6371000 + z1)) \<and> (sin d1) * (1 / (6371000 + z1)) \<le> 0"
    by (rule mult_bounds [OF b2 b6]) simp_all
  have b8: "0 \<le> v1 * ((sin d1) * (1 / (6371000 + z1))) \<and> v1 * ((sin d1) * (1 / (6371000 + z1))) \<le> 0"
    by (rule mult_bounds [OF bv1 b7]) simp_all
  have b9: "0 \<le> (sin d1) * (1 / v1) \<and> (sin d1) * (1 / v1) \<le> 0"
    by (rule mult_bounds [OF b2 b3]) simp_all
  have b10: "2000 \<le> v1 * (1 / M1) \<and> v1 * (1 / M1) \<le> 2000"
    by (rule mult_bounds [OF bv1 b4]) simp_all
  have b11: "- 0.012 \<le> k1d \<and> k1d \<le> - 0.012"
    unfolding k1d_def by (rule Gd_bounds [OF b8 b9 b10]) simp_all
  have b12: "8000 \<le> v1 * (cos d1) \<and> v1 * (cos d1) \<le> 8000"
    by (rule mult_bounds [OF bv1 b1]) simp_all
  have b13: "- 8000 \<le> k1z \<and> k1z \<le> - 8000"
    unfolding k1z_def by (rule Gz_bounds [OF b12]) simp_all
  have b14: "64000000 \<le> v1 * v1 \<and> v1 * v1 \<le> 64000000"
    by (rule mult_bounds [OF bv1 bv1]) simp_all
  have b15: "16000000 \<le> (v1 * v1) * (1 / M1) \<and> (v1 * v1) * (1 / M1) \<le> 16000000"
    by (rule mult_bounds [OF b14 b4]) simp_all
  have b16: "- 95990.19 \<le> k1v \<and> k1v \<le> - 95990.19"
    unfolding k1v_def by (rule Gv_bounds [OF b1 b15]) simp_all
  have b17: "512000000000 \<le> v1 * (v1 * v1) \<and> v1 * (v1 * v1) \<le> 512000000000"
    by (rule mult_bounds [OF bv1 b14]) simp_all
  have b18: "- 30.72 \<le> k1M \<and> k1M \<le> - 30.72"
    unfolding k1M_def by (rule GM_bounds [OF b17]) simp_all
  have ram1: "12 / 10 * (v1 * v1) \<le> 10 ^ 12"
    by (rule ram_bound [OF b14]) simp_all
  define d2 where "d2 = d1 + 1 / 2 * k1d"
  have b19: "- 0.006 \<le> d2 \<and> d2 \<le> - 0.006"
    unfolding d2_def by (rule axpy_bounds [OF bd1 b11]) simp_all
  define z2 where "z2 = z1 + 1 / 2 * k1z"
  have b20: "96000 \<le> z2 \<and> z2 \<le> 96000"
    unfolding z2_def by (rule axpy_bounds [OF bz1 b13]) simp_all
  define v2 where "v2 = v1 + 1 / 2 * k1v"
  have b21: "- 39995.095 \<le> v2 \<and> v2 \<le> - 39995.095"
    unfolding v2_def by (rule axpy_bounds [OF bv1 b16]) simp_all
  define M2 where "M2 = M1 + 1 / 2 * k1M"
  have b22: "- 11.36 \<le> M2 \<and> M2 \<le> - 11.36"
    unfolding M2_def by (rule axpy_bounds [OF bM1 b18]) simp_all
  define k2d where "k2d = Gd d2 z2 v2 M2"
  define k2z where "k2z = Gz d2 v2"
  define k2v where "k2v = Gv d2 v2 M2"
  define k2M where "k2M = GM v2"
  have b23: "0.999982 \<le> cos d2 \<and> cos d2 \<le> 1"
    by (rule cos_small [where D = "0.006", OF b19]) simp_all
  have b24: "- 0.006 \<le> sin d2 \<and> sin d2 \<le> 0.006"
    by (rule sin_small [where D = "0.006", OF b19]) simp_all
  have b25: "- 0.000025003066000969 \<le> 1 / v2 \<and> 1 / v2 \<le> - 0.000025003066000968"
    by (rule recip_bounds [OF b21]) simp_all
  have b26: "- 0.088028169014085 \<le> 1 / M2 \<and> 1 / M2 \<le> - 0.088028169014084"
    by (rule recip_bounds [OF b22]) simp_all
  have b27: "6467000 \<le> 6371000 + z2 \<and> 6371000 + z2 \<le> 6467000"
    by (rule shift_bounds [OF b20]) simp_all
  have b28: "0.00000015463120457708 \<le> 1 / (6371000 + z2) \<and> 1 / (6371000 + z2) \<le> 0.00000015463120457709"
    by (rule recip_bounds [OF b27]) simp_all
  have b29: "- 0.00000000092778722746254 \<le> (sin d2) * (1 / (6371000 + z2)) \<and> (sin d2) * (1 / (6371000 + z2)) \<le> 0.00000000092778722746254"
    by (rule mult_bounds [OF b24 b28]) simp_all
  have b30: "- 0.000037106938302151 \<le> v2 * ((sin d2) * (1 / (6371000 + z2))) \<and> v2 * ((sin d2) * (1 / (6371000 + z2))) \<le> 0.000037106938302151"
    by (rule mult_bounds [OF b21 b29]) simp_all
  have b31: "- 0.00000015001839600582 \<le> (sin d2) * (1 / v2) \<and> (sin d2) * (1 / v2) \<le> 0.00000015001839600582"
    by (rule mult_bounds [OF b24 b25]) simp_all
  have b32: "3520.6949823943 \<le> v2 * (1 / M2) \<and> v2 * (1 / M2) \<le> 3520.6949823944"
    by (rule mult_bounds [OF b21 b26]) simp_all
  have b33: "- 0.021162748513134 \<le> k2d \<and> k2d \<le> - 0.021085591275598"
    unfolding k2d_def by (rule Gd_bounds [OF b30 b31 b32]) simp_all
  have b34: "- 39995.095 \<le> v2 * (cos d2) \<and> v2 * (cos d2) \<le> - 39994.37508829"
    by (rule mult_bounds [OF b21 b23]) simp_all
  have b35: "39994.37508829 \<le> k2z \<and> k2z \<le> 39995.095"
    unfolding k2z_def by (rule Gz_bounds [OF b34]) simp_all
  have b36: "1599607624.059 \<le> v2 * v2 \<and> v2 * v2 \<le> 1599607624.0591"
    by (rule mult_bounds [OF b21 b21]) simp_all
  have b37: "- 140810530.2869 \<le> (v2 * v2) * (1 / M2) \<and> (v2 * v2) * (1 / M2) \<le> - 140810530.28688"
    by (rule mult_bounds [OF b36 b26]) simp_all
  have b38: "844872.9915447 \<le> k2v \<and> k2v \<le> 844872.9917214"
    unfolding k2v_def by (rule Gv_bounds [OF b23 b37]) simp_all
  have b39: "- 63976458886968 \<le> v2 * (v2 * v2) \<and> v2 * (v2 * v2) \<le> - 63976458886963"
    by (rule mult_bounds [OF b21 b36]) simp_all
  have b40: "3838.5875332177 \<le> k2M \<and> k2M \<le> 3838.5875332181"
    unfolding k2M_def by (rule GM_bounds [OF b39]) simp_all
  have ram2: "12 / 10 * (v2 * v2) \<le> 10 ^ 12"
    by (rule ram_bound [OF b36]) simp_all
  define d3 where "d3 = d1 + 1 / 2 * k2d"
  have b41: "- 0.010581374256567 \<le> d3 \<and> d3 \<le> - 0.010542795637799"
    unfolding d3_def by (rule axpy_bounds [OF bd1 b33]) simp_all
  define z3 where "z3 = z1 + 1 / 2 * k2z"
  have b42: "119997.18754414 \<le> z3 \<and> z3 \<le> 119997.5475"
    unfolding z3_def by (rule axpy_bounds [OF bz1 b35]) simp_all
  define v3 where "v3 = v1 + 1 / 2 * k2v"
  have b43: "430436.49577235 \<le> v3 \<and> v3 \<le> 430436.4958607"
    unfolding v3_def by (rule axpy_bounds [OF bv1 b38]) simp_all
  define M3 where "M3 = M1 + 1 / 2 * k2M"
  have b44: "1923.2937666088 \<le> M3 \<and> M3 \<le> 1923.2937666091"
    unfolding M3_def by (rule axpy_bounds [OF bM1 b40]) simp_all
  define k3d where "k3d = Gd d3 z3 v3 M3"
  define k3z where "k3z = Gz d3 v3"
  define k3v where "k3v = Gv d3 v3 M3"
  define k3M where "k3M = GM v3"
  have b45: "0.99994401725942 \<le> cos d3 \<and> cos d3 \<le> 1"
    by (rule cos_small [where D = "0.010581374256567", OF b41]) simp_all
  have b46: "- 0.010581374256567 \<le> sin d3 \<and> sin d3 \<le> 0.010581374256567"
    by (rule sin_small [where D = "0.010581374256567", OF b41]) simp_all
  have b47: "0.0000023232230761483 \<le> 1 / v3 \<and> 1 / v3 \<le> 0.0000023232230766252"
    by (rule recip_bounds [OF b43]) simp_all
  have b48: "0.00051994137211969 \<le> 1 / M3 \<and> 1 / M3 \<le> 0.00051994137211979"
    by (rule recip_bounds [OF b44]) simp_all
  have b49: "6490997.1875441 \<le> 6371000 + z3 \<and> 6371000 + z3 \<le> 6490997.5475"
    by (rule shift_bounds [OF b42]) simp_all
  have b50: "0.00000015405952516268 \<le> 1 / (6371000 + z3) \<and> 1 / (6371000 + z3) \<le> 0.000000154059533706"
    by (rule recip_bounds [OF b49]) simp_all
  have b51: "- 0.0000000016301615839354 \<le> (sin d3) * (1 / (6371000 + z3)) \<and> (sin d3) * (1 / (6371000 + z3)) \<le> 0.0000000016301615839354"
    by (rule mult_bounds [OF b46 b50]) simp_all
  have b52: "- 0.00070168103987589 \<le> v3 * ((sin d3) * (1 / (6371000 + z3))) \<and> v3 * ((sin d3) * (1 / (6371000 + z3))) \<le> 0.00070168103987589"
    by (rule mult_bounds [OF b43 b51]) simp_all
  have b53: "- 0.000000024582892855265 \<le> (sin d3) * (1 / v3) \<and> (sin d3) * (1 / v3) \<le> 0.000000024582892855265"
    by (rule mult_bounds [OF b46 b47]) simp_all
  have b54: "223.80174222226 \<le> v3 * (1 / M3) \<and> v3 * (1 / M3) \<le> 223.80174226825"
    by (rule mult_bounds [OF b43 b48]) simp_all
  have b55: "- 0.0020447326516644 \<le> k3d \<and> k3d \<le> - 0.00064088825527875"
    unfolding k3d_def by (rule Gd_bounds [OF b52 b53 b54]) simp_all
  have b56: "430412.39875767 \<le> v3 * (cos d3) \<and> v3 * (cos d3) \<le> 430436.4958607"
    by (rule mult_bounds [OF b43 b45]) simp_all
  have b57: "- 430436.4958607 \<le> k3z \<and> k3z \<le> - 430412.39875767"
    unfolding k3z_def by (rule Gz_bounds [OF b56]) simp_all
  have b58: "185275576892.78 \<le> v3 * v3 \<and> v3 * v3 \<le> 185275576968.84"
    by (rule mult_bounds [OF b43 b43]) simp_all
  have b59: "96332437.669899 \<le> (v3 * v3) * (1 / M3) \<and> (v3 * v3) * (1 / M3) \<le> 96332437.709465"
    by (rule mult_bounds [OF b58 b48]) simp_all
  have b60: "- 577984.81680599 \<le> k3v \<and> k3v \<le> - 577984.81601939"
    unfolding k3v_def by (rule Gv_bounds [OF b45 b59]) simp_all
  have b61: "79749370069928000 \<le> v3 * (v3 * v3) \<and> v3 * (v3 * v3) \<le> 79749370119037000"
    by (rule mult_bounds [OF b43 b58]) simp_all
  have b62: "- 4784962.2071423 \<le> k3M \<and> k3M \<le> - 4784962.2041956"
    unfolding k3M_def by (rule GM_bounds [OF b61]) simp_all
  have ram3: "12 / 10 * (v3 * v3) \<le> 10 ^ 12"
    by (rule ram_bound [OF b58]) simp_all
  define d4 where "d4 = d1 + 1 * k3d"
  have b63: "- 0.0020447326516644 \<le> d4 \<and> d4 \<le> - 0.00064088825527875"
    unfolding d4_def by (rule axpy_bounds [OF bd1 b55]) simp_all
  define z4 where "z4 = z1 + 1 * k3z"
  have b64: "- 330436.4958607 \<le> z4 \<and> z4 \<le> - 330412.39875767"
    unfolding z4_def by (rule axpy_bounds [OF bz1 b57]) simp_all
  define v4 where "v4 = v1 + 1 * k3v"
  have b65: "- 569984.81680599 \<le> v4 \<and> v4 \<le> - 569984.81601939"
    unfolding v4_def by (rule axpy_bounds [OF bv1 b60]) simp_all
  define M4 where "M4 = M1 + 1 * k3M"
  have b66: "- 4784958.2071423 \<le> M4 \<and> M4 \<le> - 4784958.2041956"
    unfolding M4_def by (rule axpy_bounds [OF bM1 b62]) simp_all
  define k4d where "k4d = Gd d4 z4 v4 M4"
  define k4z where "k4z = Gz d4 v4"
  define k4v where "k4v = Gv d4 v4 M4"
  define k4M where "k4M = GM v4"
  have b67: "0.99999790953419 \<le> cos d4 \<and> cos d4 \<le> 1"
    by (rule cos_small [where D = "0.0020447326516644", OF b63]) simp_all
  have b68: "- 0.0020447326516644 \<le> sin d4 \<and> sin d4 \<le> 0.0020447326516644"
    by (rule sin_small [where D = "0.0020447326516644", OF b63]) simp_all
  have b69: "- 0.0000017544327004774 \<le> 1 / v4 \<and> 1 / v4 \<le> - 0.0000017544326980561"
    by (rule recip_bounds [OF b65]) simp_all
  have b70: "- 0.00000020898824134413 \<le> 1 / M4 \<and> 1 / M4 \<le> - 0.00000020898824121542"
    by (rule recip_bounds [OF b66]) simp_all
  have b71: "6040563.5041393 \<le> 6371000 + z4 \<and> 6371000 + z4 \<le> 6040587.6012424"
    by (rule shift_bounds [OF b64]) simp_all
  have b72: "0.00000016554680869032 \<le> 1 / (6371000 + z4) \<and> 1 / (6371000 + z4) \<le> 0.00000016554746909204"
    by (rule recip_bounds [OF b71]) simp_all
  have b73: "- 0.0000000003385003154529 \<le> (sin d4) * (1 / (6371000 + z4)) \<and> (sin d4) * (1 / (6371000 + z4)) \<le> 0.0000000003385003154529"
    by (rule mult_bounds [OF b68 b72]) simp_all
  have b74: "- 0.0001929400402922 \<le> v4 * ((sin d4) * (1 / (6371000 + z4))) \<and> v4 * ((sin d4) * (1 / (6371000 + z4))) \<le> 0.0001929400402922"
    by (rule mult_bounds [OF b65 b73]) simp_all
  have b75: "- 0.0000000035873458278139 \<le> (sin d4) * (1 / v4) \<and> (sin d4) * (1 / v4) \<le> 0.0000000035873458278139"
    by (rule mult_bounds [OF b68 b69]) simp_all
  have b76: "0.11912012421938 \<le> v4 * (1 / M4) \<and> v4 * (1 / M4) \<le> 0.11912012445714"
    by (rule mult_bounds [OF b65 b70]) simp_all
  have b77: "- 0.00019368995290152 \<le> k4d \<and> k4d \<le> 0.00019226051140946"
    unfolding k4d_def by (rule Gd_bounds [OF b74 b75 b76]) simp_all
  have b78: "- 569984.81680599 \<le> v4 * (cos d4) \<and> v4 * (cos d4) \<le> - 569983.62448561"
    by (rule mult_bounds [OF b65 b67]) simp_all
  have b79: "569983.62448561 \<le> k4z \<and> k4z \<le> 569984.81680599"
    unfolding k4z_def by (rule Gz_bounds [OF b78]) simp_all
  have b80: "324882690492.65 \<le> v4 * v4 \<and> v4 * v4 \<le> 324882691389.36"
    by (rule mult_bounds [OF b65 b65]) simp_all
  have b81: "- 67896.662316611 \<le> (v4 * v4) * (1 / M4) \<and> (v4 * v4) * (1 / M4) \<le> - 67896.662087392"
    by (rule mult_bounds [OF b80 b70]) simp_all
  have b82: "417.18995201688 \<le> k4v \<and> k4v \<le> 417.18997389967"
    unfolding k4v_def by (rule Gv_bounds [OF b67 b81]) simp_all
  have b83: "- 185178201335010000 \<le> v4 * (v4 * v4) \<and> v4 * (v4 * v4) \<le> - 185178200568330000"
    by (rule mult_bounds [OF b65 b80]) simp_all
  have b84: "11110692.034099 \<le> k4M \<and> k4M \<le> 11110692.080101"
    unfolding k4M_def by (rule GM_bounds [OF b83]) simp_all
  have ram4: "12 / 10 * (v4 * v4) \<le> 10 ^ 12"
    by (rule ram_bound [OF b80]) simp_all
  have nd: "- 0.0097681087137498 \<le> d1 + 1 / 6 * (k1d + 2 * k2d + 2 * k3d + k4d) \<and> d1 + 1 / 6 * (k1d + 2 * k2d + 2 * k3d + k4d) \<le> - 0.0092101164250573"
    by (rule rk_bounds [OF bd1 b11 b33 b55 b77]) simp_all
  have nz: "63516.563823465 \<le> z1 + 1 / 6 * (k1z + 2 * k2z + 2 * k3z + k4z) \<and> z1 + 1 / 6 * (k1z + 2 * k2z + 2 * k3z + k4z) \<le> 63525.034881775"
    by (rule rk_bounds [OF bz1 b13 b35 b57 b79]) simp_all
  have nv: "81033.891571572 \<le> v1 + 1 / 6 * (k1v + 2 * k2v + 2 * k3v + k4v) \<and> v1 + 1 / 6 * (k1v + 2 * k2v + 2 * k3v + k4v) \<le> 81033.89189632"
    by (rule rk_bounds [OF bv1 b16 b38 b60 b82]) simp_all
  have nM: "258073.01248013 \<le> M1 + 1 / 6 * (k1M + 2 * k2M + 2 * k3M + k4M) \<and> M1 + 1 / 6 * (k1M + 2 * k2M + 2 * k3M + k4M) \<le> 258073.02112938"
    by (rule rk_bounds [OF bM1 b18 b40 b62 b84]) simp_all
  note new = RK4_body_quiet [where dt = 1, OF q r a z v m
      k1d_def k1z_def k1v_def k1M_def d2_def z2_def v2_def M2_def
      k2d_def k2z_def k2v_def k2M_def d3_def z3_def v3_def M3_def
      k3d_def k3z_def k3v_def k3M_def d4_def z4_def v4_def M4_def
      k4d_def k4z_def k4v_def k4M_def ram1 ram2 ram3 ram4]
  show ?thesis
    using new(1-6) nd nz nv nM by blast
qed

lemma cx_pass2:
  fixes s :: planet and d1 z1 v1 M1 :: real
  assumes q: "quiet s" and r: "last (radius s) = 1 / 10"
    and a: "last (angle s) = pi / 2 + d1" and z: "last (altitude s) = z1"
    and v: "last (velocity s) = v1" and m: "last (mass s) = pi * M1"
    and bd1: "- 0.0097681087137498 \<le> d1 \<and> d1 \<le> - 0.0092101164250573"
    and bz1: "63516.563823465 \<le> z1 \<and> z1 \<le> 63525.034881775"
    and bv1: "81033.891571572 \<le> v1 \<and> v1 \<le> 81033.89189632"
    and bM1: "258073.01248013 \<le> M1 \<and> M1 \<le> 258073.02112938"
  shows "quiet (RK4_body s 1) \<and> last (radius (RK4_body s 1)) = 1 / 10
     \<and> (\<exists>d z v M. last (angle (RK4_body s 1)) = pi / 2 + d
          \<and> last (altitude (RK4_body s 1)) = z \<and> last (velocity (RK4_body s 1)) = v
          \<and> last (mass (RK4_body s 1)) = pi * M
          \<and> - 0.0098957976917155 \<le> d \<and> d \<le> - 0.0090864453720755
          \<and> - 17442.6484065 \<le> z \<and> z \<le> - 17430.263904934
          \<and> 80881.060396848 \<le> v \<and> v \<le> 80881.061204049
          \<and> 226234.66941808 \<le> M \<and> M \<le> 226234.67873327)"
proof -
  define k1d where "k1d = Gd d1 z1 v1 M1"
  define k1z where "k1z = Gz d1 v1"
  define k1v where "k1v = Gv d1 v1 M1"
  define k1M where "k1M = GM v1"
  have b1: "0.99995229202607 \<le> cos d1 \<and> cos d1 \<le> 1"
    by (rule cos_small [where D = "0.0097681087137498", OF bd1]) simp_all
  have b2: "- 0.0097681087137498 \<le> sin d1 \<and> sin d1 \<le> 0.0097681087137498"
    by (rule sin_small [where D = "0.0097681087137498", OF bd1]) simp_all
  have b3: "0.000012340515512687 \<le> 1 / v1 \<and> 1 / v1 \<le> 0.000012340515562144"
    by (rule recip_bounds [OF bv1]) simp_all
  have b4: "0.0000038748722963128 \<le> 1 / M1 \<and> 1 / M1 \<le> 0.0000038748724261783"
    by (rule recip_bounds [OF bM1]) simp_all
  have b5: "6434516.5638234 \<le> 6371000 + z1 \<and> 6371000 + z1 \<le> 6434525.0348818"
    by (rule shift_bounds [OF bz1]) simp_all
  have b6: "0.00000015541162627839 \<le> 1 / (6371000 + z1) \<and> 1 / (6371000 + z1) \<le> 0.00000015541183087822"
    by (rule recip_bounds [OF b5]) simp_all
  have b7: "- 0.0000000015180796594214 \<le> (sin d1) * (1 / (6371000 + z1)) \<and> (sin d1) * (1 / (6371000 + z1)) \<le> 0.0000000015180796594214"
    by (rule mult_bounds [OF b2 b6]) simp_all
  have b8: "- 0.00012301590301156 \<le> v1 * ((sin d1) * (1 / (6371000 + z1))) \<and> v1 * ((sin d1) * (1 / (6371000 + z1))) \<le> 0.00012301590301156"
    by (rule mult_bounds [OF bv1 b7]) simp_all
  have b9: "- 0.00000012054349759475 \<le> (sin d1) * (1 / v1) \<and> (sin d1) * (1 / v1) \<le> 0.00000012054349759475"
    by (rule mult_bounds [OF b2 b3]) simp_all
  have b10: "0.31399598151309 \<le> v1 * (1 / M1) \<and> v1 * (1 / M1) \<le> 0.31399599329497"
    by (rule mult_bounds [OF bv1 b4]) simp_all
  have b11: "- 0.00012608241068274 \<le> k1d \<and> k1d \<le> 0.00012231445883389"
    unfolding k1d_def by (rule Gd_bounds [OF b8 b9 b10]) simp_all
  have b12: "81030.025608785 \<le> v1 * (cos d1) \<and> v1 * (cos d1) \<le> 81033.89189632"
    by (rule mult_bounds [OF bv1 b1]) simp_all
  have b13: "- 81033.89189632 \<le> k1z \<and> k1z \<le> - 81030.025608785"
    unfolding k1z_def by (rule Gz_bounds [OF b12]) simp_all
  have b14: "6566491583.2332 \<le> v1 * v1 \<and> v1 * v1 \<le> 6566491635.8645"
    by (rule mult_bounds [OF bv1 bv1]) simp_all
  have b15: "25444.316319841 \<le> (v1 * v1) * (1 / M1) \<and> (v1 * v1) * (1 / M1) \<le> 25444.317376542"
    by (rule mult_bounds [OF b14 b4]) simp_all
  have b16: "- 142.85637227448 \<le> k1v \<and> k1v \<le> - 142.85589791904"
    unfolding k1v_def by (rule Gv_bounds [OF b1 b15]) simp_all
  have b17: "532108366961350 \<le> v1 * (v1 * v1) \<and> v1 * (v1 * v1) \<le> 532108373358740"
    by (rule mult_bounds [OF bv1 b14]) simp_all
  have b18: "- 31926.502401525 \<le> k1M \<and> k1M \<le> - 31926.502017681"
    unfolding k1M_def by (rule GM_bounds [OF b17]) simp_all
  have ram1: "12 / 10 * (v1 * v1) \<le> 10 ^ 12"
    by (rule ram_bound [OF b14]) simp_all
  define d2 where "d2 = d1 + 1 / 2 * k1d"
  have b19: "- 0.0098311499190912 \<le> d2 \<and> d2 \<le> - 0.0091489591956403"
    unfolding d2_def by (rule axpy_bounds [OF bd1 b11]) simp_all
  define z2 where "z2 = z1 + 1 / 2 * k1z"
  have b20: "22999.617875305 \<le> z2 \<and> z2 \<le> 23010.022077383"
    unfolding z2_def by (rule axpy_bounds [OF bz1 b13]) simp_all
  define v2 where "v2 = v1 + 1 / 2 * k1v"
  have b21: "80962.463385434 \<le> v2 \<and> v2 \<le> 80962.463947361"
    unfolding v2_def by (rule axpy_bounds [OF bv1 b16]) simp_all
  define M2 where "M2 = M1 + 1 / 2 * k1M"
  have b22: "242109.76127936 \<le> M2 \<and> M2 \<le> 242109.77012054"
    unfolding M2_def by (rule axpy_bounds [OF bM1 b18]) simp_all
  define k2d where "k2d = Gd d2 z2 v2 M2"
  define k2z where "k2z = Gz d2 v2"
  define k2v where "k2v = Gv d2 v2 M2"
  define k2M where "k2M = GM v2"
  have b23: "0.99995167424563 \<le> cos d2 \<and> cos d2 \<le> 1"
    by (rule cos_small [where D = "0.0098311499190912", OF b19]) simp_all
  have b24: "- 0.0098311499190912 \<le> sin d2 \<and> sin d2 \<le> 0.0098311499190912"
    by (rule sin_small [where D = "0.0098311499190912", OF b19]) simp_all
  have b25: "0.000012351402751899 \<le> 1 / v2 \<and> 1 / v2 \<le> 0.000012351402837626"
    by (rule recip_bounds [OF b21]) simp_all
  have b26: "0.0000041303578930421 \<le> 1 / M2 \<and> 1 / M2 \<le> 0.0000041303580438715"
    by (rule recip_bounds [OF b22]) simp_all
  have b27: "6393999.6178753 \<le> 6371000 + z2 \<and> 6371000 + z2 \<le> 6394010.0220774"
    by (rule shift_bounds [OF b20]) simp_all
  have b28: "0.0000001563963766943 \<le> 1 / (6371000 + z2) \<and> 1 / (6371000 + z2) \<le> 0.00000015639663117971"
    by (rule recip_bounds [OF b27]) simp_all
  have b29: "- 0.0000000015375587279686 \<le> (sin d2) * (1 / (6371000 + z2)) \<and> (sin d2) * (1 / (6371000 + z2)) \<le> 0.0000000015375587279686"
    by (rule mult_bounds [OF b24 b28]) simp_all
  have b30: "- 0.00012448454308011 \<le> v2 * ((sin d2) * (1 / (6371000 + z2))) \<and> v2 * ((sin d2) * (1 / (6371000 + z2))) \<le> 0.00012448454308011"
    by (rule mult_bounds [OF b21 b29]) simp_all
  have b31: "- 0.00000012142849300779 \<le> (sin d2) * (1 / v2) \<and> (sin d2) * (1 / v2) \<le> 0.00000012142849300779"
    by (rule mult_bounds [OF b24 b25]) simp_all
  have b32: "0.33440394968415 \<le> v2 * (1 / M2) \<and> v2 * (1 / M2) \<le> 0.33440396421664"
    by (rule mult_bounds [OF b21 b26]) simp_all
  have b33: "- 0.00012768218038182 \<le> k2d \<and> k2d \<le> 0.00012366933289842"
    unfolding k2d_def by (rule Gd_bounds [OF b30 b31 b32]) simp_all
  have b34: "80958.550813315 \<le> v2 * (cos d2) \<and> v2 * (cos d2) \<le> 80962.463947361"
    by (rule mult_bounds [OF b21 b23]) simp_all
  have b35: "- 80962.463947361 \<le> k2z \<and> k2z \<le> - 80958.550813315"
    unfolding k2z_def by (rule Gz_bounds [OF b34]) simp_all
  have b36: "6554920477.4377 \<le> v2 * v2 \<and> v2 * v2 \<le> 6554920568.4278"
    by (rule mult_bounds [OF b21 b21]) simp_all
  have b37: "27074.167532248 \<le> (v2 * v2) * (1 / M2) \<and> (v2 * v2) * (1 / M2) \<le> 27074.168896745"
    by (rule mult_bounds [OF b36 b26]) simp_all
  have b38: "- 152.63548745613 \<le> k2v \<and> k2v \<le> - 152.63500519348"
    unfolding k2v_def by (rule Gv_bounds [OF b23 b37]) simp_all
  have b39: "530702509148980 \<le> v2 * (v2 * v2) \<and> v2 * (v2 * v2) \<le> 530702520199160"
    by (rule mult_bounds [OF b21 b36]) simp_all
  have b40: "- 31842.15121195 \<le> k2M \<and> k2M \<le> - 31842.150548938"
    unfolding k2M_def by (rule GM_bounds [OF b39]) simp_all
  have ram2: "12 / 10 * (v2 * v2) \<le> 10 ^ 12"
    by (rule ram_bound [OF b36]) simp_all
  define d3 where "d3 = d1 + 1 / 2 * k2d"
  have b41: "- 0.0098319498039408 \<le> d3 \<and> d3 \<le> - 0.009148281758608"
    unfolding d3_def by (rule axpy_bounds [OF bd1 b33]) simp_all
  define z3 where "z3 = z1 + 1 / 2 * k2z"
  have b42: "23035.331849784 \<le> z3 \<and> z3 \<le> 23045.759475118"
    unfolding z3_def by (rule axpy_bounds [OF bz1 b35]) simp_all
  define v3 where "v3 = v1 + 1 / 2 * k2v"
  have b43: "80957.573827843 \<le> v3 \<and> v3 \<le> 80957.574393724"
    unfolding v3_def by (rule axpy_bounds [OF bv1 b38]) simp_all
  define M3 where "M3 = M1 + 1 / 2 * k2M"
  have b44: "242151.93687415 \<le> M3 \<and> M3 \<le> 242151.94585492"
    unfolding M3_def by (rule axpy_bounds [OF bM1 b40]) simp_all
  define k3d where "k3d = Gd d3 z3 v3 M3"
  define k3z where "k3z = Gz d3 v3"
  define k3v where "k3v = Gv d3 v3 M3"
  define k3M where "k3M = GM v3"
  have b45: "0.99995166638152 \<le> cos d3 \<and> cos d3 \<le> 1"
    by (rule cos_small [where D = "0.0098319498039408", OF b41]) simp_all
  have b46: "- 0.0098319498039408 \<le> sin d3 \<and> sin d3 \<le> 0.0098319498039408"
    by (rule sin_small [where D = "0.0098319498039408", OF b41]) simp_all
  have b47: "0.000012352148733318 \<le> 1 / v3 \<and> 1 / v3 \<le> 0.000012352148819659"
    by (rule recip_bounds [OF b43]) simp_all
  have b48: "0.000004129638506391 \<le> 1 / M3 \<and> 1 / M3 \<le> 0.0000041296386595484"
    by (rule recip_bounds [OF b44]) simp_all
  have b49: "6394035.3318497 \<le> 6371000 + z3 \<and> 6371000 + z3 \<le> 6394045.7594752"
    by (rule shift_bounds [OF b42]) simp_all
  have b50: "0.00000015639550256863 \<le> 1 / (6371000 + z3) \<and> 1 / (6371000 + z3) \<le> 0.00000015639575762412"
    by (rule recip_bounds [OF b49]) simp_all
  have b51: "- 0.0000000015376752385097 \<le> (sin d3) * (1 / (6371000 + z3)) \<and> (sin d3) * (1 / (6371000 + z3)) \<le> 0.0000000015376752385097"
    by (rule mult_bounds [OF b46 b50]) simp_all
  have b52: "- 0.00012448645751504 \<le> v3 * ((sin d3) * (1 / (6371000 + z3))) \<and> v3 * ((sin d3) * (1 / (6371000 + z3))) \<le> 0.00012448645751504"
    by (rule mult_bounds [OF b43 b51]) simp_all
  have b53: "- 0.0000001214457071657 \<le> (sin d3) * (1 / v3) \<and> (sin d3) * (1 / v3) \<le> 0.0000001214457071657"
    by (rule mult_bounds [OF b46 b47]) simp_all
  have b54: "0.33432551426345 \<le> v3 * (1 / M3) \<and> v3 * (1 / M3) \<le> 0.33432552899959"
    by (rule mult_bounds [OF b43 b48]) simp_all
  have b55: "- 0.00012768379307634 \<le> k3d \<and> k3d \<le> 0.00012367188681676"
    unfolding k3d_def by (rule Gd_bounds [OF b52 b53 b54]) simp_all
  have b56: "80953.660855356 \<le> v3 * (cos d3) \<and> v3 * (cos d3) \<le> 80957.574393724"
    by (rule mult_bounds [OF b43 b45]) simp_all
  have b57: "- 80957.574393724 \<le> k3z \<and> k3z \<le> - 80953.660855356"
    unfolding k3z_def by (rule Gz_bounds [OF b56]) simp_all
  have b58: "6554128760.0906 \<le> v3 * v3 \<and> v3 * v3 \<le> 6554128851.7154"
    by (rule mult_bounds [OF b43 b43]) simp_all
  have b59: "27066.182503514 \<le> (v3 * v3) * (1 / M3) \<and> (v3 * v3) * (1 / M3) \<le> 27066.183885706"
    by (rule mult_bounds [OF b58 b48]) simp_all
  have b60: "- 152.58757746704 \<le> k3v \<and> k3v \<le> - 152.58709502108"
    unfolding k3v_def by (rule Gv_bounds [OF b45 b59]) simp_all
  have b61: "530606362972220 \<le> v3 * (v3 * v3) \<and> v3 * (v3 * v3) \<le> 530606374098810"
    by (rule mult_bounds [OF b43 b58]) simp_all
  have b62: "- 31836.382445929 \<le> k3M \<and> k3M \<le> - 31836.381778333"
    unfolding k3M_def by (rule GM_bounds [OF b61]) simp_all
  have ram3: "12 / 10 * (v3 * v3) \<le> 10 ^ 12"
    by (rule ram_bound [OF b58]) simp_all
  define d4 where "d4 = d1 + 1 * k3d"
  have b63: "- 0.0098957925068262 \<le> d4 \<and> d4 \<le> - 0.0090864445382405"
    unfolding d4_def by (rule axpy_bounds [OF bd1 b55]) simp_all
  define z4 where "z4 = z1 + 1 * k3z"
  have b64: "- 17441.010570259 \<le> z4 \<and> z4 \<le> - 17428.625973581"
    unfolding z4_def by (rule axpy_bounds [OF bz1 b57]) simp_all
  define v4 where "v4 = v1 + 1 * k3v"
  have b65: "80881.303994104 \<le> v4 \<and> v4 \<le> 80881.304801299"
    unfolding v4_def by (rule axpy_bounds [OF bv1 b60]) simp_all
  define M4 where "M4 = M1 + 1 * k3M"
  have b66: "226236.6300342 \<le> M4 \<and> M4 \<le> 226236.63935105"
    unfolding M4_def by (rule axpy_bounds [OF bM1 b62]) simp_all
  define k4d where "k4d = Gd d4 z4 v4 M4"
  define k4z where "k4z = Gz d4 v4"
  define k4v where "k4v = Gv d4 v4 M4"
  define k4M where "k4M = GM v4"
  have b67: "0.99995103664533 \<le> cos d4 \<and> cos d4 \<le> 1"
    by (rule cos_small [where D = "0.0098957925068262", OF b63]) simp_all
  have b68: "- 0.0098957925068262 \<le> sin d4 \<and> sin d4 \<le> 0.0098957925068262"
    by (rule sin_small [where D = "0.0098957925068262", OF b63]) simp_all
  have b69: "0.000012363796583854 \<le> 1 / v4 \<and> 1 / v4 \<le> 0.000012363796707246"
    by (rule recip_bounds [OF b65]) simp_all
  have b70: "0.0000044201505241081 \<le> 1 / M4 \<and> 1 / M4 \<le> 0.0000044201507061383"
    by (rule recip_bounds [OF b66]) simp_all
  have b71: "6353558.9894297 \<le> 6371000 + z4 \<and> 6371000 + z4 \<le> 6353571.3740265"
    by (rule shift_bounds [OF b64]) simp_all
  have b72: "0.00000015739179449341 \<le> 1 / (6371000 + z4) \<and> 1 / (6371000 + z4) \<le> 0.00000015739210128744"
    by (rule recip_bounds [OF b71]) simp_all
  have b73: "- 0.0000000015575195765539 \<le> (sin d4) * (1 / (6371000 + z4)) \<and> (sin d4) * (1 / (6371000 + z4)) \<le> 0.0000000015575195765539"
    by (rule mult_bounds [OF b68 b72]) simp_all
  have b74: "- 0.00012597421560525 \<le> v4 * ((sin d4) * (1 / (6371000 + z4))) \<and> v4 * ((sin d4) * (1 / (6371000 + z4))) \<le> 0.00012597421560525"
    by (rule mult_bounds [OF b65 b73]) simp_all
  have b75: "- 0.00000012234956681149 \<le> (sin d4) * (1 / v4) \<and> (sin d4) * (1 / v4) \<le> 0.00000012234956681149"
    by (rule mult_bounds [OF b68 b69]) simp_all
  have b76: "0.35750753824008 \<le> v4 * (1 / M4) \<and> v4 * (1 / M4) \<le> 0.35750755653085"
    by (rule mult_bounds [OF b65 b70]) simp_all
  have b77: "- 0.00012931951019486 \<le> k4d \<and> k4d \<le> 0.00012502941962624"
    unfolding k4d_def by (rule Gd_bounds [OF b74 b75 b76]) simp_all
  have b78: "80877.34377413 \<le> v4 * (cos d4) \<and> v4 * (cos d4) \<le> 80881.304801299"
    by (rule mult_bounds [OF b65 b67]) simp_all
  have b79: "- 80881.304801299 \<le> k4z \<and> k4z \<le> - 80877.34377413"
    unfolding k4z_def by (rule Gz_bounds [OF b78]) simp_all
  have b80: "6541785335.7866 \<le> v4 * v4 \<and> v4 * v4 \<le> 6541785466.3607"
    by (rule mult_bounds [OF b65 b65]) simp_all
  have b81: "28915.675880579 \<le> (v4 * v4) * (1 / M4) \<and> (v4 * v4) * (1 / M4) \<le> 28915.67764854"
    by (rule mult_bounds [OF b80 b70]) simp_all
  have b82: "- 163.68454622175 \<le> k4v \<and> k4v \<le> - 163.68405528347"
    unfolding k4v_def by (rule Gv_bounds [OF b67 b81]) simp_all
  have b83: "529108128407920 \<le> v4 * (v4 * v4) \<and> v4 * (v4 * v4) \<le> 529108144249430"
    by (rule mult_bounds [OF b65 b80]) simp_all
  have b84: "- 31746.488654966 \<le> k4M \<and> k4M \<le> - 31746.487704475"
    unfolding k4M_def by (rule GM_bounds [OF b83]) simp_all
  have ram4: "12 / 10 * (v4 * v4) \<le> 10 ^ 12"
    by (rule ram_bound [OF b80]) simp_all
  have nd: "- 0.0098957976917155 \<le> d1 + 1 / 6 * (k1d + 2 * k2d + 2 * k3d + k4d) \<and> d1 + 1 / 6 * (k1d + 2 * k2d + 2 * k3d + k4d) \<le> - 0.0090864453720755"
    by (rule rk_bounds [OF bd1 b11 b33 b55 b77]) simp_all
  have nz: "- 17442.6484065 \<le> z1 + 1 / 6 * (k1z + 2 * k2z + 2 * k3z + k4z) \<and> z1 + 1 / 6 * (k1z + 2 * k2z + 2 * k3z + k4z) \<le> - 17430.263904934"
    by (rule rk_bounds [OF bz1 b13 b35 b57 b79]) simp_all
  have nv: "80881.060396848 \<le> v1 + 1 / 6 * (k1v + 2 * k2v + 2 * k3v + k4v) \<and> v1 + 1 / 6 * (k1v + 2 * k2v + 2 * k3v + k4v) \<le> 80881.061204049"
    by (rule rk_bounds [OF bv1 b16 b38 b60 b82]) simp_all
  have nM: "226234.66941808 \<le> M1 + 1 / 6 * (k1M + 2 * k2M + 2 * k3M + k4M) \<and> M1 + 1 / 6 * (k1M + 2 * k2M + 2 * k3M + k4M) \<le> 226234.67873327"
    by (rule rk_bounds [OF bM1 b18 b40 b62 b84]) simp_all
  note new = RK4_body_quiet [where dt = 1, OF q r a z v m
      k1d_def k1z_def k1v_def k1M_def d2_def z2_def v2_def M2_def
      k2d_def k2z_def k2v_def k2M_def d3_def z3_def v3_def M3_def
      k3d_def k3z_def k3v_def k3M_def d4_def z4_def v4_def M4_def
      k4d_def k4z_def k4v_def k4M_def ram1 ram2 ram3 ram4]
  show ?thesis
    using new(1-6) nd nz nv nM by blast
qed

text \<open>The run: its first pass ends high above the ground, its second below it.\<close>

lemma cx_s0_simps:
  "quiet cx_s0" "last (radius cx_s0) = 1 / 10" "last (angle cx_s0) = pi / 2 + 0"
  "last (altitude cx_s0) = 100000" "last (velocity cx_s0) = 8000" "last (mass cx_s0) = pi * 4"
  "mass cx_s0 = [pi * 4]"
  by (simp_all add: cx_s0_def entry_state_def start_def earth_constant_def quiet_def
        power3_eq_cube)

lemma cx_s1_state:
  "quiet cx_s1 \<and> last (radius cx_s1) = 1 / 10
     \<and> (\<exists>d z v M. last (angle cx_s1) = pi / 2 + d
          \<and> last (altitude cx_s1) = z \<and> last (velocity cx_s1) = v
          \<and> last (mass cx_s1) = pi * M
          \<and> - 0.0097681087137498 \<le> d \<and> d \<le> - 0.0092101164250573
          \<and> 63516.563823465 \<le> z \<and> z \<le> 63525.034881775
          \<and> 81033.891571572 \<le> v \<and> v \<le> 81033.89189632
          \<and> 258073.01248013 \<le> M \<and> M \<le> 258073.02112938)"
  unfolding cx_s1_def
  by (rule cx_pass1 [OF cx_s0_simps(1-6)]) simp_all

lemma cx_s1_not_stopped: "\<not> stopped cx_s1 100000"
proof -
  obtain z v M where f: "last (altitude cx_s1) = z" "last (velocity cx_s1) = v"
    "last (mass cx_s1) = pi * M" "last (radius cx_s1) = 1 / 10"
    and b: "63516.563823465 \<le> z" "z \<le> 63525.034881775" "81033.891571572 \<le> v" "258073.01248013 \<le> M"
    using cx_s1_state by blast
  have "0 < M" using b by simp
  then have m: "0 < pi * M" by simp
  have "0 < z" "z < 100000" "0 < v" using b by simp_all
  with m show ?thesis by (simp add: stopped_def f not_le)
qed

lemma cx_s1_mass: "pi * 4 < last (mass cx_s1)"
proof -
  obtain M where f: "last (mass cx_s1) = pi * M" and b: "258073.01248013 \<le> M"
    using cx_s1_state by blast
  have "4 < M" using b by simp
  then have "pi * 4 < pi * M" by simp
  then show ?thesis by (simp only: f)
qed

lemma cx_s2_stopped: "stopped cx_s2 100000"
proof -
  obtain d z v M where s1: "last (angle cx_s1) = pi / 2 + d"
     "last (altitude cx_s1) = z" "last (velocity cx_s1) = v" "last (mass cx_s1) = pi * M"
     "- 0.0097681087137498 \<le> d \<and> d \<le> - 0.0092101164250573"
     "63516.563823465 \<le> z \<and> z \<le> 63525.034881775"
     "81033.891571572 \<le> v \<and> v \<le> 81033.89189632"
     "258073.01248013 \<le> M \<and> M \<le> 258073.02112938"
    and q: "quiet cx_s1" and r: "last (radius cx_s1) = 1 / 10"
    using cx_s1_state by blast
  from cx_pass2 [OF q r s1] obtain z' where "last (altitude cx_s2) = z'" "z' \<le> - 17430.263904934"
    unfolding cx_s2_def by blast
  then show ?thesis by (simp add: stopped_def)
qed

lemma cx_passes:
  "after_passes earth_constant (1 / 10) 8000 3000 (10 ^ 12) 90 100000 1 False ''RK4'' (Suc 0) = cx_s1"
  "after_passes earth_constant (1 / 10) 8000 3000 (10 ^ 12) 90 100000 1 False ''RK4'' (Suc (Suc 0)) = cx_s2"
  by (simp_all add: after_passes_def select_solver_def cx_s0_def cx_s1_def cx_s2_def)

lemma cx_solve:
  "solve_atmospheric_entry earth_constant (1 / 10) 8000 3000 (10 ^ 12) 90 100000 1 False ''RK4''
     = Some (cx_table, cx_s2, [])"
proof -
  have a: "stopped (after_passes earth_constant (1 / 10) 8000 3000 (10 ^ 12) 90 100000 1 False ''RK4'' (Suc (Suc 0))) 100000"
    using cx_s2_stopped by (simp only: cx_passes)
  have b: "\<not> stopped (after_passes earth_constant (1 / 10) 8000 3000 (10 ^ 12) 90 100000 1 False ''RK4'' (Suc k)) 100000" if "k < Suc 0" for k
  proof -
    have k: "k = 0" using that by simp
    show ?thesis unfolding k cx_passes(1) by (rule cx_s1_not_stopped)
  qed
  obtain df where
    "solve_atmospheric_entry earth_constant (1 / 10) 8000 3000 (10 ^ 12) 90 100000 1 False ''RK4''
     = Some (df, after_passes earth_constant (1 / 10) 8000 3000 (10 ^ 12) 90 100000 1 False ''RK4'' (Suc (Suc 0)), snd (select_solver ''RK4''))"
    using solve_first_stop [OF a b] by blast
  then have s: "solve_atmospheric_entry earth_constant (1 / 10) 8000 3000 (10 ^ 12) 90 100000 1
      False ''RK4'' = Some (df, cx_s2, [])"
    unfolding cx_passes by (simp add: select_solver_def)
  from solve_Some(2) [OF s] have "df = cx_table" by (simp add: cx_table_def)
  with s show ?thesis by simp
qed

lemma RK4_body_mass: "\<exists>x. mass (RK4_body s dt) = mass s @ [x]"
  using RK4_body_frame [of s dt] by auto

lemma cx_masses:
  "butlast (mass cx_s2) = mass cx_s1" "length (mass cx_s1) = 2"
  "mass cx_s1 ! 0 = pi * 4" "mass cx_s1 ! 1 = last (mass cx_s1)"
proof -
  obtain x where x: "mass cx_s2 = mass cx_s1 @ [x]"
    unfolding cx_s2_def using RK4_body_mass by blast
  obtain y where y: "mass cx_s1 = mass cx_s0 @ [y]"
    unfolding cx_s1_def using RK4_body_mass by blast
  show "butlast (mass cx_s2) = mass cx_s1" by (simp add: x)
  show "length (mass cx_s1) = 2" by (simp add: y cx_s0_simps)
  show "mass cx_s1 ! 0 = pi * 4" by (simp add: y cx_s0_simps)
  show "mass cx_s1 ! 1 = last (mass cx_s1)" by (simp add: y cx_s0_simps)
qed

text \<open>
  C7 as the claim words it fails with the Runge-Kutta solver. On the planet of constant
  density with the default constants, the run with radius 0.1, velocity 8000, density
  3000, strength 1e12, angle 90 degrees, initial altitude 100000 and time step 1 returns
  a table of two rows, and the mass of the second row is greater than that of the first:
  the drag on so small a body is so strong that the second derivative evaluation of the
  first pass is at a negative velocity, where the ablation term
  \<open>- Ch * rhoa * A * v^3 / (2 * Q)\<close> is positive.
\<close>

theorem mass_increases_RK4_counterexample:
  "solve_atmospheric_entry earth_constant (1 / 10) 8000 3000 (10 ^ 12) 90 100000 1 False ''RK4''
     = Some (cx_table, cx_s2, [])
   \<and> getitem cx_table ''mass'' = Inr (mass cx_s1)
   \<and> length (mass cx_s1) = 2
   \<and> mass cx_s1 ! 0 < mass cx_s1 ! 1"
proof -
  have "getitem cx_table ''mass'' = Inr (mass cx_s1)"
    by (simp add: cx_table_def getitem_def cx_masses(1))
  moreover have "mass cx_s1 ! 0 < mass cx_s1 ! 1"
    using cx_s1_mass by (simp only: cx_masses(3,4))
  ultimately show ?thesis using cx_solve cx_masses(2) by (intro conjI)
qed

text \<open>
  The two passes of the run from the altitude 25 with the velocity 10, in the same way.
\<close>

lemma fall_pass1:
  fixes s :: planet and d1 z1 v1 M1 :: real
  assumes q: "quiet s" and r: "last (radius s) = 1 / 10"
    and a: "last (angle s) = pi / 2 + d1" and z: "last (altitude s) = z1"
    and v: "last (velocity s) = v1" and m: "last (mass s) = pi * M1"
    and bd1: "0 \<le> d1 \<and> d1 \<le> 0"
    and bz1: "25 \<le> z1 \<and> z1 \<le> 25"
    and bv1: "10 \<le> v1 \<and> v1 \<le> 10"
    and bM1: "4 \<le> M1 \<and> M1 \<le> 4"
  shows "quiet (RK4_body s 1) \<and> last (radius (RK4_body s 1)) = 1 / 10
     \<and> (\<exists>d z v M. last (angle (RK4_body s 1)) = pi / 2 + d
          \<and> last (altitude (RK4_body s 1)) = z \<and> last (velocity (RK4_body s 1)) = v
          \<and> last (mass (RK4_body s 1)) = pi * M
          \<and> - 0.000029442671823444 \<le> d \<and> d \<le> - 0.00001486943055683
          \<and> 10.229299519736 \<le> z \<and> z \<le> 10.229299522107
          \<and> 19.471493453261 \<le> v \<and> v \<le> 19.471493454462
          \<and> 3.9999997867504 \<le> M \<and> M \<le> 3.9999997867505)
     \<and> list_all (\<lambda>p. 0 \<le> vel p) (RK4_points s 1)"
proof -
  define k1d where "k1d = Gd d1 z1 v1 M1"
  define k1z where "k1z = Gz d1 v1"
  define k1v where "k1v = Gv d1 v1 M1"
  define k1M where "k1M = GM v1"
  have b1: "1 \<le> cos d1 \<and> cos d1 \<le> 1"
    by (rule cos_small [where D = "0", OF bd1]) simp_all
  have b2: "0 \<le> sin d1 \<and> sin d1 \<le> 0"
    by (rule sin_small [where D = "0", OF bd1]) simp_all
  have b3: "0.1 \<le> 1 / v1 \<and> 1 / v1 \<le> 0.1"
    by (rule recip_bounds [OF bv1]) simp_all
  have b4: "0.25 \<le> 1 / M1 \<and> 1 / M1 \<le> 0.25"
    by (rule recip_bounds [OF bM1]) simp_all
  have b5: "6371025 \<le> 6371000 + z1 \<and> 6371000 + z1 \<le> 6371025"
    by (rule shift_bounds [OF bz1]) simp_all
  have b6: "0.00000015696061465776 \<le> 1 / (6371000 + z1) \<and> 1 / (6371000 + z1) \<le> 0.00000015696061465777"
    by (rule recip_bounds [OF b5]) simp_all
  have b7: "0 \<le> (sin d1) * (1 / (6371000 + z1)) \<and> (sin d1) * (1 / (6371000 + z1)) \<le> 0"
    by (rule mult_bounds [OF b2 b6]) simp_all
  have b8: "0 \<le> v1 * ((sin d1) * (1 / (6371000 + z1))) \<and> v1 * ((sin d1) * (1 / (6371000 + z1))) \<le> 0"
    by (rule mult_bounds [OF bv1 b7]) simp_all
  have b9: "0 \<le> (sin d1) * (1 / v1) \<and> (sin d1) * (1 / v1) \<le> 0"
    by (rule mult_bounds [OF b2 b3]) simp_all
  have b10: "2.5 \<le> v1 * (1 / M1) \<and> v1 * (1 / M1) \<le> 2.5"
    by (rule mult_bounds [OF bv1 b4]) simp_all
  have b11: "- 0.000015 \<le> k1d \<and> k1d \<le> - 0.000015"
    unfolding k1d_def by (rule Gd_bounds [OF b8 b9 b10]) simp_all
  have b12: "10 \<le> v1 * (cos d1) \<and> v1 * (cos d1) \<le> 10"
    by (rule mult_bounds [OF bv1 b1]) simp_all
  have b13: "- 10 \<le> k1z \<and> k1z \<le> - 10"
    unfolding k1z_def by (rule Gz_bounds [OF b12]) simp_all
  have b14: "100 \<le> v1 * v1 \<and> v1 * v1 \<le> 100"
    by (rule mult_bounds [OF bv1 bv1]) simp_all
  have b15: "25 \<le> (v1 * v1) * (1 / M1) \<and> (v1 * v1) * (1 / M1) \<le> 25"
    by (rule mult_bounds [OF b14 b4]) simp_all
  have b16: "9.66 \<le> k1v \<and> k1v \<le> 9.66"
    unfolding k1v_def by (rule Gv_bounds [OF b1 b15]) simp_all
  have b17: "1000 \<le> v1 * (v1 * v1) \<and> v1 * (v1 * v1) \<le> 1000"
    by (rule mult_bounds [OF bv1 b14]) simp_all
  have b18: "- 0.00000006 \<le> k1M \<and> k1M \<le> - 0.00000006"
    unfolding k1M_def by (rule GM_bounds [OF b17]) simp_all
  have ram1: "12 / 10 * (v1 * v1) \<le> 10 ^ 12"
    by (rule ram_bound [OF b14]) simp_all
  define d2 where "d2 = d1 + 1 / 2 * k1d"
  have b19: "- 0.0000075 \<le> d2 \<and> d2 \<le> - 0.0000075"
    unfolding d2_def by (rule axpy_bounds [OF bd1 b11]) simp_all
  define z2 where "z2 = z1 + 1 / 2 * k1z"
  have b20: "20 \<le> z2 \<and> z2 \<le> 20"
    unfolding z2_def by (rule axpy_bounds [OF bz1 b13]) simp_all
  define v2 where "v2 = v1 + 1 / 2 * k1v"
  have b21: "14.83 \<le> v2 \<and> v2 \<le> 14.83"
    unfolding v2_def by (rule axpy_bounds [OF bv1 b16]) simp_all
  define M2 where "M2 = M1 + 1 / 2 * k1M"
  have b22: "3.99999997 \<le> M2 \<and> M2 \<le> 3.99999997"
    unfolding M2_def by (rule axpy_bounds [OF bM1 b18]) simp_all
  define k2d where "k2d = Gd d2 z2 v2 M2"
  define k2z where "k2z = Gz d2 v2"
  define k2v where "k2v = Gv d2 v2 M2"
  define k2M where "k2M = GM v2"
  have b23: "0.99999999997187 \<le> cos d2 \<and> cos d2 \<le> 1"
    by (rule cos_small [where D = "0.0000075", OF b19]) simp_all
  have b24: "- 0.0000075 \<le> sin d2 \<and> sin d2 \<le> 0.0000075"
    by (rule sin_small [where D = "0.0000075", OF b19]) simp_all
  have b25: "0.067430883344571 \<le> 1 / v2 \<and> 1 / v2 \<le> 0.067430883344572"
    by (rule recip_bounds [OF b21]) simp_all
  have b26: "0.250000001875 \<le> 1 / M2 \<and> 1 / M2 \<le> 0.25000000187501"
    by (rule recip_bounds [OF b22]) simp_all
  have b27: "6371020 \<le> 6371000 + z2 \<and> 6371000 + z2 \<le> 6371020"
    by (rule shift_bounds [OF b20]) simp_all
  have b28: "0.00000015696073784103 \<le> 1 / (6371000 + z2) \<and> 1 / (6371000 + z2) \<le> 0.00000015696073784104"
    by (rule recip_bounds [OF b27]) simp_all
  have b29: "- 0.0000000000011772055338078 \<le> (sin d2) * (1 / (6371000 + z2)) \<and> (sin d2) * (1 / (6371000 + z2)) \<le> 0.0000000000011772055338078"
    by (rule mult_bounds [OF b24 b28]) simp_all
  have b30: "- 0.00000000001745795806637 \<le> v2 * ((sin d2) * (1 / (6371000 + z2))) \<and> v2 * ((sin d2) * (1 / (6371000 + z2))) \<le> 0.00000000001745795806637"
    by (rule mult_bounds [OF b21 b29]) simp_all
  have b31: "- 0.00000050573162508429 \<le> (sin d2) * (1 / v2) \<and> (sin d2) * (1 / v2) \<le> 0.00000050573162508429"
    by (rule mult_bounds [OF b24 b25]) simp_all
  have b32: "3.7075000278062 \<le> v2 * (1 / M2) \<and> v2 * (1 / M2) \<le> 3.7075000278064"
    by (rule mult_bounds [OF b21 b26]) simp_all
  have b33: "- 0.000027206244866874 \<le> k2d \<and> k2d \<le> - 0.000017283755466802"
    unfolding k2d_def by (rule Gd_bounds [OF b30 b31 b32]) simp_all
  have b34: "14.829999999582 \<le> v2 * (cos d2) \<and> v2 * (cos d2) \<le> 14.83"
    by (rule mult_bounds [OF b21 b23]) simp_all
  have b35: "- 14.83 \<le> k2z \<and> k2z \<le> - 14.829999999582"
    unfolding k2z_def by (rule Gz_bounds [OF b34]) simp_all
  have b36: "219.9289 \<le> v2 * v2 \<and> v2 * v2 \<le> 219.9289"
    by (rule mult_bounds [OF b21 b21]) simp_all
  have b37: "54.982225412366 \<le> (v2 * v2) * (1 / M2) \<and> (v2 * v2) * (1 / M2) \<le> 54.982225412369"
    by (rule mult_bounds [OF b36 b26]) simp_all
  have b38: "9.4801066472498 \<le> k2v \<and> k2v \<le> 9.4801066475259"
    unfolding k2v_def by (rule Gv_bounds [OF b23 b37]) simp_all
  have b39: "3261.545587 \<le> v2 * (v2 * v2) \<and> v2 * (v2 * v2) \<le> 3261.545587"
    by (rule mult_bounds [OF b21 b36]) simp_all
  have b40: "- 0.00000019569273522 \<le> k2M \<and> k2M \<le> - 0.00000019569273522"
    unfolding k2M_def by (rule GM_bounds [OF b39]) simp_all
  have ram2: "12 / 10 * (v2 * v2) \<le> 10 ^ 12"
    by (rule ram_bound [OF b36]) simp_all
  define d3 where "d3 = d1 + 1 / 2 * k2d"
  have b41: "- 0.000013603122433437 \<le> d3 \<and> d3 \<le> - 0.000008641877733401"
    unfolding d3_def by (rule axpy_bounds [OF bd1 b33]) simp_all
  define z3 where "z3 = z1 + 1 / 2 * k2z"
  have b42: "17.585 \<le> z3 \<and> z3 \<le> 17.585000000209"
    unfolding z3_def by (rule axpy_bounds [OF bz1 b35]) simp_all
  define v3 where "v3 = v1 + 1 / 2 * k2v"
  have b43: "14.740053323624 \<le> v3 \<and> v3 \<le> 14.740053323763"
    unfolding v3_def by (rule axpy_bounds [OF bv1 b38]) simp_all
  define M3 where "M3 = M1 + 1 / 2 * k2M"
  have b44: "3.9999999021536 \<le> M3 \<and> M3 \<le> 3.9999999021537"
    unfolding M3_def by (rule axpy_bounds [OF bM1 b40]) simp_all
  define k3d where "k3d = Gd d3 z3 v3 M3"
  define k3z where "k3z = Gz d3 v3"
  define k3v where "k3v = Gv d3 v3 M3"
  define k3M where "k3M = GM v3"
  have b45: "0.99999999990747 \<le> cos d3 \<and> cos d3 \<le> 1"
    by (rule cos_small [where D = "0.000013603122433437", OF b41]) simp_all
  have b46: "- 0.000013603122433437 \<le> sin d3 \<and> sin d3 \<le> 0.000013603122433437"
    by (rule sin_small [where D = "0.000013603122433437", OF b41]) simp_all
  have b47: "0.067842359727957 \<le> 1 / v3 \<and> 1 / v3 \<le> 0.067842359728597"
    by (rule recip_bounds [OF b43]) simp_all
  have b48: "0.25000000611539 \<le> 1 / M3 \<and> 1 / M3 \<le> 0.25000000611541"
    by (rule recip_bounds [OF b44]) simp_all
  have b49: "6371017.585 \<le> 6371000 + z3 \<and> 6371000 + z3 \<le> 6371017.5850001"
    by (rule shift_bounds [OF b42]) simp_all
  have b50: "0.00000015696079733862 \<le> 1 / (6371000 + z3) \<and> 1 / (6371000 + z3) \<le> 0.00000015696079733863"
    by (rule recip_bounds [OF b49]) simp_all
  have b51: "- 0.0000000000021351569434473 \<le> (sin d3) * (1 / (6371000 + z3)) \<and> (sin d3) * (1 / (6371000 + z3)) \<le> 0.0000000000021351569434473"
    by (rule mult_bounds [OF b46 b50]) simp_all
  have b52: "- 0.000000000031472327201017 \<le> v3 * ((sin d3) * (1 / (6371000 + z3))) \<and> v3 * ((sin d3) * (1 / (6371000 + z3))) \<le> 0.000000000031472327201017"
    by (rule mult_bounds [OF b43 b51]) simp_all
  have b53: "- 0.00000092286792556139 \<le> (sin d3) * (1 / v3) \<and> (sin d3) * (1 / v3) \<le> 0.00000092286792556139"
    by (rule mult_bounds [OF b46 b47]) simp_all
  have b54: "3.6850134210471 \<le> v3 * (1 / M3) \<and> v3 * (1 / M3) \<le> 3.6850134210823"
    by (rule mult_bounds [OF b43 b48]) simp_all
  have b55: "- 0.000031163446348579 \<le> k3d \<and> k3d \<le> - 0.000013056714704198"
    unfolding k3d_def by (rule Gd_bounds [OF b52 b53 b54]) simp_all
  have b56: "14.74005332226 \<le> v3 * (cos d3) \<and> v3 * (cos d3) \<le> 14.740053323763"
    by (rule mult_bounds [OF b43 b45]) simp_all
  have b57: "- 14.740053323763 \<le> k3z \<and> k3z \<le> - 14.74005332226"
    unfolding k3z_def by (rule Gz_bounds [OF b56]) simp_all
  have b58: "217.26917198327 \<le> v3 * v3 \<and> v3 * v3 \<le> 217.26917198738"
    by (rule mult_bounds [OF b43 b43]) simp_all
  have b59: "54.317294324503 \<le> (v3 * v3) * (1 / M3) \<and> (v3 * v3) * (1 / M3) \<le> 54.317294325536"
    by (rule mult_bounds [OF b58 b48]) simp_all
  have b60: "9.484096233139 \<le> k3v \<and> k3v \<le> 9.484096234053"
    unfolding k3v_def by (rule Gv_bounds [OF b45 b59]) simp_all
  have b61: "3202.559180613 \<le> v3 * (v3 * v3) \<and> v3 * (v3 * v3) \<le> 3202.5591807039"
    by (rule mult_bounds [OF b43 b58]) simp_all
  have b62: "- 0.00000019215355084224 \<le> k3M \<and> k3M \<le> - 0.00000019215355083678"
    unfolding k3M_def by (rule GM_bounds [OF b61]) simp_all
  have ram3: "12 / 10 * (v3 * v3) \<le> 10 ^ 12"
    by (rule ram_bound [OF b58]) simp_all
  define d4 where "d4 = d1 + 1 * k3d"
  have b63: "- 0.000031163446348579 \<le> d4 \<and> d4 \<le> - 0.000013056714704198"
    unfolding d4_def by (rule axpy_bounds [OF bd1 b55]) simp_all
  define z4 where "z4 = z1 + 1 * k3z"
  have b64: "10.259946676237 \<le> z4 \<and> z4 \<le> 10.25994667774"
    unfolding z4_def by (rule axpy_bounds [OF bz1 b57]) simp_all
  define v4 where "v4 = v1 + 1 * k3v"
  have b65: "19.484096233139 \<le> v4 \<and> v4 \<le> 19.484096234053"
    unfolding v4_def by (rule axpy_bounds [OF bv1 b60]) simp_all
  define M4 where "M4 = M1 + 1 * k3M"
  have b66: "3.9999998078464 \<le> M4 \<and> M4 \<le> 3.9999998078465"
    unfolding M4_def by (rule axpy_bounds [OF bM1 b62]) simp_all
  define k4d where "k4d = Gd d4 z4 v4 M4"
  define k4z where "k4z = Gz d4 v4"
  define k4v where "k4v = Gv d4 v4 M4"
  define k4M where "k4M = GM v4"
  have b67: "0.99999999951441 \<le> cos d4 \<and> cos d4 \<le> 1"
    by (rule cos_small [where D = "0.000031163446348579", OF b63]) simp_all
  have b68: "- 0.000031163446348579 \<le> sin d4 \<and> sin d4 \<le> 0.000031163446348579"
    by (rule sin_small [where D = "0.000031163446348579", OF b63]) simp_all
  have b69: "0.051323909920556 \<le> 1 / v4 \<and> 1 / v4 \<le> 0.051323909922965"
    by (rule recip_bounds [OF b65]) simp_all
  have b70: "0.25000001200959 \<le> 1 / M4 \<and> 1 / M4 \<le> 0.25000001200961"
    by (rule recip_bounds [OF b66]) simp_all
  have b71: "6371010.2599466 \<le> 6371000 + z4 \<and> 6371000 + z4 \<le> 6371010.2599467"
    by (rule shift_bounds [OF b64]) simp_all
  have b72: "0.00000015696097780391 \<le> 1 / (6371000 + z4) \<and> 1 / (6371000 + z4) \<le> 0.00000015696097780392"
    by (rule recip_bounds [OF b71]) simp_all
  have b73: "- 0.000000000004891445010613 \<le> (sin d4) * (1 / (6371000 + z4)) \<and> (sin d4) * (1 / (6371000 + z4)) \<le> 0.000000000004891445010613"
    by (rule mult_bounds [OF b68 b72]) simp_all
  have b74: "- 0.000000000095305385310363 \<le> v4 * ((sin d4) * (1 / (6371000 + z4))) \<and> v4 * ((sin d4) * (1 / (6371000 + z4))) \<le> 0.000000000095305385310363"
    by (rule mult_bounds [OF b65 b73]) simp_all
  have b75: "- 0.0000015994299132837 \<le> (sin d4) * (1 / v4) \<and> (sin d4) * (1 / v4) \<le> 0.0000015994299132837"
    by (rule mult_bounds [OF b68 b69]) simp_all
  have b76: "4.8710242922807 \<le> v4 * (1 / M4) \<and> v4 * (1 / M4) \<le> 4.8710242925097"
    by (rule mult_bounds [OF b65 b70]) simp_all
  have b77: "- 0.000044916648509757 \<le> k4d \<and> k4d \<le> - 0.000013535642998985"
    unfolding k4d_def by (rule Gd_bounds [OF b74 b75 b76]) simp_all
  have b78: "19.484096223677 \<le> v4 * (cos d4) \<and> v4 * (cos d4) \<le> 19.484096234053"
    by (rule mult_bounds [OF b65 b67]) simp_all
  have b79: "- 19.484096234053 \<le> k4z \<and> k4z \<le> - 19.484096223677"
    unfolding k4z_def by (rule Gz_bounds [OF b78]) simp_all
  have b80: "379.63000602222 \<le> v4 * v4 \<and> v4 * v4 \<le> 379.63000605784"
    by (rule mult_bounds [OF b65 b65]) simp_all
  have b81: "94.907506064755 \<le> (v4 * v4) * (1 / M4) \<and> (v4 * v4) * (1 / M4) \<le> 94.907506073669"
    by (rule mult_bounds [OF b80 b70]) simp_all
  have b82: "9.2405549587943 \<le> k4v \<and> k4v \<le> 9.2405549636115"
    unfolding k4v_def by (rule Gv_bounds [OF b67 b81]) simp_all
  have b83: "7396.747570324 \<le> v4 * (v4 * v4) \<and> v4 * (v4 * v4) \<le> 7396.7475713651"
    by (rule mult_bounds [OF b65 b80]) simp_all
  have b84: "- 0.00000044380485428191 \<le> k4M \<and> k4M \<le> - 0.00000044380485421944"
    unfolding k4M_def by (rule GM_bounds [OF b83]) simp_all
  have ram4: "12 / 10 * (v4 * v4) \<le> 10 ^ 12"
    by (rule ram_bound [OF b80]) simp_all
  have nd: "- 0.000029442671823444 \<le> d1 + 1 / 6 * (k1d + 2 * k2d + 2 * k3d + k4d) \<and> d1 + 1 / 6 * (k1d + 2 * k2d + 2 * k3d + k4d) \<le> - 0.00001486943055683"
    by (rule rk_bounds [OF bd1 b11 b33 b55 b77]) simp_all
  have nz: "10.229299519736 \<le> z1 + 1 / 6 * (k1z + 2 * k2z + 2 * k3z + k4z) \<and> z1 + 1 / 6 * (k1z + 2 * k2z + 2 * k3z + k4z) \<le> 10.229299522107"
    by (rule rk_bounds [OF bz1 b13 b35 b57 b79]) simp_all
  have nv: "19.471493453261 \<le> v1 + 1 / 6 * (k1v + 2 * k2v + 2 * k3v + k4v) \<and> v1 + 1 / 6 * (k1v + 2 * k2v + 2 * k3v + k4v) \<le> 19.471493454462"
    by (rule rk_bounds [OF bv1 b16 b38 b60 b82]) simp_all
  have nM: "3.9999997867504 \<le> M1 + 1 / 6 * (k1M + 2 * k2M + 2 * k3M + k4M) \<and> M1 + 1 / 6 * (k1M + 2 * k2M + 2 * k3M + k4M) \<le> 3.9999997867505"
    by (rule rk_bounds [OF bM1 b18 b40 b62 b84]) simp_all
  note new = RK4_body_quiet [where dt = 1, OF q r a z v m
      k1d_def k1z_def k1v_def k1M_def d2_def z2_def v2_def M2_def
      k2d_def k2z_def k2v_def k2M_def d3_def z3_def v3_def M3_def
      k3d_def k3z_def k3v_def k3M_def d4_def z4_def v4_def M4_def
      k4d_def k4z_def k4v_def k4M_def ram1 ram2 ram3 ram4]
  have p1: "0 \<le> v1" using bv1 by simp
  have p2: "0 \<le> v2" using b21 by simp
  have p3: "0 \<le> v3" using b43 by simp
  have p4: "0 \<le> v4" using b65 by simp
  have pos: "list_all (\<lambda>p. 0 \<le> vel p) (RK4_points s 1)"
    by (rule vel_nonneg_points [OF new(7) p1 p2 p3 p4])
  show ?thesis
    using new(1-6) nd nz nv nM pos by blast
qed

lemma fall_pass2:
  fixes s :: planet and d1 z1 v1 M1 :: real
  assumes q: "quiet s" and r: "last (radius s) = 1 / 10"
    and a: "last (angle s) = pi / 2 + d1" and z: "last (altitude s) = z1"
    and v: "last (velocity s) = v1" and m: "last (mass s) = pi * M1"
    and bd1: "- 0.000029442671823444 \<le> d1 \<and> d1 \<le> - 0.00001486943055683"
    and bz1: "10.229299519736 \<le> z1 \<and> z1 \<le> 10.229299522107"
    and bv1: "19.471493453261 \<le> v1 \<and> v1 \<le> 19.471493454462"
    and bM1: "3.9999997867504 \<le> M1 \<and> M1 \<le> 3.9999997867505"
  shows "quiet (RK4_body s 1) \<and> last (radius (RK4_body s 1)) = 1 / 10
     \<and> (\<exists>d z v M. last (angle (RK4_body s 1)) = pi / 2 + d
          \<and> last (altitude (RK4_body s 1)) = z \<and> last (velocity (RK4_body s 1)) = v
          \<and> last (mass (RK4_body s 1)) = pi * M
          \<and> - 0.0000879371644492 \<le> d \<and> d \<le> - 0.000028354866375065
          \<and> - 13.764006429272 \<le> z \<and> z \<le> - 13.76400637566
          \<and> 28.407954544931 \<le> v \<and> v \<le> 28.407954563702
          \<and> 3.9999989292088 \<le> M \<and> M \<le> 3.999998929209)
     \<and> list_all (\<lambda>p. 0 \<le> vel p) (RK4_points s 1)"
proof -
  define k1d where "k1d = Gd d1 z1 v1 M1"
  define k1z where "k1z = Gz d1 v1"
  define k1v where "k1v = Gv d1 v1 M1"
  define k1M where "k1M = GM v1"
  have b1: "0.99999999956656 \<le> cos d1 \<and> cos d1 \<le> 1"
    by (rule cos_small [where D = "0.000029442671823444", OF bd1]) simp_all
  have b2: "- 0.000029442671823444 \<le> sin d1 \<and> sin d1 \<le> 0.000029442671823444"
    by (rule sin_small [where D = "0.000029442671823444", OF bd1]) simp_all
  have b3: "0.051357128940248 \<le> 1 / v1 \<and> 1 / v1 \<le> 0.051357128943416"
    by (rule recip_bounds [OF bv1]) simp_all
  have b4: "0.25000001332809 \<le> 1 / M1 \<and> 1 / M1 \<le> 0.25000001332811"
    by (rule recip_bounds [OF bM1]) simp_all
  have b5: "6371010.2292995 \<le> 6371000 + z1 \<and> 6371000 + z1 \<le> 6371010.2292996"
    by (rule shift_bounds [OF bz1]) simp_all
  have b6: "0.00000015696097855895 \<le> 1 / (6371000 + z1) \<and> 1 / (6371000 + z1) \<le> 0.00000015696097855897"
    by (rule recip_bounds [OF b5]) simp_all
  have b7: "- 0.0000000000046213505807984 \<le> (sin d1) * (1 / (6371000 + z1)) \<and> (sin d1) * (1 / (6371000 + z1)) \<le> 0.0000000000046213505807984"
    by (rule mult_bounds [OF b2 b6]) simp_all
  have b8: "- 0.000000000089984597584791 \<le> v1 * ((sin d1) * (1 / (6371000 + z1))) \<and> v1 * ((sin d1) * (1 / (6371000 + z1))) \<le> 0.000000000089984597584791"
    by (rule mult_bounds [OF bv1 b7]) simp_all
  have b9: "- 0.0000015120910932753 \<le> (sin d1) * (1 / v1) \<and> (sin d1) * (1 / v1) \<le> 0.0000015120910932753"
    by (rule mult_bounds [OF b2 b3]) simp_all
  have b10: "4.867873622833 \<le> v1 * (1 / M1) \<and> v1 * (1 / M1) \<le> 4.8678736231338"
    by (rule mult_bounds [OF bv1 b4]) simp_all
  have b11: "- 0.000044040945348432 \<le> k1d \<and> k1d \<le> - 0.000014373538127369"
    unfolding k1d_def by (rule Gd_bounds [OF b8 b9 b10]) simp_all
  have b12: "19.471493444821 \<le> v1 * (cos d1) \<and> v1 * (cos d1) \<le> 19.471493454462"
    by (rule mult_bounds [OF bv1 b1]) simp_all
  have b13: "- 19.471493454462 \<le> k1z \<and> k1z \<le> - 19.471493444821"
    unfolding k1z_def by (rule Gz_bounds [OF b12]) simp_all
  have b14: "379.13905730038 \<le> v1 * v1 \<and> v1 * v1 \<le> 379.13905734716"
    by (rule mult_bounds [OF bv1 bv1]) simp_all
  have b15: "94.784769378294 \<le> (v1 * v1) * (1 / M1) \<and> (v1 * v1) * (1 / M1) \<le> 94.784769389998"
    by (rule mult_bounds [OF b14 b4]) simp_all
  have b16: "9.2412913794079 \<le> k1v \<and> k1v \<le> 9.2412913837303"
    unfolding k1v_def by (rule Gv_bounds [OF b1 b15]) simp_all
  have b17: "7382.4036720998 \<le> v1 * (v1 * v1) \<and> v1 * (v1 * v1) \<le> 7382.4036734662"
    by (rule mult_bounds [OF bv1 b14]) simp_all
  have b18: "- 0.00000044294422040798 \<le> k1M \<and> k1M \<le> - 0.00000044294422032598"
    unfolding k1M_def by (rule GM_bounds [OF b17]) simp_all
  have ram1: "12 / 10 * (v1 * v1) \<le> 10 ^ 12"
    by (rule ram_bound [OF b14]) simp_all
  define d2 where "d2 = d1 + 1 / 2 * k1d"
  have b19: "- 0.00005146314449766 \<le> d2 \<and> d2 \<le> - 0.000022056199620514"
    unfolding d2_def by (rule axpy_bounds [OF bd1 b11]) simp_all
  define z2 where "z2 = z1 + 1 / 2 * k1z"
  have b20: "0.493552792505 \<le> z2 \<and> z2 \<le> 0.4935527996965"
    unfolding z2_def by (rule axpy_bounds [OF bz1 b13]) simp_all
  define v2 where "v2 = v1 + 1 / 2 * k1v"
  have b21: "24.092139142964 \<le> v2 \<and> v2 \<le> 24.092139146328"
    unfolding v2_def by (rule axpy_bounds [OF bv1 b16]) simp_all
  define M2 where "M2 = M1 + 1 / 2 * k1M"
  have b22: "3.9999995652782 \<le> M2 \<and> M2 \<le> 3.9999995652784"
    unfolding M2_def by (rule axpy_bounds [OF bM1 b18]) simp_all
  define k2d where "k2d = Gd d2 z2 v2 M2"
  define k2z where "k2z = Gz d2 v2"
  define k2v where "k2v = Gv d2 v2 M2"
  define k2M where "k2M = GM v2"
  have b23: "0.99999999867577 \<le> cos d2 \<and> cos d2 \<le> 1"
    by (rule cos_small [where D = "0.00005146314449766", OF b19]) simp_all
  have b24: "- 0.00005146314449766 \<le> sin d2 \<and> sin d2 \<le> 0.00005146314449766"
    by (rule sin_small [where D = "0.00005146314449766", OF b19]) simp_all
  have b25: "0.041507314644262 \<le> 1 / v2 \<and> 1 / v2 \<le> 0.041507314650059"
    by (rule recip_bounds [OF b21]) simp_all
  have b26: "0.2500000271701 \<le> 1 / M2 \<and> 1 / M2 \<le> 0.25000002717012"
    by (rule recip_bounds [OF b22]) simp_all
  have b27: "6371000.4935527 \<le> 6371000 + z2 \<and> 6371000 + z2 \<le> 6371000.4935528"
    by (rule shift_bounds [OF b20]) simp_all
  have b28: "0.00000015696121841647 \<le> 1 / (6371000 + z2) \<and> 1 / (6371000 + z2) \<le> 0.00000015696121841648"
    by (rule recip_bounds [OF b27]) simp_all
  have b29: "- 0.0000000000080777178638961 \<le> (sin d2) * (1 / (6371000 + z2)) \<and> (sin d2) * (1 / (6371000 + z2)) \<le> 0.0000000000080777178638961"
    by (rule mult_bounds [OF b24 b28]) simp_all
  have b30: "- 0.00000000019460950276177 \<le> v2 * ((sin d2) * (1 / (6371000 + z2))) \<and> v2 * ((sin d2) * (1 / (6371000 + z2))) \<le> 0.00000000019460950276177"
    by (rule mult_bounds [OF b21 b29]) simp_all
  have b31: "- 0.0000021360969315459 \<le> (sin d2) * (1 / v2) \<and> (sin d2) * (1 / v2) \<le> 0.0000021360969315459"
    by (rule mult_bounds [OF b24 b25]) simp_all
  have b32: "6.0230354403268 \<le> v2 * (1 / M2) \<and> v2 * (1 / M2) \<le> 6.0230354411684"
    by (rule mult_bounds [OF b21 b26]) simp_all
  have b33: "- 0.000057093518154979 \<le> k2d \<and> k2d \<le> - 0.000015182907133992"
    unfolding k2d_def by (rule Gd_bounds [OF b30 b31 b32]) simp_all
  have b34: "24.09213911106 \<le> v2 * (cos d2) \<and> v2 * (cos d2) \<le> 24.092139146328"
    by (rule mult_bounds [OF b21 b23]) simp_all
  have b35: "- 24.092139146328 \<le> k2z \<and> k2z \<le> - 24.09213911106"
    unfolding k2z_def by (rule Gz_bounds [OF b34]) simp_all
  have b36: "580.43116848393 \<le> v2 * v2 \<and> v2 * v2 \<le> 580.43116864604"
    by (rule mult_bounds [OF b21 b21]) simp_all
  have b37: "145.10780789135 \<le> (v2 * v2) * (1 / M2) \<and> (v2 * v2) * (1 / M2) \<le> 145.1078079319"
    by (rule mult_bounds [OF b36 b26]) simp_all
  have b38: "8.9393531394179 \<le> k2v \<and> k2v \<le> 8.9393531526519"
    unfolding k2v_def by (rule Gv_bounds [OF b23 b37]) simp_all
  have b39: "13983.828474028 \<le> v2 * (v2 * v2) \<and> v2 * (v2 * v2) \<le> 13983.828479887"
    by (rule mult_bounds [OF b21 b36]) simp_all
  have b40: "- 0.00000083902970879322 \<le> k2M \<and> k2M \<le> - 0.00000083902970844168"
    unfolding k2M_def by (rule GM_bounds [OF b39]) simp_all
  have ram2: "12 / 10 * (v2 * v2) \<le> 10 ^ 12"
    by (rule ram_bound [OF b36]) simp_all
  define d3 where "d3 = d1 + 1 / 2 * k2d"
  have b41: "- 0.000057989430900934 \<le> d3 \<and> d3 \<le> - 0.000022460884123826"
    unfolding d3_def by (rule axpy_bounds [OF bd1 b33]) simp_all
  define z3 where "z3 = z1 + 1 / 2 * k2z"
  have b42: "- 1.816770053428 \<le> z3 \<and> z3 \<le> - 1.816770033423"
    unfolding z3_def by (rule axpy_bounds [OF bz1 b35]) simp_all
  define v3 where "v3 = v1 + 1 / 2 * k2v"
  have b43: "23.941170022969 \<le> v3 \<and> v3 \<le> 23.941170030788"
    unfolding v3_def by (rule axpy_bounds [OF bv1 b38]) simp_all
  define M3 where "M3 = M1 + 1 / 2 * k2M"
  have b44: "3.9999993672355 \<le> M3 \<and> M3 \<le> 3.9999993672357"
    unfolding M3_def by (rule axpy_bounds [OF bM1 b40]) simp_all
  define k3d where "k3d = Gd d3 z3 v3 M3"
  define k3z where "k3z = Gz d3 v3"
  define k3v where "k3v = Gv d3 v3 M3"
  define k3M where "k3M = GM v3"
  have b45: "0.99999999831861 \<le> cos d3 \<and> cos d3 \<le> 1"
    by (rule cos_small [where D = "0.000057989430900934", OF b41]) simp_all
  have b46: "- 0.000057989430900934 \<le> sin d3 \<and> sin d3 \<le> 0.000057989430900934"
    by (rule sin_small [where D = "0.000057989430900934", OF b41]) simp_all
  have b47: "0.04176905300426 \<le> 1 / v3 \<and> 1 / v3 \<le> 0.041769053017903"
    by (rule recip_bounds [OF b43]) simp_all
  have b48: "0.25000003954777 \<le> 1 / M3 \<and> 1 / M3 \<le> 0.25000003954779"
    by (rule recip_bounds [OF b44]) simp_all
  have b49: "6370998.1832299 \<le> 6371000 + z3 \<and> 6371000 + z3 \<le> 6370998.18323"
    by (rule shift_bounds [OF b42]) simp_all
  have b50: "0.00000015696127533551 \<le> 1 / (6371000 + z3) \<and> 1 / (6371000 + z3) \<le> 0.00000015696127533552"
    by (rule recip_bounds [OF b49]) simp_all
  have b51: "- 0.0000000000091020950301917 \<le> (sin d3) * (1 / (6371000 + z3)) \<and> (sin d3) * (1 / (6371000 + z3)) \<le> 0.0000000000091020950301917"
    by (rule mult_bounds [OF b46 b50]) simp_all
  have b52: "- 0.00000000021791480475421 \<le> v3 * ((sin d3) * (1 / (6371000 + z3))) \<and> v3 * ((sin d3) * (1 / (6371000 + z3))) \<le> 0.00000000021791480475421"
    by (rule mult_bounds [OF b43 b51]) simp_all
  have b53: "- 0.0000024221636137792 \<le> (sin d3) * (1 / v3) \<and> (sin d3) * (1 / v3) \<le> 0.0000024221636137792"
    by (rule mult_bounds [OF b46 b47]) simp_all
  have b54: "5.9852934525621 \<le> v3 * (1 / M3) \<and> v3 * (1 / M3) \<le> 5.9852934545174"
    by (rule mult_bounds [OF b43 b48]) simp_all
  have b55: "- 0.000059673403693084 \<le> k3d \<and> k3d \<le> - 0.000012150117749393"
    unfolding k3d_def by (rule Gd_bounds [OF b52 b53 b54]) simp_all
  have b56: "23.941169982714 \<le> v3 * (cos d3) \<and> v3 * (cos d3) \<le> 23.941170030788"
    by (rule mult_bounds [OF b43 b45]) simp_all
  have b57: "- 23.941170030788 \<le> k3z \<and> k3z \<le> - 23.941169982714"
    unfolding k3z_def by (rule Gz_bounds [OF b56]) simp_all
  have b58: "573.1796220687 \<le> v3 * v3 \<and> v3 * v3 \<le> 573.17962244311"
    by (rule mult_bounds [OF b43 b43]) simp_all
  have b59: "143.29492818515 \<le> (v3 * v3) * (1 / M3) \<and> (v3 * v3) * (1 / M3) \<le> 143.29492827877"
    by (rule mult_bounds [OF b58 b48]) simp_all
  have b60: "8.9502304138329 \<le> k3v \<and> k3v \<le> 8.9502304308891"
    unfolding k3v_def by (rule Gv_bounds [OF b45 b59]) simp_all
  have b61: "13722.590785647 \<le> v3 * (v3 * v3) \<and> v3 * (v3 * v3) \<le> 13722.590799094"
    by (rule mult_bounds [OF b43 b58]) simp_all
  have b62: "- 0.00000082335544794564 \<le> k3M \<and> k3M \<le> - 0.00000082335544713882"
    unfolding k3M_def by (rule GM_bounds [OF b61]) simp_all
  have ram3: "12 / 10 * (v3 * v3) \<le> 10 ^ 12"
    by (rule ram_bound [OF b58]) simp_all
  define d4 where "d4 = d1 + 1 * k3d"
  have b63: "- 0.000089116075516528 \<le> d4 \<and> d4 \<le> - 0.000027019548306223"
    unfolding d4_def by (rule axpy_bounds [OF bd1 b55]) simp_all
  define z4 where "z4 = z1 + 1 * k3z"
  have b64: "- 13.711870511052 \<le> z4 \<and> z4 \<le> - 13.711870460607"
    unfolding z4_def by (rule axpy_bounds [OF bz1 b57]) simp_all
  define v4 where "v4 = v1 + 1 * k3v"
  have b65: "28.421723867093 \<le> v4 \<and> v4 \<le> 28.421723885352"
    unfolding v4_def by (rule axpy_bounds [OF bv1 b60]) simp_all
  define M4 where "M4 = M1 + 1 * k3M"
  have b66: "3.9999989633949 \<le> M4 \<and> M4 \<le> 3.9999989633951"
    unfolding M4_def by (rule axpy_bounds [OF bM1 b62]) simp_all
  define k4d where "k4d = Gd d4 z4 v4 M4"
  define k4z where "k4z = Gz d4 v4"
  define k4v where "k4v = Gv d4 v4 M4"
  define k4M where "k4M = GM v4"
  have b67: "0.99999999602916 \<le> cos d4 \<and> cos d4 \<le> 1"
    by (rule cos_small [where D = "0.000089116075516528", OF b63]) simp_all
  have b68: "- 0.000089116075516528 \<le> sin d4 \<and> sin d4 \<le> 0.000089116075516528"
    by (rule sin_small [where D = "0.000089116075516528", OF b63]) simp_all
  have b69: "0.035184354194482 \<le> 1 / v4 \<and> 1 / v4 \<le> 0.035184354217086"
    by (rule recip_bounds [OF b65]) simp_all
  have b70: "0.25000006478782 \<le> 1 / M4 \<and> 1 / M4 \<le> 0.25000006478784"
    by (rule recip_bounds [OF b66]) simp_all
  have b71: "6370986.2881294 \<le> 6371000 + z4 \<and> 6371000 + z4 \<le> 6370986.2881296"
    by (rule shift_bounds [OF b64]) simp_all
  have b72: "0.00000015696156839376 \<le> 1 / (6371000 + z4) \<and> 1 / (6371000 + z4) \<le> 0.00000015696156839378"
    by (rule recip_bounds [OF b71]) simp_all
  have b73: "- 0.000000000013987798982173 \<le> (sin d4) * (1 / (6371000 + z4)) \<and> (sin d4) * (1 / (6371000 + z4)) \<le> 0.000000000013987798982173"
    by (rule mult_bounds [OF b68 b72]) simp_all
  have b74: "- 0.00000000039755736043513 \<le> v4 * ((sin d4) * (1 / (6371000 + z4))) \<and> v4 * ((sin d4) * (1 / (6371000 + z4))) \<le> 0.00000000039755736043513"
    by (rule mult_bounds [OF b65 b73]) simp_all
  have b75: "- 0.0000031354915674102 \<le> (sin d4) * (1 / v4) \<and> (sin d4) * (1 / v4) \<le> 0.0000031354915674102"
    by (rule mult_bounds [OF b68 b69]) simp_all
  have b76: "7.1054328081547 \<le> v4 * (1 / M4) \<and> v4 * (1 / M4) \<le> 7.1054328127201"
    by (rule mult_bounds [OF b65 b70]) simp_all
  have b77: "- 0.000073392166709976 \<le> k4d \<and> k4d \<le> - 0.000011873027015273"
    unfolding k4d_def by (rule Gd_bounds [OF b74 b75 b76]) simp_all
  have b78: "28.421723754234 \<le> v4 * (cos d4) \<and> v4 * (cos d4) \<le> 28.421723885352"
    by (rule mult_bounds [OF b65 b67]) simp_all
  have b79: "- 28.421723885352 \<le> k4z \<and> k4z \<le> - 28.421723754234"
    unfolding k4z_def by (rule Gz_bounds [OF b78]) simp_all
  have b80: "807.79438757728 \<le> v4 * v4 \<and> v4 * v4 \<le> 807.79438861519"
    by (rule mult_bounds [OF b65 b65]) simp_all
  have b81: "201.94864922955 \<le> (v4 * v4) * (1 / M4) \<and> (v4 * v4) * (1 / M4) \<le> 201.94864948906"
    by (rule mult_bounds [OF b80 b70]) simp_all
  have b82: "8.5983080641116 \<le> k4v \<and> k4v \<le> 8.5983081046227"
    unfolding k4v_def by (rule Gv_bounds [OF b67 b81]) simp_all
  have b83: "22958.909025108 \<le> v4 * (v4 * v4) \<and> v4 * (v4 * v4) \<le> 22958.909069358"
    by (rule mult_bounds [OF b65 b80]) simp_all
  have b84: "- 0.0000013775345441615 \<le> k4M \<and> k4M \<le> - 0.0000013775345415064"
    unfolding k4M_def by (rule GM_bounds [OF b83]) simp_all
  have ram4: "12 / 10 * (v4 * v4) \<le> 10 ^ 12"
    by (rule ram_bound [OF b80]) simp_all
  have nd: "- 0.0000879371644492 \<le> d1 + 1 / 6 * (k1d + 2 * k2d + 2 * k3d + k4d) \<and> d1 + 1 / 6 * (k1d + 2 * k2d + 2 * k3d + k4d) \<le> - 0.000028354866375065"
    by (rule rk_bounds [OF bd1 b11 b33 b55 b77]) simp_all
  have nz: "- 13.764006429272 \<le> z1 + 1 / 6 * (k1z + 2 * k2z + 2 * k3z + k4z) \<and> z1 + 1 / 6 * (k1z + 2 * k2z + 2 * k3z + k4z) \<le> - 13.76400637566"
    by (rule rk_bounds [OF bz1 b13 b35 b57 b79]) simp_all
  have nv: "28.407954544931 \<le> v1 + 1 / 6 * (k1v + 2 * k2v + 2 * k3v + k4v) \<and> v1 + 1 / 6 * (k1v + 2 * k2v + 2 * k3v + k4v) \<le> 28.407954563702"
    by (rule rk_bounds [OF bv1 b16 b38 b60 b82]) simp_all
  have nM: "3.9999989292088 \<le> M1 + 1 / 6 * (k1M + 2 * k2M + 2 * k3M + k4M) \<and> M1 + 1 / 6 * (k1M + 2 * k2M + 2 * k3M + k4M) \<le> 3.999998929209"
    by (rule rk_bounds [OF bM1 b18 b40 b62 b84]) simp_all
  note new = RK4_body_quiet [where dt = 1, OF q r a z v m
      k1d_def k1z_def k1v_def k1M_def d2_def z2_def v2_def M2_def
      k2d_def k2z_def k2v_def k2M_def d3_def z3_def v3_def M3_def
      k3d_def k3z_def k3v_def k3M_def d4_def z4_def v4_def M4_def
      k4d_def k4z_def k4v_def k4M_def ram1 ram2 ram3 ram4]
  have p1: "0 \<le> v1" using bv1 by simp
  have p2: "0 \<le> v2" using b21 by simp
  have p3: "0 \<le> v3" using b43 by simp
  have p4: "0 \<le> v4" using b65 by simp
  have pos: "list_all (\<lambda>p. 0 \<le> vel p) (RK4_points s 1)"
    by (rule vel_nonneg_points [OF new(7) p1 p2 p3 p4])
  show ?thesis
    using new(1-6) nd nz nv nM pos by blast
qed

text \<open>
  The run of the falling body: its first pass ends above the ground, its second below
  it, and none of the eight derivative evaluations is at a negative velocity.
\<close>

lemma fall_s0_simps:
  "quiet fall_s0" "last (radius fall_s0) = 1 / 10" "last (angle fall_s0) = pi / 2 + 0"
  "last (altitude fall_s0) = 25" "last (velocity fall_s0) = 10" "last (mass fall_s0) = pi * 4"
  "mass fall_s0 = [pi * 4]"
  by (simp_all add: fall_s0_def entry_state_def start_def earth_constant_def quiet_def
        power3_eq_cube)

lemma fall_s1_state:
  "quiet fall_s1 \<and> last (radius fall_s1) = 1 / 10
     \<and> (\<exists>d z v M. last (angle fall_s1) = pi / 2 + d
          \<and> last (altitude fall_s1) = z \<and> last (velocity fall_s1) = v
          \<and> last (mass fall_s1) = pi * M
          \<and> - 0.000029442671823444 \<le> d \<and> d \<le> - 0.00001486943055683
          \<and> 10.229299519736 \<le> z \<and> z \<le> 10.229299522107
          \<and> 19.471493453261 \<le> v \<and> v \<le> 19.471493454462
          \<and> 3.9999997867504 \<le> M \<and> M \<le> 3.9999997867505)
     \<and> list_all (\<lambda>p. 0 \<le> vel p) (RK4_points fall_s0 1)"
  unfolding fall_s1_def
  by (rule fall_pass1 [OF fall_s0_simps(1-6)]) simp_all

lemma fall_s1_not_stopped: "\<not> stopped fall_s1 25"
proof -
  obtain z v M where f: "last (altitude fall_s1) = z" "last (velocity fall_s1) = v"
    "last (mass fall_s1) = pi * M" "last (radius fall_s1) = 1 / 10"
    and b: "10.229299519736 \<le> z" "z \<le> 10.229299522107" "19.471493453261 \<le> v" "3.9999997867504 \<le> M"
    using fall_s1_state by blast
  have "0 < M" using b by simp
  then have m: "0 < pi * M" by simp
  have "0 < z" "z < 25" "0 < v" using b by simp_all
  with m show ?thesis by (simp add: stopped_def f not_le)
qed

lemma fall_s2_state:
  "stopped fall_s2 25" "list_all (\<lambda>p. 0 \<le> vel p) (RK4_points fall_s1 1)"
proof -
  obtain d z v M where s1: "last (angle fall_s1) = pi / 2 + d"
     "last (altitude fall_s1) = z" "last (velocity fall_s1) = v" "last (mass fall_s1) = pi * M"
     "- 0.000029442671823444 \<le> d \<and> d \<le> - 0.00001486943055683"
     "10.229299519736 \<le> z \<and> z \<le> 10.229299522107"
     "19.471493453261 \<le> v \<and> v \<le> 19.471493454462"
     "3.9999997867504 \<le> M \<and> M \<le> 3.9999997867505"
    and q: "quiet fall_s1" and r: "last (radius fall_s1) = 1 / 10"
    using fall_s1_state by blast
  note p = fall_pass2 [OF q r s1]
  from p obtain z' where "last (altitude fall_s2) = z'" "z' \<le> - 13.76400637566"
    unfolding fall_s2_def by blast
  then show "stopped fall_s2 25" by (simp add: stopped_def)
  show "list_all (\<lambda>p. 0 \<le> vel p) (RK4_points fall_s1 1)" using p by blast
qed

lemma fall_passes:
  "after_passes earth_constant (1 / 10) 10 3000 (10 ^ 12) 90 25 1 False ''RK4'' 0 = fall_s0"
  "after_passes earth_constant (1 / 10) 10 3000 (10 ^ 12) 90 25 1 False ''RK4'' (Suc 0) = fall_s1"
  "after_passes earth_constant (1 / 10) 10 3000 (10 ^ 12) 90 25 1 False ''RK4'' (Suc (Suc 0)) = fall_s2"
  by (simp_all add: after_passes_def select_solver_def fall_s0_def fall_s1_def fall_s2_def)

lemma fall_stops: "stopped (after_passes earth_constant (1 / 10) 10 3000 (10 ^ 12) 90 25 1 False ''RK4'' (Suc (Suc 0))) 25"
  using fall_s2_state(1) by (simp only: fall_passes)

lemma fall_velocities:
  "\<forall>k\<le>Suc 0. list_all (\<lambda>p. 0 \<le> vel p) (RK4_points (after_passes earth_constant (1 / 10) 10 3000 (10 ^ 12) 90 25 1 False ''RK4'' k) 1)"
proof (intro allI impI)
  fix k :: nat assume "k \<le> Suc 0"
  then consider "k = 0" | "k = Suc 0" by linarith
  then show "list_all (\<lambda>p. 0 \<le> vel p) (RK4_points (after_passes earth_constant (1 / 10) 10 3000 (10 ^ 12) 90 25 1 False ''RK4'' k) 1)"
  proof cases
    case 1
    show ?thesis unfolding 1 fall_passes using fall_s1_state by blast
  next
    case 2
    show ?thesis unfolding 2 fall_passes by (rule fall_s2_state(2))
  qed
qed

lemma fall_solve:
  "solve_atmospheric_entry earth_constant (1 / 10) 10 3000 (10 ^ 12) 90 25 1 False ''RK4''
     = Some (fall_table, fall_s2, [])"
proof -
  have b: "\<not> stopped (after_passes earth_constant (1 / 10) 10 3000 (10 ^ 12) 90 25 1 False ''RK4'' (Suc k)) 25" if "k < Suc 0" for k
  proof -
    have k: "k = 0" using that by simp
    show ?thesis unfolding k fall_passes(2) by (rule fall_s1_not_stopped)
  qed
  obtain df where
    "solve_atmospheric_entry earth_constant (1 / 10) 10 3000 (10 ^ 12) 90 25 1 False ''RK4''
     = Some (df, after_passes earth_constant (1 / 10) 10 3000 (10 ^ 12) 90 25 1 False ''RK4'' (Suc (Suc 0)), snd (select_solver ''RK4''))"
    using solve_first_stop [OF fall_stops b] by blast
  then have s: "solve_atmospheric_entry earth_constant (1 / 10) 10 3000 (10 ^ 12) 90 25 1
      False ''RK4'' = Some (df, fall_s2, [])"
    unfolding fall_passes by (simp add: select_solver_def)
  from solve_Some(2) [OF s] have "df = fall_table" by (simp add: fall_table_def)
  with s show ?thesis by simp
qed

lemma fall_masses:
  "butlast (mass fall_s2) = mass fall_s1" "length (mass fall_s1) = 2"
proof -
  obtain x where x: "mass fall_s2 = mass fall_s1 @ [x]"
    unfolding fall_s2_def using RK4_body_mass by blast
  obtain y where y: "mass fall_s1 = mass fall_s0 @ [y]"
    unfolding fall_s1_def using RK4_body_mass by blast
  show "butlast (mass fall_s2) = mass fall_s1" by (simp add: x)
  show "length (mass fall_s1) = 2" by (simp add: y fall_s0_simps)
qed

lemma fall_table_simps:
  "getitem fall_table ''mass'' = Inr (mass fall_s1)" "len_df fall_table = 2"
proof -
  show "getitem fall_table ''mass'' = Inr (mass fall_s1)"
    by (simp add: fall_table_def getitem_def fall_masses(1))
  obtain x where x: "velocity fall_s2 = velocity fall_s1 @ [x]"
    unfolding fall_s2_def using RK4_body_frame [of fall_s1 1] by auto
  obtain y where y: "velocity fall_s1 = velocity fall_s0 @ [y]"
    unfolding fall_s1_def using RK4_body_frame [of fall_s0 1] by auto
  have "velocity fall_s0 = [10]" by (simp add: fall_s0_def entry_state_def start_def)
  then show "len_df fall_table = 2" by (simp add: fall_table_def len_df_def x y)
qed

text \<open>
  The theorem at the two example runs. The Euler run: the second row holds
  \<open>6e-6 * pi\<close> less mass than the first. The Runge-Kutta run of the falling body,
  whose eight derivative evaluations are all at a positive velocity: the mass of its
  second row is not greater than that of its first.
\<close>

theorem mass_nonincreasing_witness:
  "solve_atmospheric_entry earth_constant 1 10 3000 150 90 25 1 False ''FE''
     = Some (ex_result, ex_s2, [])
   \<and> getitem ex_result ''mass'' = Inr [4000 * pi, (4000 - 6 / 10 ^ 6) * pi]
   \<and> len_df ex_result = 2
   \<and> [4000 * pi, (4000 - 6 / 10 ^ 6) * pi] ! Suc 0 \<le> [4000 * pi, (4000 - 6 / 10 ^ 6) * pi] ! 0
   \<and> nonincreasing (mass ex_s2)
   \<and> solve_atmospheric_entry earth_constant (1 / 10) 10 3000 (10 ^ 12) 90 25 1 False ''RK4''
       = Some (fall_table, fall_s2, [])
   \<and> getitem fall_table ''mass'' = Inr (mass fall_s1)
   \<and> len_df fall_table = 2
   \<and> mass fall_s1 ! Suc 0 \<le> mass fall_s1 ! 0
   \<and> nonincreasing (mass fall_s2)"
proof -
  obtain df self' printed ms where
    s: "solve_atmospheric_entry earth_constant 1 10 3000 150 90 25 1 False ''FE''
          = Some (df, self', printed)"
    and c: "getitem df ''mass'' = Inr ms"
    and i: "\<forall>i. Suc i < len_df df \<longrightarrow> ms ! Suc i \<le> ms ! i"
    and n: "nonincreasing (mass self')"
    using mass_nonincreasing [OF ex_stops _ ex_consts(2-4)] ex_consts(1) by auto
  have e: "df = ex_result" "self' = ex_s2" using s ex_solve by simp_all
  then have m: "ms = [4000 * pi, (4000 - 6 / 10 ^ 6) * pi]" using c ex_result_cols(2) by simp
  have "Suc 0 < len_df df" using e ex_result_len by simp
  then have "ms ! Suc 0 \<le> ms ! 0" using i by blast
  then have 1: "[4000 * pi, (4000 - 6 / 10 ^ 6) * pi] ! Suc 0
      \<le> [4000 * pi, (4000 - 6 / 10 ^ 6) * pi] ! (0 :: nat)" unfolding m .
  have 2: "nonincreasing (mass ex_s2)" using n e by simp
  have h: "''RK4'' = ''RK4'' \<longrightarrow>
      (\<forall>k\<le>Suc 0. list_all (\<lambda>p. 0 \<le> vel p) (RK4_points (after_passes earth_constant (1 / 10) 10 3000 (10 ^ 12) 90 25 1 False ''RK4'' k) 1))"
    using fall_velocities by blast
  obtain df' self'' printed' ms' where
    s': "solve_atmospheric_entry earth_constant (1 / 10) 10 3000 (10 ^ 12) 90 25 1 False ''RK4''
          = Some (df', self'', printed')"
    and c': "getitem df' ''mass'' = Inr ms'"
    and i': "\<forall>i. Suc i < len_df df' \<longrightarrow> ms' ! Suc i \<le> ms' ! i"
    and n': "nonincreasing (mass self'')"
    using mass_nonincreasing [OF fall_stops _ ex_consts(2-4) _ _ h] ex_consts(1) by auto
  have e': "df' = fall_table" "self'' = fall_s2" using s' fall_solve by simp_all
  then have m': "ms' = mass fall_s1" using c' fall_table_simps(1) by simp
  have "Suc 0 < len_df df'" using e' fall_table_simps(2) by simp
  then have "ms' ! Suc 0 \<le> ms' ! 0" using i' by blast
  then have 3: "mass fall_s1 ! Suc 0 \<le> mass fall_s1 ! 0" unfolding m' .
  have 4: "nonincreasing (mass fall_s2)" using n' e' by simp
  show ?thesis
    using ex_solve ex_result_cols(2) ex_result_len 1 2 fall_solve fall_table_simps 3 4
    by (intro conjI)
qed

end
